theory Spec2Isabelle
  imports Complex_Main
begin

section \<open>Per-tenant scheduler: \<open>frequencyToCron\<close> (services/cronService.js)\<close>

text \<open>
  Template literals render a number in decimal. The scheduler only ever renders
  integers, so the rendering is modelled on integers: a minus sign for a negative
  number, then the decimal digits, most significant first.
\<close>

definition digit_char :: "nat \<Rightarrow> char" where
  "digit_char d =
     (if d = 0 then CHR ''0'' else if d = 1 then CHR ''1'' else if d = 2 then CHR ''2''
      else if d = 3 then CHR ''3'' else if d = 4 then CHR ''4'' else if d = 5 then CHR ''5''
      else if d = 6 then CHR ''6'' else if d = 7 then CHR ''7'' else if d = 8 then CHR ''8''
      else CHR ''9'')"

function string_of_nat :: "nat \<Rightarrow> string" where
  "string_of_nat n =
     (if n < 10 then [digit_char n]
      else string_of_nat (n div 10) @ [digit_char (n mod 10)])"
  by pat_completeness auto
termination
  by (relation "measure (\<lambda>n. n)") auto

declare string_of_nat.simps [simp del]

definition js_string_of_int :: "int \<Rightarrow> string" where
  "js_string_of_int i =
     (if i < 0 then CHR ''-'' # string_of_nat (nat (- i)) else string_of_nat (nat i))"

text \<open>
  \<^verbatim>\<open>
  const frequencyToCron = (frequencyMinutes) => {
    const minutes = Math.max(15, frequencyMinutes);
    if (minutes < 60) { return `*/${minutes} * * * *`; }
    const hours = Math.floor(minutes / 60);
    if (hours < 24) { return `0 */${hours} * * *`; }
    return '0 0 * * *';
  };
  \<close>
  On integers \<open>Math.floor (minutes / 60)\<close> is \<open>minutes div 60\<close>.
\<close>

definition frequencyToCron :: "int \<Rightarrow> string" where
  "frequencyToCron frequencyMinutes =
     (let minutes = max 15 frequencyMinutes in
      if minutes < 60 then ''*/'' @ js_string_of_int minutes @ '' * * * *''
      else
        let hours = minutes div 60 in
        if hours < 24 then ''0 */'' @ js_string_of_int hours @ '' * * *''
        else ''0 0 * * *'')"

text \<open>
  The expected rendering of a number below 100, written out digit by digit
  (independently of \<^const>\<open>string_of_nat\<close>): one digit below ten, two digits otherwise.
\<close>

definition short_decimal :: "int \<Rightarrow> string" where
  "short_decimal i =
     (if i < 10 then [digit_char (nat i)]
      else [digit_char (nat (i div 10)), digit_char (nat (i mod 10))])"

definition every_n_minutes :: "int \<Rightarrow> string" where
  "every_n_minutes n = ''*/'' @ short_decimal n @ '' * * * *''"

definition every_h_hours :: "int \<Rightarrow> string" where
  "every_h_hours h = ''0 */'' @ short_decimal h @ '' * * *''"

definition daily_at_midnight :: string where
  "daily_at_midnight = ''0 0 * * *''"


section \<open>Retry executor: \<open>retryWithBackoff\<close> (adapters/ebayAdapter.js, adapters/supplierAdapter.js)\<close>

text \<open>
  \<^verbatim>\<open>
  const retryWithBackoff = async (fn, maxRetries = MAX_RETRIES, baseDelay = BASE_DELAY) => {
    for (let attempt = 0; attempt < maxRetries; attempt++) {
      try {
        return await fn();
      } catch (error) {
        if (attempt === maxRetries - 1) { throw error; }
        const delay = baseDelay * Math.pow(2, attempt);
        await new Promise(resolve => setTimeout(resolve, delay));
      }
    }
  };
  \<close>
  The operation is effectful: each invocation may behave differently. It is modelled by
  the sequence of its outcomes, \<open>fn k\<close> being what the invocation number \<open>k\<close> (counted
  from 0) does: \<open>Inl e\<close> when it throws \<open>e\<close>, \<open>Inr v\<close> when it returns \<open>v\<close>. The run
  records how often the operation was invoked and every delay that was waited for, in
  order. A loop that falls through (no iteration at all) returns \<open>undefined\<close>.
\<close>

datatype ('e, 'a) js_result = Returned 'a | Threw 'e | ReturnedUndefined

record ('e, 'a) retry_run =
  result :: "('e, 'a) js_result"
  invocations :: nat
  delays :: "int list"

function retry_loop ::
  "(nat \<Rightarrow> 'e + 'a) \<Rightarrow> int \<Rightarrow> int \<Rightarrow> nat \<Rightarrow> nat \<Rightarrow> int list \<Rightarrow> ('e, 'a) retry_run" where
  "retry_loop fn maxRetries baseDelay attempt calls waited =
     (if int attempt < maxRetries then
        (case fn calls of
           Inr v \<Rightarrow> \<lparr>result = Returned v, invocations = calls + 1, delays = waited\<rparr>
         | Inl e \<Rightarrow>
             if int attempt = maxRetries - 1
             then \<lparr>result = Threw e, invocations = calls + 1, delays = waited\<rparr>
             else retry_loop fn maxRetries baseDelay (attempt + 1) (calls + 1)
                    (waited @ [baseDelay * 2 ^ attempt]))
      else \<lparr>result = ReturnedUndefined, invocations = calls, delays = waited\<rparr>)"
  by pat_completeness auto
termination
  by (relation "measure (\<lambda>(fn, maxRetries, baseDelay, attempt, calls, waited).
        nat (maxRetries - int attempt))") auto

declare retry_loop.simps [simp del]

definition retryWithBackoff :: "(nat \<Rightarrow> 'e + 'a) \<Rightarrow> int \<Rightarrow> int \<Rightarrow> ('e, 'a) retry_run" where
  "retryWithBackoff fn maxRetries baseDelay = retry_loop fn maxRetries baseDelay 0 0 []"

text \<open>The operation of the spec's example: it fails twice, then succeeds.\<close>

definition fails_twice :: "nat \<Rightarrow> string + nat" where
  "fails_twice k = (if k < 2 then Inl ''timeout'' else Inr 42)"

text \<open>An operation that fails at every invocation, each time with another error.\<close>

definition always_fails :: "nat \<Rightarrow> string + nat" where
  "always_fails k = Inl (''failure '' @ string_of_nat k)"


section \<open>Change detection: \<open>checkProduct\<close> (services/monitoringService.js)\<close>

subsection \<open>Data model (models/Product.js, models/Settings.js, models/Alert.js, models/PriceHistory.js)\<close>

text \<open>
  Prices are JavaScript numbers; they are modelled as rationals, so that the arithmetic
  of the source, \<open>(new - old) / old * 100\<close>, is exact. Stock states are the four strings
  of the schema's enum. The values stored in an alert's \<open>oldValue\<close> and \<open>newValue\<close> are
  of mixed type in the schema: a number, a plain string or a stock-state string.
\<close>

datatype stock = in_stock | out_of_stock | low_stock | unknown

datatype js_value = Num rat | Str string | StockStr stock

datatype alert_type =
  Price_increase | Price_decrease | Out_of_stock | Back_in_stock
  | Supplier_unavailable | Supplier_available | Low_stock | Competitor_price

datatype severity = low | medium | high | critical

datatype source = Ebay | Supplier | Competitor

text \<open>
  The message of an alert is a fixed text or a template filled with numbers; the model
  keeps the template and its arguments rather than the rendered text:
  \<^item> \<open>EbayPriceChanged old new pc\<close>: "eBay price changed from GBP old to GBP new (pc%)";
  \<^item> \<open>SupplierPriceChanged old new pc\<close>: "Supplier price changed from GBP old to GBP new (pc%)";
  \<^item> \<open>EbayOutOfStock\<close>: "Product is now out of stock on eBay";
  \<^item> \<open>EbayBackInStock\<close>: "Product is back in stock on eBay";
  \<^item> \<open>SupplierOutOfStock\<close>: "Product is now out of stock at supplier";
  \<^item> \<open>SupplierBackInStock\<close>: "Product is back in stock at supplier";
  \<^item> \<open>SupplierFetchFailed\<close>: "Unable to fetch data from supplier";
  \<^item> \<open>CompetitorCheaper seller pd diff\<close>: "Competitor seller is pd% cheaper (difference GBP diff)".
\<close>

datatype alert_message =
  EbayPriceChanged rat rat rat
  | SupplierPriceChanged rat rat rat
  | EbayOutOfStock
  | EbayBackInStock
  | SupplierOutOfStock
  | SupplierBackInStock
  | SupplierFetchFailed
  | CompetitorCheaper string rat rat

record alert =
  alertType :: alert_type
  oldValue :: js_value
  newValue :: js_value
  message :: alert_message
  severity :: severity

record price_history =
  hist_source :: source
  hist_price :: rat
  hist_stock :: stock

record competitor_listing =
  listing_sellerName :: string
  listing_price :: rat
  listing_id :: string

record competitor_summary =
  lowestPrice :: rat
  sellerName :: string

record insights =
  listings :: "competitor_listing list"
  summary :: "competitor_summary option"

text \<open>
  The fields of a product that \<open>checkProduct\<close> reads or writes. \<open>supplierUrl\<close> is
  optional; \<open>profitMargin\<close> (the margin rounded by \<open>toFixed(2)\<close>) is left out.
\<close>

record product =
  title :: string
  ebayUrl :: string
  ebayPrice :: rat
  supplierUrl :: "string option"
  supplierPrice :: rat
  stockStatus :: stock
  supplierStockStatus :: stock
  images :: "string list"
  competitorListings :: "competitor_listing list"
  competitorStats :: "competitor_summary option"
  lastCheckedAt :: int
  profit :: rat

record alert_types =
  priceIncrease :: bool
  priceDecrease :: bool
  outOfStock :: bool
  supplierUnavailable :: bool
  lowStock :: bool
  competitorPrice :: bool

record settings =
  priceChangeThreshold :: rat
  alertTypes :: "alert_types option"

text \<open>
  The environment variables read by \<open>checkProduct\<close>, as numbers: \<open>None\<close> when the
  variable is unset or empty.
\<close>

record proc_env =
  PRICE_CHANGE_THRESHOLD :: "rat option"
  COMPETITOR_PRICE_ALERT_PERCENT :: "rat option"

text \<open>What the adapters deliver to \<open>checkProduct\<close>.\<close>

record item_data =
  item_title :: string
  item_images :: "string list"
  item_price :: rat
  item_itemId :: string
  item_variations :: "(string \<times> (string \<times> string) list) list"
  item_stock :: stock
  item_description :: string

record supplier_data =
  sup_title :: string
  sup_price :: rat
  sup_stock :: stock
  sup_images :: "string list"

text \<open>
  One run of \<open>checkProduct\<close> sees one answer of each collaborator: \<open>Inl msg\<close> when the
  call throws, \<open>Inr None\<close> when it returns \<open>null\<close>, \<open>Inr (Some d)\<close> when it returns data.
  \<open>now\<close> is the clock (\<open>Date.now()\<close>). The calls of the persistence layer (the lookup of
  the settings, \<open>Alert.create\<close> inside \<open>createAlert\<close>, \<open>PriceHistory.create\<close>,
  \<open>product.save\<close>) are taken to succeed, so the outer \<open>catch\<close> of \<open>checkProduct\<close> is never
  entered; the calls of \<open>createAlert\<close> and of \<open>PriceHistory.create\<close> are recorded in order.
  An alert is emitted when \<open>createAlert\<close> is called.
\<close>

record world =
  ebayFetch :: "string + item_data option"
  supplierFetch :: "string + supplier_data option"
  competitorFetch :: "string + insights option"
  now :: int

record step_result =
  step_product :: product
  step_alerts :: "alert list"
  step_history :: "price_history list"
  step_changed :: bool

record check_result =
  success :: bool
  checked :: product
  alerts :: "alert list"
  history :: "price_history list"
  fetched :: "source list"
  saved :: bool

subsection \<open>The steps of \<open>checkProduct\<close>\<close>

text \<open>
  \<^verbatim>\<open>const priceChangeThreshold =
    settings?.priceChangeThreshold || process.env.PRICE_CHANGE_THRESHOLD || 5;\<close>
  \<open>||\<close> takes its right operand when the left one is falsy, and the number 0 is falsy.
\<close>

definition effectiveThreshold :: "settings \<Rightarrow> proc_env \<Rightarrow> rat" where
  "effectiveThreshold st env =
     (if priceChangeThreshold st \<noteq> 0 then priceChangeThreshold st
      else case PRICE_CHANGE_THRESHOLD env of Some t \<Rightarrow> t | None \<Rightarrow> 5)"

text \<open>\<^verbatim>\<open>Number(process.env.COMPETITOR_PRICE_ALERT_PERCENT || 3)\<close>\<close>

definition competitorAlertPercent :: "proc_env \<Rightarrow> rat" where
  "competitorAlertPercent env =
     (case COMPETITOR_PRICE_ALERT_PERCENT env of Some t \<Rightarrow> t | None \<Rightarrow> 3)"

text \<open>
  \<^verbatim>\<open>const shouldAlert = !settings || !settings.alertTypes || settings.alertTypes[key] !== false;\<close>
  \<open>checkProduct\<close> has resolved the settings before, so they are present.
\<close>

definition shouldAlert :: "settings \<Rightarrow> (alert_types \<Rightarrow> bool) \<Rightarrow> bool" where
  "shouldAlert st flag = (case alertTypes st of None \<Rightarrow> True | Some t \<Rightarrow> flag t \<noteq> False)"

definition percentChange :: "rat \<Rightarrow> rat \<Rightarrow> rat" where
  "percentChange old new = ((new - old) / old) * 100"

text \<open>
  The price check, written twice in the source (once for the marketplace, once for the
  supplier) with only the message differing; \<open>mk\<close> is the message template.
\<close>

definition priceAlerts ::
  "settings \<Rightarrow> rat \<Rightarrow> (rat \<Rightarrow> rat \<Rightarrow> rat \<Rightarrow> alert_message) \<Rightarrow> rat \<Rightarrow> rat \<Rightarrow> alert list" where
  "priceAlerts st threshold mk old new =
     (if new \<noteq> old \<and> old > 0 then
        (let pc = percentChange old new in
         if \<bar>pc\<bar> \<ge> threshold then
           (if shouldAlert st (if new > old then priceIncrease else priceDecrease) then
              [\<lparr>alertType = (if new > old then Price_increase else Price_decrease),
                oldValue = Num old, newValue = Num new, message = mk old new pc,
                severity = (if \<bar>pc\<bar> > 10 then high else medium)\<rparr>]
            else [])
         else [])
      else [])"

text \<open>
  The stock check, also written twice: \<open>src\<close> is \<open>'ebay'\<close> or \<open>'supplier'\<close>, \<open>sev\<close> the
  severity of the out-of-stock alert, \<open>msgOut\<close> and \<open>msgBack\<close> the two messages.
\<close>

definition stockAlerts ::
  "settings \<Rightarrow> string \<Rightarrow> severity \<Rightarrow> alert_message \<Rightarrow> alert_message \<Rightarrow> stock \<Rightarrow> stock \<Rightarrow> alert list" where
  "stockAlerts st src sev msgOut msgBack old new =
     (if new \<noteq> old then
        (if shouldAlert st outOfStock then
           (if new = out_of_stock then
              [\<lparr>alertType = Out_of_stock, oldValue = Str src, newValue = StockStr old,
                message = msgOut, severity = sev\<rparr>]
            else if old = out_of_stock then
              [\<lparr>alertType = Back_in_stock, oldValue = StockStr old, newValue = Str src,
                message = msgBack, severity = medium\<rparr>]
            else [])
         else [])
      else [])"

text \<open>Lines 86-164: the marketplace step. A throwing fetch is caught and only logged.\<close>

definition ebayStep :: "settings \<Rightarrow> rat \<Rightarrow> world \<Rightarrow> product \<Rightarrow> step_result" where
  "ebayStep st threshold w p =
     (case ebayFetch w of
        Inl err \<Rightarrow> \<lparr>step_product = p, step_alerts = [], step_history = [], step_changed = False\<rparr>
      | Inr None \<Rightarrow> \<lparr>step_product = p, step_alerts = [], step_history = [], step_changed = False\<rparr>
      | Inr (Some ebayData) \<Rightarrow>
          \<lparr>step_product =
             p\<lparr>ebayPrice := item_price ebayData,
               stockStatus := item_stock ebayData,
               title := item_title ebayData,
               images := (if item_images ebayData \<noteq> [] then item_images ebayData else images p)\<rparr>,
           step_alerts =
             priceAlerts st threshold EbayPriceChanged (ebayPrice p) (item_price ebayData) @
             stockAlerts st ''ebay'' high EbayOutOfStock EbayBackInStock
               (stockStatus p) (item_stock ebayData),
           step_history =
             [\<lparr>hist_source = Ebay, hist_price = item_price ebayData,
               hist_stock = item_stock ebayData\<rparr>],
           step_changed = True\<rparr>)"

text \<open>\<open>if (product.supplierUrl)\<close>: the URL is present and not the empty string.\<close>

definition hasSupplierUrl :: "product \<Rightarrow> bool" where
  "hasSupplierUrl p = (case supplierUrl p of None \<Rightarrow> False | Some u \<Rightarrow> u \<noteq> [])"

text \<open>
  Lines 166-257: the supplier step. \<open>oldSupplierPrice\<close> and \<open>oldSupplierStock\<close> were read
  from the product before the marketplace step, which does not write them.
\<close>

definition supplierStep ::
  "settings \<Rightarrow> rat \<Rightarrow> world \<Rightarrow> rat \<Rightarrow> stock \<Rightarrow> product \<Rightarrow> step_result" where
  "supplierStep st threshold w oldSupplierPrice oldSupplierStock p =
     (if hasSupplierUrl p then
        (case supplierFetch w of
           Inr (Some supplierData) \<Rightarrow>
             \<lparr>step_product =
                p\<lparr>supplierPrice := sup_price supplierData,
                  supplierStockStatus := sup_stock supplierData\<rparr>,
              step_alerts =
                priceAlerts st threshold SupplierPriceChanged oldSupplierPrice
                  (sup_price supplierData) @
                stockAlerts st ''supplier'' critical SupplierOutOfStock SupplierBackInStock
                  oldSupplierStock (sup_stock supplierData),
              step_history =
                [\<lparr>hist_source = Supplier, hist_price = sup_price supplierData,
                  hist_stock = sup_stock supplierData\<rparr>],
              step_changed = True\<rparr>
         | Inr None \<Rightarrow>
             \<lparr>step_product = p, step_alerts = [], step_history = [], step_changed = False\<rparr>
         | Inl err \<Rightarrow>
             \<lparr>step_product = p\<lparr>supplierStockStatus := unknown\<rparr>,
              step_alerts =
                (if shouldAlert st supplierUnavailable \<and> oldSupplierStock \<noteq> unknown then
                   [\<lparr>alertType = Supplier_unavailable, oldValue = Str ''available'',
                     newValue = Str ''unavailable'', message = SupplierFetchFailed,
                     severity = high\<rparr>]
                 else []),
              step_history = [],
              step_changed = True\<rparr>)
      else \<lparr>step_product = p, step_alerts = [], step_history = [], step_changed = False\<rparr>)"

text \<open>Lines 259-300: the competitor step; it reads the marketplace price as the steps before left it.\<close>

definition competitorStep :: "settings \<Rightarrow> rat \<Rightarrow> world \<Rightarrow> product \<Rightarrow> step_result" where
  "competitorStep st alertPercent w p =
     (case competitorFetch w of
        Inl err \<Rightarrow> \<lparr>step_product = p, step_alerts = [], step_history = [], step_changed = False\<rparr>
      | Inr None \<Rightarrow> \<lparr>step_product = p, step_alerts = [], step_history = [], step_changed = False\<rparr>
      | Inr (Some ins) \<Rightarrow>
          (let p1 = (if listings ins \<noteq> [] then p\<lparr>competitorListings := listings ins\<rparr> else p);
               changed = (listings ins \<noteq> [])
           in case summary ins of
                None \<Rightarrow>
                  \<lparr>step_product = p1, step_alerts = [], step_history = [], step_changed = changed\<rparr>
              | Some cheapest \<Rightarrow>
                  (let p2 = p1\<lparr>competitorStats := Some cheapest\<rparr> in
                   if lowestPrice cheapest \<noteq> 0 \<and> ebayPrice p2 \<noteq> 0 then
                     (let difference = ebayPrice p2 - lowestPrice cheapest;
                          percentDifference = (difference / ebayPrice p2) * 100
                      in \<lparr>step_product = p2,
                          step_alerts =
                            (if shouldAlert st competitorPrice \<and> difference > 0 \<and>
                                percentDifference \<ge> alertPercent
                             then [\<lparr>alertType = Competitor_price, oldValue = Num (ebayPrice p2),
                                    newValue = Num (lowestPrice cheapest),
                                    message = CompetitorCheaper (sellerName cheapest)
                                      percentDifference difference,
                                    severity = (if percentDifference > 10 then high else medium)\<rparr>]
                             else []),
                          step_history =
                            [\<lparr>hist_source = Competitor, hist_price = lowestPrice cheapest,
                              hist_stock = in_stock\<rparr>],
                          step_changed = changed\<rparr>)
                   else
                     \<lparr>step_product = p2, step_alerts = [], step_history = [],
                      step_changed = changed\<rparr>)))"

text \<open>\<open>calculateProfit\<close> of models/Product.js, without the rounded margin.\<close>

definition calculateProfit :: "product \<Rightarrow> product" where
  "calculateProfit p =
     (if ebayPrice p \<noteq> 0 \<and> supplierPrice p \<noteq> 0
      then p\<lparr>profit := ebayPrice p - supplierPrice p\<rparr> else p)"

text \<open>
  \<open>checkProduct\<close>: the three steps in order, each inside its own \<open>try\<close>, then the save
  when anything changed. \<open>fetched\<close> lists the adapters that were called.
\<close>

definition checkProduct :: "settings \<Rightarrow> proc_env \<Rightarrow> world \<Rightarrow> product \<Rightarrow> check_result" where
  "checkProduct st env w p =
     (let threshold = effectiveThreshold st env;
          alertPercent = competitorAlertPercent env;
          oldSupplierPrice = supplierPrice p;
          oldSupplierStock = supplierStockStatus p;
          e = ebayStep st threshold w p;
          s = supplierStep st threshold w oldSupplierPrice oldSupplierStock (step_product e);
          c = competitorStep st alertPercent w (step_product s);
          hasChanges = (step_changed e \<or> step_changed s \<or> step_changed c);
          final = (if hasChanges
                   then calculateProfit ((step_product c)\<lparr>lastCheckedAt := now w\<rparr>)
                   else step_product c)
      in \<lparr>success = True,
          checked = final,
          alerts = step_alerts e @ step_alerts s @ step_alerts c,
          history = step_history e @ step_history s @ step_history c,
          fetched = [Ebay] @ (if hasSupplierUrl p then [Supplier] else []) @ [Competitor],
          saved = hasChanges\<rparr>)"


subsection \<open>Reading a run of \<open>checkProduct\<close>\<close>

text \<open>
  The source an alert is about, read off its message, and the alerts of a run by source
  and by kind. These are the notions in which the properties below are stated.
\<close>

fun alertSource :: "alert_message \<Rightarrow> source" where
  "alertSource (EbayPriceChanged old new pc) = Ebay"
| "alertSource (SupplierPriceChanged old new pc) = Supplier"
| "alertSource EbayOutOfStock = Ebay"
| "alertSource EbayBackInStock = Ebay"
| "alertSource SupplierOutOfStock = Supplier"
| "alertSource SupplierBackInStock = Supplier"
| "alertSource SupplierFetchFailed = Supplier"
| "alertSource (CompetitorCheaper seller pd diff) = Competitor"

definition alertsFrom :: "source \<Rightarrow> check_result \<Rightarrow> alert list" where
  "alertsFrom src r = filter (\<lambda>a. alertSource (message a) = src) (alerts r)"

definition isPriceAlert :: "alert \<Rightarrow> bool" where
  "isPriceAlert a = (alertType a = Price_increase \<or> alertType a = Price_decrease)"

definition isStockAlert :: "alert \<Rightarrow> bool" where
  "isStockAlert a = (alertType a = Out_of_stock \<or> alertType a = Back_in_stock)"

definition priceAlertsFrom :: "source \<Rightarrow> check_result \<Rightarrow> alert list" where
  "priceAlertsFrom src r = filter isPriceAlert (alertsFrom src r)"

definition stockAlertsFrom :: "source \<Rightarrow> check_result \<Rightarrow> alert list" where
  "stockAlertsFrom src r = filter isStockAlert (alertsFrom src r)"

definition historyFrom :: "source \<Rightarrow> check_result \<Rightarrow> price_history list" where
  "historyFrom src r = filter (\<lambda>h. hist_source h = src) (history r)"

subsection \<open>Concrete runs\<close>

definition all_enabled :: alert_types where
  "all_enabled = \<lparr>priceIncrease = True, priceDecrease = True, outOfStock = True,
     supplierUnavailable = True, lowStock = True, competitorPrice = True\<rparr>"

definition settings_with :: "rat \<Rightarrow> settings" where
  "settings_with t = \<lparr>priceChangeThreshold = t, alertTypes = Some all_enabled\<rparr>"

definition env_unset :: proc_env where
  "env_unset = \<lparr>PRICE_CHANGE_THRESHOLD = None, COMPETITOR_PRICE_ALERT_PERCENT = None\<rparr>"

text \<open>A product listed at 100, in stock, whose supplier sells at 60, in stock.\<close>

definition widget :: product where
  "widget = \<lparr>title = ''Widget'', ebayUrl = ''https://www.ebay.co.uk/itm/123456'',
     ebayPrice = 100, supplierUrl = Some ''https://supplier.example/widget'',
     supplierPrice = 60, stockStatus = in_stock, supplierStockStatus = in_stock,
     images = [], competitorListings = [], competitorStats = None,
     lastCheckedAt = 0, profit = 40\<rparr>"

definition ebay_snapshot :: "rat \<Rightarrow> stock \<Rightarrow> item_data" where
  "ebay_snapshot pr st = \<lparr>item_title = ''Widget'', item_images = [], item_price = pr,
     item_itemId = ''123456'', item_variations = [], item_stock = st, item_description = ''''\<rparr>"

definition supplier_snapshot :: "rat \<Rightarrow> stock \<Rightarrow> supplier_data" where
  "supplier_snapshot pr st = \<lparr>sup_title = ''Widget (wholesale)'', sup_price = pr,
     sup_stock = st, sup_images = []\<rparr>"

text \<open>
  A world in which the marketplace shows the given price and stock state, the supplier
  is unchanged and no competitor is found.
\<close>

definition world_ebay :: "rat \<Rightarrow> stock \<Rightarrow> world" where
  "world_ebay pr st = \<lparr>ebayFetch = Inr (Some (ebay_snapshot pr st)),
     supplierFetch = Inr (Some (supplier_snapshot 60 in_stock)),
     competitorFetch = Inr None, now = 1000\<rparr>"

text \<open>A world in which the marketplace is unchanged and the supplier shows the given state.\<close>

definition world_supplier :: "rat \<Rightarrow> stock \<Rightarrow> world" where
  "world_supplier pr st = \<lparr>ebayFetch = Inr (Some (ebay_snapshot 100 in_stock)),
     supplierFetch = Inr (Some (supplier_snapshot pr st)),
     competitorFetch = Inr None, now = 1000\<rparr>"

text \<open>A world in which the marketplace is unchanged and the supplier fetch throws.\<close>

definition world_supplier_down :: world where
  "world_supplier_down = \<lparr>ebayFetch = Inr (Some (ebay_snapshot 100 in_stock)),
     supplierFetch = Inl ''Failed to fetch supplier data: timeout'',
     competitorFetch = Inr None, now = 1000\<rparr>"

text \<open>A world in which the marketplace fetch throws; supplier and competitor answer.\<close>

definition world_ebay_down :: world where
  "world_ebay_down = \<lparr>ebayFetch = Inl ''Failed to fetch eBay product data'',
     supplierFetch = Inr (Some (supplier_snapshot 70 in_stock)),
     competitorFetch = Inr (Some \<lparr>listings = [\<lparr>listing_sellerName = ''rival'',
        listing_price = 80, listing_id = ''999''\<rparr>],
        summary = Some \<lparr>lowestPrice = 80, sellerName = ''rival''\<rparr>\<rparr>),
     now = 1000\<rparr>"

text \<open>
  A world in which nothing differs from what \<^const>\<open>widget\<close> stores, and the cheapest
  competitor sells at 80.
\<close>

definition world_steady :: world where
  "world_steady = \<lparr>ebayFetch = Inr (Some (ebay_snapshot 100 in_stock)),
     supplierFetch = Inr (Some (supplier_snapshot 60 in_stock)),
     competitorFetch = Inr (Some \<lparr>listings = [\<lparr>listing_sellerName = ''rival'',
        listing_price = 80, listing_id = ''999''\<rparr>],
        summary = Some \<lparr>lowestPrice = 80, sellerName = ''rival''\<rparr>\<rparr>),
     now = 1000\<rparr>"

text \<open>Whether a collaborator delivered data (it neither threw nor returned \<open>null\<close>).\<close>

definition delivered :: "string + 'a option \<Rightarrow> bool" where
  "delivered r = (case r of Inr (Some d) \<Rightarrow> True | _ \<Rightarrow> False)"

text \<open>
  Whether the competitor step of a run on product \<open>p\<close> records a history entry: the
  summary names a lowest price other than 0 and the marketplace price, as the
  marketplace step leaves it, is not 0.
\<close>

definition competitorRecorded :: "world \<Rightarrow> product \<Rightarrow> bool" where
  "competitorRecorded w p =
     (case competitorFetch w of
        Inr (Some ins) \<Rightarrow>
          (case summary ins of
             Some cheapest \<Rightarrow>
               lowestPrice cheapest \<noteq> 0 \<and>
               (case ebayFetch w of Inr (Some d) \<Rightarrow> item_price d | _ \<Rightarrow> ebayPrice p) \<noteq> 0
           | None \<Rightarrow> False)
      | _ \<Rightarrow> False)"

definition isUnavailableAlert :: "alert \<Rightarrow> bool" where
  "isUnavailableAlert a = (alertType a = Supplier_unavailable)"

text \<open>
  A world in which nothing differs from what \<^const>\<open>widget\<close> stores, and the only
  competitor listing carries no price: the competitor service reports the price 0 for it.
\<close>

definition world_rival_unpriced :: world where
  "world_rival_unpriced = \<lparr>ebayFetch = Inr (Some (ebay_snapshot 100 in_stock)),
     supplierFetch = Inr (Some (supplier_snapshot 60 in_stock)),
     competitorFetch = Inr (Some \<lparr>listings = [\<lparr>listing_sellerName = ''rival'',
        listing_price = 0, listing_id = ''999''\<rparr>],
        summary = Some \<lparr>lowestPrice = 0, sellerName = ''rival''\<rparr>\<rparr>),
     now = 1000\<rparr>"


section \<open>Marketplace item adapter: \<open>fetchEbayItem\<close> (adapters/ebayAdapter.js)\<close>

subsection \<open>\<open>extractItemId\<close>\<close>

text \<open>
  The three regular expressions of \<open>extractItemId\<close> have the same form: a literal prefix
  followed by \<open>(\d+)\<close>. \<open>String.match\<close> returns the leftmost match, and \<open>\d+\<close> is greedy:
  the captured group is the longest run of digits after the first occurrence of the
  prefix that has a digit behind it.
\<close>

definition is_digit :: "char \<Rightarrow> bool" where
  "is_digit c = (c \<in> set ''0123456789'')"

definition starts_with :: "string \<Rightarrow> string \<Rightarrow> bool" where
  "starts_with pre s = (take (length pre) s = pre)"

definition digits_here :: "string \<Rightarrow> string \<Rightarrow> string option" where
  "digits_here pre s =
     (if starts_with pre s \<and> takeWhile is_digit (drop (length pre) s) \<noteq> []
      then Some (takeWhile is_digit (drop (length pre) s)) else None)"

fun first_here :: "string list \<Rightarrow> string \<Rightarrow> string option" where
  "first_here [] s = None"
| "first_here (pre # pres) s =
     (case digits_here pre s of Some ds \<Rightarrow> Some ds | None \<Rightarrow> first_here pres s)"

fun search_digits :: "string list \<Rightarrow> string \<Rightarrow> string option" where
  "search_digits pres [] = None"
| "search_digits pres (c # cs) =
     (case first_here pres (c # cs) of
        Some ds \<Rightarrow> Some ds
      | None \<Rightarrow> search_digits pres cs)"

text \<open>
  \<^verbatim>\<open>
  let match = url.match(/\/itm\/(\d+)/);      if (match) return match[1];
  match = url.match(/[?&]item=(\d+)/);        if (match) return match[1];
  match = url.match(/\/p\/(\d+)/);            if (match) return match[1];
  return null;
  \<close>
\<close>

definition extractItemId :: "string \<Rightarrow> string option" where
  "extractItemId url =
     (case search_digits [''/itm/''] url of
        Some i \<Rightarrow> Some i
      | None \<Rightarrow>
          (case search_digits [''?item='', ''&item=''] url of
             Some i \<Rightarrow> Some i
           | None \<Rightarrow> search_digits [''/p/''] url))"

subsection \<open>The two sources\<close>

text \<open>
  A price is a JavaScript number as \<open>parseFloat\<close> delivers it: a finite number, \<open>NaN\<close>,
  or an infinity. The adapter applies two tests to it: \<open>price === 0\<close> and \<open>price > 0\<close>.
  \<open>NaN\<close> passes neither.
\<close>

datatype js_number = Finite rat | NaN | PosInfinity | NegInfinity

definition isZero :: "js_number \<Rightarrow> bool" where
  "isZero n = (n = Finite 0)"

definition isPositive :: "js_number \<Rightarrow> bool" where
  "isPositive n = (case n of Finite r \<Rightarrow> 0 < r | PosInfinity \<Rightarrow> True | _ \<Rightarrow> False)"

text \<open>
  What \<open>puppeteerScraper.scrapeProductDetails\<close> returns for a page, and one item of the
  item-search API's answer, with the fields the adapter reads: \<open>api_title\<close> is
  \<open>item.title?.[0]\<close>; \<open>api_price\<close> is what \<open>parseFloat\<close> reads from
  \<open>item.sellingStatus?.[0]?.currentPrice?.[0]?.__value__\<close>, and \<open>None\<close> when that member
  is missing or empty (the adapter then parses the number 0); \<open>api_galleryURL\<close> is
  \<open>item.galleryURL?.[0]\<close> and \<open>api_itemId\<close> is \<open>item.itemId?.[0]\<close>. \<open>None\<close> is
  \<open>undefined\<close>.
\<close>

record puppeteer_data =
  pd_title :: string
  pd_price :: js_number
  pd_images :: "string list"
  pd_stock :: "stock option"
  pd_itemId :: string
  pd_description :: string
  pd_variations :: "(string \<times> (string \<times> string) list) list"

record api_item =
  api_title :: "string option"
  api_price :: "js_number option"
  api_galleryURL :: "string option"
  api_itemId :: "string option"

text \<open>What \<open>fetchEbayItem\<close> returns.\<close>

record ebay_data =
  data_title :: string
  data_images :: "string list"
  data_price :: js_number
  data_itemId :: string
  data_variations :: "(string \<times> (string \<times> string) list) list"
  data_stock :: stock
  data_description :: string

text \<open>
  The world of one call of \<open>fetchEbayItem\<close>: the outcome of the page extraction for a
  URL, the configured application id, and the outcome of the request number \<open>k\<close> to the
  item-search API for an item id (\<open>Inl\<close> when \<open>axios.get\<close> throws, otherwise the list
  \<open>searchResult[0].item\<close>, empty when it is absent).
\<close>

record ebay_world =
  scrapeProductDetails :: "string \<Rightarrow> string + puppeteer_data option"
  EBAY_APP_ID :: "string option"
  apiGet :: "string \<Rightarrow> nat \<Rightarrow> string + api_item list"

datatype fetch_event = PageExtraction | ApiRequest

record fetch_run =
  outcome :: "string + ebay_data"
  events :: "fetch_event list"

text \<open>
  Lines 127-137: the data that \<open>fetchWithScraping\<close> makes of an extracted page. The
  item id is the page's, else the one parsed from the URL, else \<open>'unknown'\<close>; the stock
  state is the page's, else \<open>'in_stock'\<close>.
\<close>

definition pageData :: "string \<Rightarrow> puppeteer_data \<Rightarrow> ebay_data" where
  "pageData url puppeteerData =
     \<lparr>data_title = pd_title puppeteerData,
      data_images = pd_images puppeteerData,
      data_price = pd_price puppeteerData,
      data_itemId =
        (if pd_itemId puppeteerData \<noteq> [] then pd_itemId puppeteerData
         else case extractItemId url of Some i \<Rightarrow> i | None \<Rightarrow> ''unknown''),
      data_variations = pd_variations puppeteerData,
      data_stock = (case pd_stock puppeteerData of Some s \<Rightarrow> s | None \<Rightarrow> in_stock),
      data_description = pd_description puppeteerData\<rparr>"

text \<open>\<open>fetchWithScraping\<close>, lines 121-145.\<close>

definition fetchWithScraping :: "ebay_world \<Rightarrow> string \<Rightarrow> string + ebay_data" where
  "fetchWithScraping w url =
     (case scrapeProductDetails w url of
        Inl err \<Rightarrow> Inl err
      | Inr None \<Rightarrow> Inl ''Could not extract valid product data with Puppeteer''
      | Inr (Some puppeteerData) \<Rightarrow>
          if pd_title puppeteerData \<noteq> [] \<and> isPositive (pd_price puppeteerData)
          then Inr (pageData url puppeteerData)
          else Inl ''Could not extract valid product data with Puppeteer'')"

text \<open>
  The operation that \<open>fetchWithAPI\<close> hands to \<open>retryWithBackoff\<close>, lines 68-110, applied
  to the answer of one request.
\<close>

definition apiAttempt :: "string \<Rightarrow> string + api_item list \<Rightarrow> string + ebay_data option" where
  "apiAttempt itemId response =
     (case response of
        Inl err \<Rightarrow> Inl err
      | Inr items \<Rightarrow>
          (case items of
             [] \<Rightarrow> Inr None
           | item # rest \<Rightarrow>
               (let title = (case api_title item of
                               Some t \<Rightarrow> if t \<noteq> [] then t else ''Unknown Product''
                             | None \<Rightarrow> ''Unknown Product'');
                    price = (case api_price item of Some v \<Rightarrow> v | None \<Rightarrow> Finite 0)
                in if title = [] \<or> isZero price then Inl ''Invalid data from eBay API''
                   else Inr (Some
                     \<lparr>data_title = title,
                      data_images = (case api_galleryURL item of
                                       Some g \<Rightarrow> if g \<noteq> [] then [g] else []
                                     | None \<Rightarrow> []),
                      data_price = price,
                      data_itemId = (case api_itemId item of
                                       Some i \<Rightarrow> if i \<noteq> [] then i else itemId
                                     | None \<Rightarrow> itemId),
                      data_variations = [],
                      data_stock = in_stock,
                      data_description = []\<rparr>))))"

text \<open>
  \<open>fetchWithAPI\<close>, lines 60-115: no request without a configured application id; otherwise
  up to three attempts, and \<open>null\<close> when the last one throws. The second component is
  the number of requests made.
\<close>

definition fetchWithAPI :: "ebay_world \<Rightarrow> string \<Rightarrow> ebay_data option \<times> nat" where
  "fetchWithAPI w itemId =
     (case EBAY_APP_ID w of
        None \<Rightarrow> (None, 0)
      | Some appId \<Rightarrow>
          if appId = [] \<or> appId = ''your_ebay_app_id'' then (None, 0)
          else
            (let run = retryWithBackoff (\<lambda>k. apiAttempt itemId (apiGet w itemId k)) 3 1000
             in (case result run of
                   Returned v \<Rightarrow> v
                 | Threw err \<Rightarrow> None
                 | ReturnedUndefined \<Rightarrow> None,
                 invocations run)))"

text \<open>The validation and the defaults at the end of \<open>fetchEbayItem\<close>, lines 171-184.\<close>

definition finishFetch :: "string option \<Rightarrow> ebay_data option \<Rightarrow> string + ebay_data" where
  "finishFetch itemId data =
     (case data of
        None \<Rightarrow>
          Inl ''Failed to fetch eBay product data: Could not fetch eBay product data from Puppeteer or API''
      | Some d \<Rightarrow>
          if data_title d = [] \<or> isZero (data_price d) then
            Inl ''Failed to fetch eBay product data: Could not fetch eBay product data from Puppeteer or API''
          else
            Inr (d\<lparr>data_itemId :=
                      (if data_itemId d \<noteq> [] then data_itemId d
                       else case itemId of Some i \<Rightarrow> i | None \<Rightarrow> ''unknown'')\<rparr>))"

text \<open>\<open>fetchEbayItem\<close>, lines 153-189.\<close>

definition fetchEbayItem :: "ebay_world \<Rightarrow> string \<Rightarrow> fetch_run" where
  "fetchEbayItem w url =
     (let itemId = extractItemId url in
      case fetchWithScraping w url of
        Inr d \<Rightarrow> \<lparr>outcome = finishFetch itemId (Some d), events = [PageExtraction]\<rparr>
      | Inl scrapingError \<Rightarrow>
          (case itemId of
             Some i \<Rightarrow>
               (let r = fetchWithAPI w i
                in \<lparr>outcome = finishFetch itemId (fst r),
                    events = PageExtraction # replicate (snd r) ApiRequest\<rparr>)
           | None \<Rightarrow> \<lparr>outcome = finishFetch itemId None, events = [PageExtraction]\<rparr>))"

subsection \<open>Reading an API item\<close>

text \<open>
  The images that an API item carries (its gallery URL, or nothing), the price that the
  adapter reads from it, and the item id it yields for a request about \<open>itemId\<close>.
\<close>

definition apiImages :: "api_item \<Rightarrow> string list" where
  "apiImages item =
     (case api_galleryURL item of Some g \<Rightarrow> if g \<noteq> [] then [g] else [] | None \<Rightarrow> [])"

definition apiPrice :: "api_item \<Rightarrow> js_number" where
  "apiPrice item = (case api_price item of Some v \<Rightarrow> v | None \<Rightarrow> Finite 0)"

definition apiItemId :: "api_item \<Rightarrow> string \<Rightarrow> string" where
  "apiItemId item itemId =
     (case api_itemId item of Some i \<Rightarrow> if i \<noteq> [] then i else itemId | None \<Rightarrow> itemId)"

subsection \<open>Concrete worlds\<close>

text \<open>
  A world in which the page extraction throws and the API, at the first request, returns
  one item with a title and a price, without a picture.
\<close>

definition world_api_only :: ebay_world where
  "world_api_only =
     \<lparr>scrapeProductDetails = (\<lambda>url. Inl ''Navigation timeout''),
      EBAY_APP_ID = Some ''MyApp-1234'',
      apiGet = (\<lambda>itemId k. Inr [\<lparr>api_title = Some ''Widget'', api_price = Some (Finite 10),
                                  api_galleryURL = None, api_itemId = None\<rparr>])\<rparr>"

text \<open>The same, with a picture, an item id and a price that \<open>parseFloat\<close> cannot read.\<close>

definition world_api_nan :: ebay_world where
  "world_api_nan =
     \<lparr>scrapeProductDetails = (\<lambda>url. Inl ''Navigation timeout''),
      EBAY_APP_ID = Some ''MyApp-1234'',
      apiGet = (\<lambda>itemId k. Inr [\<lparr>api_title = Some ''Widget'', api_price = Some NaN,
                                  api_galleryURL = Some ''https://i.ebayimg.com/g.jpg'',
                                  api_itemId = Some ''654321''\<rparr>])\<rparr>"

text \<open>A world in which the page extraction succeeds.\<close>

definition world_page_ok :: ebay_world where
  "world_page_ok =
     \<lparr>scrapeProductDetails = (\<lambda>url. Inr (Some
        \<lparr>pd_title = ''Widget'', pd_price = Finite 12,
         pd_images = [''https://i.ebayimg.com/w.jpg''],
         pd_stock = Some low_stock, pd_itemId = ''123456'', pd_description = ''A widget'',
         pd_variations = [(''Size'', [(''1'', ''Small'')])]\<rparr>)),
      EBAY_APP_ID = Some ''MyApp-1234'',
      apiGet = (\<lambda>itemId k. Inl ''not reached'')\<rparr>"

text \<open>
  A world in which the page extraction succeeds on a page whose address shows no item
  id, and no application id is configured.
\<close>

definition world_page_bare :: ebay_world where
  "world_page_bare =
     \<lparr>scrapeProductDetails = (\<lambda>url. Inr (Some
        \<lparr>pd_title = ''Widget'', pd_price = Finite 12, pd_images = [],
         pd_stock = Some in_stock, pd_itemId = [], pd_description = [], pd_variations = []\<rparr>)),
      EBAY_APP_ID = None,
      apiGet = (\<lambda>itemId k. Inl ''not reached'')\<rparr>"

definition item_url :: string where
  "item_url = ''https://www.ebay.co.uk/itm/123456''"

text \<open>An item URL of the second shape with \<open>&\<close>, and a URL of none of the shapes.\<close>

definition query_url :: string where
  "query_url = ''https://www.ebay.co.uk/ws/view?x=1&item=987''"

definition title_url :: string where
  "title_url = ''https://www.ebay.co.uk/itm/blue-widget''"


section \<open>Extraction engine: \<open>scrapeStoreListings\<close> (services/puppeteerScraper.js)\<close>

text \<open>
  \<open>String.prototype.trim\<close> removes white space at both ends, and the class \<open>\s\<close> of a
  regular expression is the same set of characters. Strings are lists of characters, a
  character being a code unit below 256. The white space among these is: tab, line
  feed, vertical tab, form feed, carriage return, space and the no-break space U+00A0.
\<close>

definition is_space :: "char \<Rightarrow> bool" where
  "is_space c =
     (c \<in> set [CHR 0x09, CHR 0x0A, CHR 0x0B, CHR 0x0C, CHR 0x0D, CHR '' '', CHR 0xA0])"

definition js_trim :: "string \<Rightarrow> string" where
  "js_trim s = rev (dropWhile is_space (rev (dropWhile is_space s)))"

text \<open>
  What the browser shows of a listing page: the anchors selected by \<open>a[href*="/itm/"]\<close>,
  in document order. For each anchor: its \<open>href\<close> attribute, its text content, and the
  enclosing card (\<open>link.closest(...)\<close>), if any. For a card: the text of its title
  element, the number that \<open>parseFloat\<close> reads from the text of its price element after
  everything but digits and dots is removed (\<open>None\<close> when there is no price element or
  no number), and the \<open>src\<close> and \<open>data-src\<close> attributes of its first image.
\<close>

record card =
  card_title :: "string option"
  card_price :: "rat option"
  card_img :: "(string option \<times> string option) option"

record anchor =
  a_href :: string
  a_text :: string
  a_card :: "card option"

record listing_item =
  li_itemId :: string
  li_url :: string
  li_title :: string
  li_price :: rat
  li_images :: "string list"

definition fullUrl :: "string \<Rightarrow> string" where
  "fullUrl href = (if starts_with ''http'' href then href else ''https://www.ebay.co.uk'' @ href)"

text \<open>Lines 446-478: the item made from an anchor whose item id is \<open>itemId\<close>.\<close>

definition anchor_item :: "anchor \<Rightarrow> string \<Rightarrow> listing_item" where
  "anchor_item link itemId =
     (let title0 = (case a_card link of
                      None \<Rightarrow> ''''
                    | Some c \<Rightarrow> (case card_title c of Some t \<Rightarrow> js_trim t | None \<Rightarrow> ''''));
          price = (case a_card link of
                     None \<Rightarrow> 0
                   | Some c \<Rightarrow> (case card_price c of Some v \<Rightarrow> v | None \<Rightarrow> 0));
          image = (case a_card link of
                     None \<Rightarrow> ''''
                   | Some c \<Rightarrow>
                       (case card_img c of
                          None \<Rightarrow> ''''
                        | Some (src, dataSrc) \<Rightarrow>
                            (case src of
                               Some s \<Rightarrow> if s \<noteq> [] then s
                                         else (case dataSrc of Some d \<Rightarrow> d | None \<Rightarrow> '''')
                             | None \<Rightarrow> (case dataSrc of Some d \<Rightarrow> d | None \<Rightarrow> ''''))));
          title1 = (if title0 = [] \<and> a_text link \<noteq> [] then js_trim (a_text link) else title0)
      in \<lparr>li_itemId = itemId,
          li_url = takeWhile (\<lambda>c. c \<noteq> CHR ''?'') (fullUrl (a_href link)),
          li_title = (if title1 \<noteq> [] then title1 else ''Item '' @ itemId),
          li_price = price,
          li_images = (if image \<noteq> [] then [image] else [])\<rparr>)"

text \<open>
  Lines 432-485, the function evaluated in the page: \<open>itemLinks\<close> is the set of the item
  ids seen so far on this page; it is created anew by every evaluation.
\<close>

fun page_items :: "anchor list \<Rightarrow> string list \<Rightarrow> listing_item list" where
  "page_items [] itemLinks = []"
| "page_items (link # links) itemLinks =
     (if a_href link \<noteq> [] then
        (case search_digits [''/itm/''] (fullUrl (a_href link)) of
           Some itemId \<Rightarrow>
             if itemId \<in> set itemLinks then page_items links itemLinks
             else anchor_item link itemId # page_items links (itemId # itemLinks)
         | None \<Rightarrow> page_items links itemLinks)
      else page_items links itemLinks)"

text \<open>Line 425: the URL of page \<open>pageNum\<close>.\<close>

definition page_url :: "string \<Rightarrow> nat \<Rightarrow> string" where
  "page_url storeUrl pageNum =
     (if pageNum = 1 then storeUrl
      else storeUrl @ (if CHR ''?'' \<in> set storeUrl then ''&'' else ''?'') @ ''_pgn='' @
           string_of_nat pageNum)"

text \<open>
  The world of one call: whether the browser session can be set up (\<open>getBrowser\<close>,
  \<open>newPage\<close>, \<open>setupPage\<close>), and for each URL the outcome of navigating to it and
  evaluating the page: \<open>Inl\<close> when one of them throws.
\<close>

record store_world =
  sessionOk :: bool
  render :: "string \<Rightarrow> string + anchor list"

text \<open>
  Lines 423-501, the loop over the pages. The result is \<open>allItems\<close> and the page numbers
  visited, in order.
\<close>

function scrape_loop ::
  "store_world \<Rightarrow> string \<Rightarrow> nat \<Rightarrow> nat \<Rightarrow> listing_item list \<Rightarrow> nat list
     \<Rightarrow> listing_item list \<times> nat list" where
  "scrape_loop w storeUrl maxPages pageNum allItems visited =
     (if pageNum \<le> maxPages then
        (case render w (page_url storeUrl pageNum) of
           Inl err \<Rightarrow>
             if pageNum = 1 then (allItems, visited @ [pageNum])
             else scrape_loop w storeUrl maxPages (pageNum + 1) allItems (visited @ [pageNum])
         | Inr anchors \<Rightarrow>
             (let pageItems = page_items anchors [] in
              if pageItems = [] then (allItems, visited @ [pageNum])
              else scrape_loop w storeUrl maxPages (pageNum + 1) (allItems @ pageItems)
                     (visited @ [pageNum])))
      else (allItems, visited))"
  by pat_completeness auto
termination
  by (relation "measure (\<lambda>(w, storeUrl, maxPages, pageNum, allItems, visited).
        maxPages + 1 - pageNum)") auto

declare scrape_loop.simps [simp del]

record listing_run =
  listing :: "listing_item list option"
  visited :: "nat list"

definition scrapeStoreListings :: "store_world \<Rightarrow> string \<Rightarrow> nat \<Rightarrow> listing_run" where
  "scrapeStoreListings w storeUrl maxPages =
     (if sessionOk w then
        (let r = scrape_loop w storeUrl maxPages 1 [] [] in
         \<lparr>listing = (if fst r \<noteq> [] then Some (fst r) else None), visited = snd r\<rparr>)
      else \<lparr>listing = None, visited = []\<rparr>)"

text \<open>The items that page \<open>n\<close> of a store contributes: none when the page fails.\<close>

definition itemsOfPage :: "store_world \<Rightarrow> string \<Rightarrow> nat \<Rightarrow> listing_item list" where
  "itemsOfPage w storeUrl n =
     (case render w (page_url storeUrl n) of Inl err \<Rightarrow> [] | Inr anchors \<Rightarrow> page_items anchors [])"

text \<open>The item ids that the anchors of a page link to.\<close>

definition linkedId :: "anchor \<Rightarrow> string option" where
  "linkedId link =
     (if a_href link \<noteq> [] then search_digits [''/itm/''] (fullUrl (a_href link)) else None)"

definition linkedIds :: "anchor list \<Rightarrow> string set" where
  "linkedIds anchors = set (List.map_filter linkedId anchors)"

text \<open>
  Whether the loop ends at page \<open>n\<close>, when it gets there: the page yields no item, or it
  is page 1 and it fails.
\<close>

definition stopsAt :: "store_world \<Rightarrow> string \<Rightarrow> nat \<Rightarrow> bool" where
  "stopsAt w storeUrl n =
     (case render w (page_url storeUrl n) of
        Inl err \<Rightarrow> n = 1
      | Inr anchors \<Rightarrow> page_items anchors [] = [])"

text \<open>A store whose every page shows the same single listing.\<close>

definition world_same_page :: store_world where
  "world_same_page =
     \<lparr>sessionOk = True,
      render = (\<lambda>url. Inr [\<lparr>a_href = ''/itm/111?hash=abc'', a_text = '' Blue mug '',
                             a_card = None\<rparr>])\<rparr>"

text \<open>A store with two listings on page 1 (one of them linked twice) and an empty page 2.\<close>

definition world_two_pages :: store_world where
  "world_two_pages =
     \<lparr>sessionOk = True,
      render = (\<lambda>url.
        if url = ''https://www.ebay.co.uk/str/shop'' then
          Inr [\<lparr>a_href = ''/itm/111?hash=abc'', a_text = '' Blue mug '', a_card = None\<rparr>,
               \<lparr>a_href = ''https://www.ebay.co.uk/itm/111'', a_text = ''Blue mug'',
                 a_card = None\<rparr>,
               \<lparr>a_href = ''/itm/222'', a_text = '''',
                 a_card = Some \<lparr>card_title = Some ''Red mug'', card_price = Some 5,
                   card_img = Some (None, Some ''https://i.ebayimg.com/r.jpg'')\<rparr>\<rparr>]
        else Inr [])\<rparr>"

definition shop_url :: string where
  "shop_url = ''https://www.ebay.co.uk/str/shop''"


section \<open>Extraction engine: seller identity (services/puppeteerScraper.js)\<close>

subsection \<open>The rendered page\<close>

text \<open>
  The extraction runs inside the page, on the DOM. The model takes the answers of the
  DOM queries as given and embeds everything the two functions do with them.

  A \<open>script[type="application/ld+json"]\<close> element either fails to parse (or parses to
  something whose members cannot be read), or it is an object, of which the functions
  read six members; \<open>None\<close> is a missing member.
\<close>

record jsonld_fields =
  ld_mainEntity_seller_name :: "string option"
  ld_seller_name :: "string option"
  ld_seller_username :: "string option"
  ld_seller_identifier :: "string option"
  ld_author_name :: "string option"
  ld_brand_name :: "string option"

datatype jsonld = JInvalid | JData jsonld_fields

text \<open>
  The regular expressions that are run over the text of every script element:
  \<^item> \<open>P_sellerName\<close>: \<^verbatim>\<open>/"sellerName"\s*:\s*"([^"]+)"/\<close>
  \<^item> \<open>P_sellerId\<close>: \<^verbatim>\<open>/"sellerId"\s*:\s*"([^"]+)"/\<close>
  \<^item> \<open>P_username\<close>: \<^verbatim>\<open>/"username"\s*:\s*"([^"]+)"/\<close>
  \<^item> \<open>P_sellerUsername\<close>: \<^verbatim>\<open>/sellerUsername["\s]*[:=]["\s]*([^"'\s,}]+)/\<close>
  \<^item> \<open>P_seller_username\<close>: \<^verbatim>\<open>/"seller"\s*:\s*{\s*"username"\s*:\s*"([^"]+)"/\<close>
  \<^item> \<open>P_seller_name_loose\<close>: \<^verbatim>\<open>/seller["\s]*:["\s]*{["\s]*name["\s]*:["\s]*"([^"]+)"/\<close>
  \<^item> \<open>P_seller_id_loose\<close>: \<^verbatim>\<open>/seller["\s]*:["\s]*{["\s]*id["\s]*:["\s]*"([^"]+)"/\<close>
  \<^item> \<open>P_seller_name\<close>: \<^verbatim>\<open>/"seller"\s*:\s*{\s*"name"\s*:\s*"([^"]+)"/\<close>
  \<^item> \<open>P_seller_id\<close>: \<^verbatim>\<open>/"seller"\s*:\s*{\s*"id"\s*:\s*"([^"]+)"/\<close>
  \<^item> \<open>P_sellerName_quoted\<close>: \<^verbatim>\<open>/sellerName["\s]*[:=]["\s]*["']([^"']+)["']/\<close>
  \<^item> \<open>P_sellerId_quoted\<close>: \<^verbatim>\<open>/sellerId["\s]*[:=]["\s]*["']([^"']+)["']/\<close>

  A script element is modelled by what these expressions capture in its text: for each
  pattern the group \<open>match[1]\<close>, or \<open>None\<close> when the pattern does not match.
\<close>

datatype script_pattern =
  P_sellerName | P_sellerId | P_username | P_sellerUsername | P_seller_username
  | P_seller_name_loose | P_seller_id_loose | P_seller_name | P_seller_id
  | P_sellerName_quoted | P_sellerId_quoted

text \<open>
  The page: the JSON-LD scripts in document order; the \<open>content\<close> attribute of
  \<open>meta[name="twitter:creator"]\<close>; the text content of the first element matching each of
  the marker selectors (\<open>mbgIdSpan\<close>: \<open>a.mbg-id span, .mbg-id span, a[class*="mbg-id"] span\<close>;
  \<open>mbgIdLink\<close>: \<open>a.mbg-id, .mbg-id\<close>; \<open>mbgNw\<close>: \<open>a.mbg-nw, .mbg-nw\<close>; \<open>sellerInfoName\<close>:
  \<open>.seller-info-name, [class*="seller-info-name"]\<close>; \<open>strSellerInfo\<close>:
  \<open>.str-seller-info, [class*="seller-info"]\<close>); the script elements in document order; and
  the \<open>href\<close> attributes of the links matching \<open>a[href*="/usr/"], a[href*="/str/"]\<close>, in
  document order. \<open>None\<close> is a missing element or attribute.
\<close>

record seller_page =
  jsonLd :: "jsonld list"
  twitterCreator :: "string option"
  mbgIdSpan :: "string option"
  mbgIdLink :: "string option"
  mbgNw :: "string option"
  sellerInfoName :: "string option"
  strSellerInfo :: "string option"
  scripts :: "(script_pattern \<Rightarrow> string option) list"
  sellerLinks :: "string option list"

subsection \<open>The acceptance checks\<close>

text \<open>
  \<^verbatim>\<open>text && text !== 'eBay UK' && text !== 'eBay' && text.length < 50\<close>, the check of the
  meta tag, the DOM markers and the seller links.
\<close>

definition plausible :: "string \<Rightarrow> bool" where
  "plausible text = (text \<noteq> [] \<and> text \<noteq> ''eBay UK'' \<and> text \<noteq> ''eBay'' \<and> length text < 50)"

text \<open>\<open>s.includes(sub)\<close>\<close>

fun js_includes :: "string \<Rightarrow> string \<Rightarrow> bool" where
  "js_includes [] sub = (sub = [])"
| "js_includes (c # cs) sub = (starts_with sub (c # cs) \<or> js_includes cs sub)"

text \<open>
  \<^verbatim>\<open>sellerID && sellerID.length > 0 && sellerID !== 'eBay UK' && sellerID !== 'eBay' &&
  sellerID.length < 50 && !sellerID.includes('http')\<close>, the check of the script scan.
\<close>

definition plausibleScript :: "string \<Rightarrow> bool" where
  "plausibleScript sellerID = (plausible sellerID \<and> \<not> js_includes sellerID ''http'')"

definition orElse :: "'a option \<Rightarrow> 'a option \<Rightarrow> 'a option" where
  "orElse a b = (case a of Some x \<Rightarrow> Some x | None \<Rightarrow> b)"

text \<open>The first element of a list for which \<open>f\<close> returns something: a loop with a \<open>return\<close> inside.\<close>

fun first_of :: "('a \<Rightarrow> 'b option) \<Rightarrow> 'a list \<Rightarrow> 'b option" where
  "first_of f [] = None"
| "first_of f (x # xs) = (case f x of Some y \<Rightarrow> Some y | None \<Rightarrow> first_of f xs)"

subsection \<open>Method 1: structured data\<close>

text \<open>A member is used when it is truthy: present and not the empty string.\<close>

definition truthy :: "string option \<Rightarrow> string option" where
  "truthy v = (case v of Some s \<Rightarrow> if s \<noteq> [] then Some s else None | None \<Rightarrow> None)"

text \<open>Lines 111-131 (storefront) and 283-303 (product page): no check of the value.\<close>

definition jsonLdStorefront :: "jsonld \<Rightarrow> string option" where
  "jsonLdStorefront script =
     (case script of
        JInvalid \<Rightarrow> None
      | JData data \<Rightarrow>
          orElse (truthy (ld_mainEntity_seller_name data))
         (orElse (truthy (ld_seller_name data))
         (orElse (truthy (ld_seller_username data))
         (orElse (truthy (ld_author_name data))
                 (truthy (ld_brand_name data))))))"

definition jsonLdProductPage :: "jsonld \<Rightarrow> string option" where
  "jsonLdProductPage script =
     (case script of
        JInvalid \<Rightarrow> None
      | JData data \<Rightarrow>
          orElse (truthy (ld_mainEntity_seller_name data))
         (orElse (truthy (ld_seller_name data))
         (orElse (truthy (ld_seller_username data))
         (orElse (truthy (ld_seller_identifier data))
                 (truthy (ld_author_name data))))))"

subsection \<open>Method 2: the \<open>twitter:creator\<close> meta tag\<close>

text \<open>
  \<^verbatim>\<open>content.match(/@?([^"'\s,]+)/)\<close>: the match starts at the first character that is
  not a quote, white space or a comma. When that character is \<open>@\<close> and another such
  character follows, the group is the run after the \<open>@\<close>; otherwise the group is the run
  from that character on.
\<close>

definition handle_char :: "char \<Rightarrow> bool" where
  "handle_char c = (c \<noteq> CHR 0x22 \<and> c \<noteq> CHR 0x27 \<and> c \<noteq> CHR '','' \<and> \<not> is_space c)"

definition twitterCapture :: "string \<Rightarrow> string option" where
  "twitterCapture content =
     (case dropWhile (\<lambda>c. \<not> handle_char c) content of
        [] \<Rightarrow> None
      | c # cs \<Rightarrow>
          if c = CHR ''@'' \<and> takeWhile handle_char cs \<noteq> [] then Some (takeWhile handle_char cs)
          else Some (takeWhile handle_char (c # cs)))"

text \<open>Lines 136-149 and 308-320.\<close>

definition metaCandidate :: "string option \<Rightarrow> string option" where
  "metaCandidate content =
     (case content of
        None \<Rightarrow> None
      | Some c \<Rightarrow>
          if c = [] then None
          else (case twitterCapture c of
                  None \<Rightarrow> None
                | Some m \<Rightarrow> if plausible (js_trim m) then Some (js_trim m) else None))"

subsection \<open>Method 3 (storefront) or 4 (product page): DOM markers\<close>

text \<open>One marker, for instance lines 153-159.\<close>

definition markerCandidate :: "string option \<Rightarrow> string option" where
  "markerCandidate textContent =
     (case textContent of
        None \<Rightarrow> None
      | Some t \<Rightarrow> if plausible (js_trim t) then Some (js_trim t) else None)"

definition markersStorefront :: "seller_page \<Rightarrow> string option" where
  "markersStorefront page =
     orElse (markerCandidate (mbgIdSpan page))
    (orElse (markerCandidate (mbgIdLink page))
    (orElse (markerCandidate (mbgNw page))
    (orElse (markerCandidate (sellerInfoName page))
            (markerCandidate (strSellerInfo page)))))"

definition markersProductPage :: "seller_page \<Rightarrow> string option" where
  "markersProductPage page =
     orElse (markerCandidate (mbgIdSpan page))
    (orElse (markerCandidate (mbgIdLink page))
            (markerCandidate (sellerInfoName page)))"

subsection \<open>Method 4 (storefront) or 3 (product page): inline scripts\<close>

text \<open>\<^verbatim>\<open>match[1].replace(/["'}\s]/g, '').trim()\<close>\<close>

definition cleanCapture :: "string \<Rightarrow> string" where
  "cleanCapture m =
     js_trim (filter (\<lambda>c. c \<noteq> CHR 0x22 \<and> c \<noteq> CHR 0x27 \<and> c \<noteq> CHR ''}'' \<and> \<not> is_space c) m)"

definition patternCandidate :: "(script_pattern \<Rightarrow> string option) \<Rightarrow> script_pattern \<Rightarrow> string option" where
  "patternCandidate script pattern =
     (case script pattern of
        None \<Rightarrow> None
      | Some m \<Rightarrow>
          if m = [] then None
          else if plausibleScript (cleanCapture m) then Some (cleanCapture m) else None)"

definition patternsStorefront :: "script_pattern list" where
  "patternsStorefront =
     [P_sellerName, P_sellerId, P_username, P_sellerUsername, P_seller_username,
      P_seller_name_loose, P_seller_id_loose, P_seller_name, P_seller_id,
      P_sellerName_quoted, P_sellerId_quoted]"

definition patternsProductPage :: "script_pattern list" where
  "patternsProductPage =
     [P_seller_username, P_seller_name, P_seller_id, P_sellerName, P_sellerId, P_username,
      P_sellerUsername, P_sellerName_quoted, P_sellerId_quoted]"

definition scriptsCandidate ::
  "script_pattern list \<Rightarrow> (script_pattern \<Rightarrow> string option) list \<Rightarrow> string option" where
  "scriptsCandidate patterns ss = first_of (\<lambda>script. first_of (patternCandidate script) patterns) ss"

subsection \<open>Method 5: seller links\<close>

text \<open>
  \<^verbatim>\<open>href.match(/\/(?:usr|str)\/([^/?]+)/)\<close>: the leftmost \<open>/usr/\<close> or \<open>/str/\<close> that has a
  character other than \<open>/\<close> and \<open>?\<close> behind it; the group is the run of such characters.
\<close>

definition segment_char :: "char \<Rightarrow> bool" where
  "segment_char c = (c \<noteq> CHR ''/'' \<and> c \<noteq> CHR ''?'')"

definition segment_here :: "string \<Rightarrow> string \<Rightarrow> string option" where
  "segment_here pre s =
     (if starts_with pre s \<and> takeWhile segment_char (drop (length pre) s) \<noteq> []
      then Some (takeWhile segment_char (drop (length pre) s)) else None)"

fun search_segment :: "string \<Rightarrow> string option" where
  "search_segment [] = None"
| "search_segment (c # cs) =
     orElse (segment_here ''/usr/'' (c # cs))
    (orElse (segment_here ''/str/'' (c # cs)) (search_segment cs))"

text \<open>
  What one link does to the search: it returns a name, it is passed over, or
  \<open>decodeURIComponent\<close> throws, which ends the evaluation of the page (the caller then
  returns \<open>null\<close>). \<open>decode\<close> is \<open>decodeURIComponent\<close>, \<open>None\<close> when it throws.
\<close>

datatype link_step = Name string | Pass | Abort

definition linkStep :: "(string \<Rightarrow> string option) \<Rightarrow> string option \<Rightarrow> link_step" where
  "linkStep decode href =
     (case href of
        None \<Rightarrow> Pass
      | Some h \<Rightarrow>
          if h = [] then Pass
          else (case search_segment h of
                  None \<Rightarrow> Pass
                | Some seg \<Rightarrow>
                    (case decode seg of
                       None \<Rightarrow> Abort
                     | Some u \<Rightarrow> if plausible (js_trim u) then Name (js_trim u) else Pass)))"

text \<open>Lines 229-241: the storefront looks at every link.\<close>

fun linksStorefront :: "(string \<Rightarrow> string option) \<Rightarrow> string option list \<Rightarrow> string option" where
  "linksStorefront decode [] = None"
| "linksStorefront decode (href # hrefs) =
     (case linkStep decode href of
        Name u \<Rightarrow> Some u
      | Pass \<Rightarrow> linksStorefront decode hrefs
      | Abort \<Rightarrow> None)"

text \<open>Lines 378-390: the product page looks at the first link only.\<close>

definition linkProductPage :: "(string \<Rightarrow> string option) \<Rightarrow> string option list \<Rightarrow> string option" where
  "linkProductPage decode hrefs =
     (case hrefs of
        [] \<Rightarrow> None
      | href # rest \<Rightarrow> (case linkStep decode href of Name u \<Rightarrow> Some u | Pass \<Rightarrow> None | Abort \<Rightarrow> None))"

subsection \<open>The two functions\<close>

text \<open>
  \<^verbatim>\<open>if (sellerId && sellerId !== 'eBay UK' && sellerId !== 'eBay') return sellerId;
  return null;\<close>
\<close>

definition notBrand :: "string option \<Rightarrow> string option" where
  "notBrand sellerId =
     (case sellerId of
        None \<Rightarrow> None
      | Some s \<Rightarrow> if s \<noteq> [] \<and> s \<noteq> ''eBay UK'' \<and> s \<noteq> ''eBay'' then Some s else None)"

text \<open>
  The functions take the outcome of opening the page (\<open>Inl\<close> when the browser, the
  navigation or the evaluation throws: the function then returns \<open>null\<close>).
\<close>

definition extractSellerIdFromStorefront ::
  "(string \<Rightarrow> string option) \<Rightarrow> string + seller_page \<Rightarrow> string option" where
  "extractSellerIdFromStorefront decode opened =
     (case opened of
        Inl err \<Rightarrow> None
      | Inr page \<Rightarrow>
          notBrand
            (orElse (first_of jsonLdStorefront (jsonLd page))
            (orElse (metaCandidate (twitterCreator page))
            (orElse (markersStorefront page)
            (orElse (scriptsCandidate patternsStorefront (scripts page))
                    (linksStorefront decode (sellerLinks page)))))))"

definition extractSellerIdFromProductPage ::
  "(string \<Rightarrow> string option) \<Rightarrow> string + seller_page \<Rightarrow> string option" where
  "extractSellerIdFromProductPage decode opened =
     (case opened of
        Inl err \<Rightarrow> None
      | Inr page \<Rightarrow>
          notBrand
            (orElse (first_of jsonLdProductPage (jsonLd page))
            (orElse (metaCandidate (twitterCreator page))
            (orElse (scriptsCandidate patternsProductPage (scripts page))
            (orElse (markersProductPage page)
                    (linkProductPage decode (sellerLinks page)))))))"

subsection \<open>The ordered chain\<close>

text \<open>
  The chain as the specification describes it: the candidates of the strategies are
  listed in order, a rejected candidate being absent, and the result is the first one
  that is there. The two functions are compared with it.
\<close>

fun firstSome :: "'a option list \<Rightarrow> 'a option" where
  "firstSome [] = None"
| "firstSome (x # xs) = (case x of Some y \<Rightarrow> Some y | None \<Rightarrow> firstSome xs)"

subsection \<open>Concrete pages\<close>

definition empty_page :: seller_page where
  "empty_page = \<lparr>jsonLd = [], twitterCreator = None, mbgIdSpan = None, mbgIdLink = None,
     mbgNw = None, sellerInfoName = None, strSellerInfo = None, scripts = [],
     sellerLinks = []\<rparr>"

text \<open>A decoder that leaves its argument as it is (a name without escapes).\<close>

definition plain_decode :: "string \<Rightarrow> string option" where
  "plain_decode s = Some s"

definition no_fields :: jsonld_fields where
  "no_fields = \<lparr>ld_mainEntity_seller_name = None, ld_seller_name = None,
     ld_seller_username = None, ld_seller_identifier = None, ld_author_name = None,
     ld_brand_name = None\<rparr>"

text \<open>A page whose meta tag names the platform and whose first marker names a seller.\<close>

definition page_brand_meta :: seller_page where
  "page_brand_meta = empty_page\<lparr>twitterCreator := Some ''@eBay'',
     mbgIdSpan := Some '' top_seller ''\<rparr>"

text \<open>A page whose meta tag holds an address.\<close>

definition page_http_meta :: seller_page where
  "page_http_meta = empty_page\<lparr>twitterCreator := Some ''@https://twitter.com/shop''\<rparr>"

text \<open>A page whose structured data names a seller with 60 characters.\<close>

definition long_name :: string where
  "long_name = ''a_display_name_that_is_far_too_long_to_be_a_seller_user_name''"

definition page_long_jsonld :: seller_page where
  "page_long_jsonld = empty_page\<lparr>jsonLd :=
     [JData (no_fields\<lparr>ld_seller_name := Some long_name\<rparr>)]\<rparr>"

text \<open>A page whose structured data names the platform and whose meta tag names a seller.\<close>

definition page_brand_jsonld :: seller_page where
  "page_brand_jsonld = empty_page\<lparr>jsonLd :=
     [JData (no_fields\<lparr>ld_brand_name := Some ''eBay''\<rparr>)],
     twitterCreator := Some ''@top_seller''\<rparr>"

text \<open>A page whose first script holds an address under \<open>"sellerName"\<close> and a name under \<open>"sellerId"\<close>.\<close>

definition page_script :: seller_page where
  "page_script = empty_page\<lparr>scripts :=
     [(\<lambda>p. None)(P_sellerName := Some ''https://www.ebay.co.uk/usr/x'',
                  P_sellerId := Some ''top_seller'')]\<rparr>"

text \<open>A page with a link to the platform's own profile and a link to a seller's profile.\<close>

definition page_links :: seller_page where
  "page_links = empty_page\<lparr>sellerLinks :=
     [Some ''https://www.ebay.co.uk/usr/eBay'', Some ''/str/top_seller?_tab=1'']\<rparr>"

text \<open>A page whose first marker holds a name of 50 characters and whose second marker names a seller.\<close>

definition fifty_name :: string where
  "fifty_name = ''a_seller_name_that_is_exactly_fifty_characters_abc''"

definition page_fifty :: seller_page where
  "page_fifty = empty_page\<lparr>mbgIdSpan := Some fifty_name, mbgIdLink := Some ''top_seller''\<rparr>"

text \<open>A page whose first marker holds a name of 49 characters and a no-break space.\<close>

definition forty_nine_name :: string where
  "forty_nine_name = ''a_seller_name_that_is_exactly_fifty_characters_ab''"

definition page_nbsp :: seller_page where
  "page_nbsp = empty_page\<lparr>mbgIdSpan := Some (forty_nine_name @ [CHR 0xA0])\<rparr>"

text \<open>A page with a name in its first marker and another under \<open>"sellerId"\<close> in its script.\<close>

definition page_both :: seller_page where
  "page_both = empty_page\<lparr>mbgIdSpan := Some ''marker_name'',
     scripts := [(\<lambda>p. None)(P_sellerId := Some ''script_name'')]\<rparr>"


section \<open>Theorems: the scheduler\<close>

lemma string_of_nat_short: "n < 100 \<Longrightarrow> string_of_nat n = short_decimal (int n)"
proof (cases "n < 10")
  case True
  then show ?thesis by (simp add: string_of_nat.simps [of n] short_decimal_def)
next
  case False
  assume "n < 100"
  with False have d: "n div 10 < 10" by simp
  have "string_of_nat n = string_of_nat (n div 10) @ [digit_char (n mod 10)]"
    using False by (subst string_of_nat.simps) simp
  also have "string_of_nat (n div 10) = [digit_char (n div 10)]"
    using d by (subst string_of_nat.simps) simp
  finally show ?thesis using False
    by (simp add: short_decimal_def zdiv_int zmod_int nat_div_distrib nat_mod_distrib)
qed

lemma js_string_short: "0 \<le> i \<Longrightarrow> i < 100 \<Longrightarrow> js_string_of_int i = short_decimal i"
  using string_of_nat_short [of "nat i"] by (simp add: js_string_of_int_def)

text \<open>
  Claim C3. For every integer number of minutes \<open>x\<close>: below 15 the result is that of 15;
  from 15 up to 59 it is the every-\<open>x\<close>-minutes expression; from 60 up to 1439 it is the
  every-\<open>floor (x / 60)\<close>-hours expression; from 1440 on it is the expression for once a
  day at midnight.
\<close>

theorem frequencyToCron_cases:
  "(x < 15 \<longrightarrow> frequencyToCron x = frequencyToCron 15) \<and>
   (15 \<le> x \<and> x < 60 \<longrightarrow> frequencyToCron x = every_n_minutes x) \<and>
   (60 \<le> x \<and> x < 1440 \<longrightarrow> frequencyToCron x = every_h_hours (x div 60)) \<and>
   (1440 \<le> x \<longrightarrow> frequencyToCron x = daily_at_midnight)"
proof (intro conjI impI)
  assume "x < 15"
  then show "frequencyToCron x = frequencyToCron 15"
    by (simp add: frequencyToCron_def max_def)
next
  assume a: "15 \<le> x \<and> x < 60"
  then have "js_string_of_int x = short_decimal x" by (intro js_string_short) auto
  with a show "frequencyToCron x = every_n_minutes x"
    by (simp add: frequencyToCron_def every_n_minutes_def max_def)
next
  assume a: "60 \<le> x \<and> x < 1440"
  then have h: "1 \<le> x div 60" "x div 60 < 24" by auto
  then have "js_string_of_int (x div 60) = short_decimal (x div 60)"
    by (intro js_string_short) auto
  with a h show "frequencyToCron x = every_h_hours (x div 60)"
    by (simp add: frequencyToCron_def every_h_hours_def max_def Let_def)
next
  assume a: "1440 \<le> x"
  then have "24 \<le> x div 60" by auto
  with a show "frequencyToCron x = daily_at_midnight"
    by (simp add: frequencyToCron_def daily_at_midnight_def max_def Let_def)
qed

text \<open>
  The cases of C3 at concrete inputs: 7 behaves as 15, 30 is every 30 minutes, 90 is
  every 1 hour, 720 is every 12 hours, 1500 is daily at midnight.
\<close>

theorem frequencyToCron_cases_witness:
  "frequencyToCron 7 = ''*/15 * * * *'' \<and> frequencyToCron 30 = ''*/30 * * * *'' \<and>
   frequencyToCron 90 = ''0 */1 * * *'' \<and> frequencyToCron 720 = ''0 */12 * * *'' \<and>
   frequencyToCron 1500 = ''0 0 * * *''"
  using frequencyToCron_cases [of 7] frequencyToCron_cases [of 15] frequencyToCron_cases [of 30]
    frequencyToCron_cases [of 90] frequencyToCron_cases [of 720] frequencyToCron_cases [of 1500]
  by (simp add: every_n_minutes_def every_h_hours_def daily_at_midnight_def short_decimal_def
      digit_char_def)


section \<open>Theorems: the retry executor\<close>

lemma retry_loop_success:
  assumes "a \<le> k" and "int k < m" and "\<forall>i. a \<le> i \<and> i < k \<longrightarrow> isl (fn i)" and "fn k = Inr v"
  shows "retry_loop fn m d a a w =
           \<lparr>result = Returned v, invocations = k + 1,
            delays = w @ map (\<lambda>i. d * 2 ^ i) [a..<k]\<rparr>"
  using assms
proof (induction "k - a" arbitrary: a w)
  case 0
  then have "a = k" by simp
  with 0 show ?case by (subst retry_loop.simps) simp
next
  case (Suc n)
  then have lt: "a < k" by simp
  with Suc.prems have "isl (fn a)" by simp
  then obtain e where e: "fn a = Inl e" by (cases "fn a") auto
  have ih: "retry_loop fn m d (a + 1) (a + 1) (w @ [d * 2 ^ a]) =
           \<lparr>result = Returned v, invocations = k + 1,
            delays = (w @ [d * 2 ^ a]) @ map (\<lambda>i. d * 2 ^ i) [a + 1..<k]\<rparr>"
    using Suc.hyps(2) Suc.prems lt by (intro Suc.hyps(1)) auto
  have "retry_loop fn m d a a w = retry_loop fn m d (a + 1) (a + 1) (w @ [d * 2 ^ a])"
    using lt Suc.prems(2) e by (subst retry_loop.simps) simp
  with ih lt show ?case by (simp add: upt_conv_Cons)
qed

lemma retry_loop_failure:
  assumes "int a < m" and "\<forall>i. a \<le> i \<and> int i < m \<longrightarrow> isl (fn i)"
  shows "retry_loop fn m d a a w =
           \<lparr>result = Threw (projl (fn (nat m - 1))), invocations = nat m,
            delays = w @ map (\<lambda>i. d * 2 ^ i) [a..<nat m - 1]\<rparr>"
  using assms
proof (induction "nat m - a" arbitrary: a w)
  case 0
  then show ?case by simp
next
  case (Suc n)
  from Suc.prems have "isl (fn a)" by simp
  then obtain e where e: "fn a = Inl e" by (cases "fn a") auto
  show ?case
  proof (cases "int a = m - 1")
    case True
    then have "nat m - 1 = a" by simp
    with True e Suc.prems show ?thesis
      by (subst retry_loop.simps) auto
  next
    case False
    with Suc.prems have lt: "int (a + 1) < m" by simp
    have ih: "retry_loop fn m d (a + 1) (a + 1) (w @ [d * 2 ^ a]) =
           \<lparr>result = Threw (projl (fn (nat m - 1))), invocations = nat m,
            delays = (w @ [d * 2 ^ a]) @ map (\<lambda>i. d * 2 ^ i) [a + 1..<nat m - 1]\<rparr>"
      using Suc.hyps(2) Suc.prems lt by (intro Suc.hyps(1)) auto
    have "retry_loop fn m d a a w = retry_loop fn m d (a + 1) (a + 1) (w @ [d * 2 ^ a])"
      using False Suc.prems(1) e by (subst retry_loop.simps) simp
    moreover have "a < nat m - 1" using lt by simp
    ultimately show ?thesis using ih by (simp add: upt_conv_Cons)
  qed
qed

text \<open>
  Claim C2. With \<open>maxAttempts = m \<ge> 1\<close> and \<open>baseDelay = d\<close>: the operation is invoked
  at most \<open>m\<close> times; when its first success is at invocation \<open>k < m\<close>, that result is
  returned after exactly \<open>k + 1\<close> invocations and the waits \<open>d * 2^0, ..., d * 2^(k-1)\<close>,
  one after each failed attempt; when all \<open>m\<close> invocations fail, the error of the last
  one is thrown after the waits \<open>d * 2^0, ..., d * 2^(m-2)\<close>.
\<close>

theorem retryWithBackoff_contract:
  assumes "1 \<le> m"
  shows "invocations (retryWithBackoff fn m d) \<le> nat m \<and>
    (\<forall>k v. k < nat m \<and> (\<forall>i<k. isl (fn i)) \<and> fn k = Inr v \<longrightarrow>
       retryWithBackoff fn m d =
         \<lparr>result = Returned v, invocations = k + 1, delays = map (\<lambda>i. d * 2 ^ i) [0..<k]\<rparr>) \<and>
    ((\<forall>i<nat m. isl (fn i)) \<longrightarrow>
       retryWithBackoff fn m d =
         \<lparr>result = Threw (projl (fn (nat m - 1))), invocations = nat m,
          delays = map (\<lambda>i. d * 2 ^ i) [0..<nat m - 1]\<rparr>)"
proof -
  have succ: "retryWithBackoff fn m d =
         \<lparr>result = Returned v, invocations = k + 1, delays = map (\<lambda>i. d * 2 ^ i) [0..<k]\<rparr>"
    if "k < nat m" and "\<forall>i<k. isl (fn i)" and "fn k = Inr v" for k v
    using that retry_loop_success [of 0 k m fn v d "[]"]
    by (simp add: retryWithBackoff_def)
  have fail: "retryWithBackoff fn m d =
         \<lparr>result = Threw (projl (fn (nat m - 1))), invocations = nat m,
          delays = map (\<lambda>i. d * 2 ^ i) [0..<nat m - 1]\<rparr>"
    if "\<forall>i<nat m. isl (fn i)"
    using that assms retry_loop_failure [of 0 m fn d "[]"]
    by (simp add: retryWithBackoff_def)
  have bound: "invocations (retryWithBackoff fn m d) \<le> nat m"
  proof (cases "\<forall>i<nat m. isl (fn i)")
    case True
    then show ?thesis by (simp add: fail)
  next
    case False
    then have ex: "\<exists>i. i < nat m \<and> \<not> isl (fn i)" by auto
    define k where "k = (LEAST i. i < nat m \<and> \<not> isl (fn i))"
    have k: "k < nat m \<and> \<not> isl (fn k)"
      unfolding k_def using ex by (rule LeastI_ex)
    have least: "\<forall>i<k. isl (fn i)"
    proof (intro allI impI)
      fix i assume "i < k"
      then have "\<not> (i < nat m \<and> \<not> isl (fn i))"
        unfolding k_def by (rule not_less_Least)
      with \<open>i < k\<close> k show "isl (fn i)" by auto
    qed
    from k obtain v where "fn k = Inr v" by (cases "fn k") auto
    with k least have "invocations (retryWithBackoff fn m d) = k + 1"
      by (simp add: succ)
    with k show ?thesis by simp
  qed
  from bound succ fail show ?thesis by blast
qed

text \<open>
  The example of C2: three attempts, base delay 1000, an operation that fails twice and
  then succeeds is invoked exactly 3 times with waits 1000 and 2000; an operation that
  always fails is invoked 3 times and its third error is propagated.
\<close>

theorem retryWithBackoff_contract_witness:
  "(1::int) \<le> 3 \<and>
   retryWithBackoff fails_twice 3 1000 =
     \<lparr>result = Returned 42, invocations = 3, delays = [1000, 2000]\<rparr> \<and>
   sum_list (delays (retryWithBackoff fails_twice 3 1000)) = 1000 + 2000 \<and>
   retryWithBackoff always_fails 3 1000 =
     \<lparr>result = Threw ''failure 2'', invocations = 3, delays = [1000, 2000]\<rparr>"
proof -
  have m: "(1::int) \<le> 3" by simp
  have s: "(2::nat) < nat 3 \<and> (\<forall>i<2. isl (fails_twice i)) \<and> fails_twice 2 = Inr 42"
    by (simp add: fails_twice_def)
  have f: "\<forall>i<nat 3. isl (always_fails i)"
    by (simp add: always_fails_def)
  have u: "[0..<2] = [0, Suc 0]" by (simp add: upt_conv_Cons)
  have a: "retryWithBackoff fails_twice 3 1000 =
     \<lparr>result = Returned 42, invocations = 3, delays = [1000, 2000]\<rparr>"
    using retryWithBackoff_contract [OF m, of fails_twice 1000, THEN conjunct2, THEN conjunct1,
        rule_format, of 2 42] s
    by (simp add: u)
  have b: "retryWithBackoff always_fails 3 1000 =
     \<lparr>result = Threw ''failure 2'', invocations = 3, delays = [1000, 2000]\<rparr>"
    using retryWithBackoff_contract [OF m, of always_fails 1000, THEN conjunct2, THEN conjunct2,
        rule_format] f
    by (simp add: u always_fails_def string_of_nat.simps [of 2] digit_char_def)
  from a b show ?thesis by simp
qed


section \<open>Theorems: change detection\<close>

lemma priceAlerts_ebay_source:
  "a \<in> set (priceAlerts st t EbayPriceChanged old new) \<Longrightarrow>
     alertSource (message a) = Ebay \<and> isPriceAlert a"
  by (auto simp: priceAlerts_def Let_def isPriceAlert_def split: if_splits)

lemma priceAlerts_supplier_source:
  "a \<in> set (priceAlerts st t SupplierPriceChanged old new) \<Longrightarrow>
     alertSource (message a) = Supplier \<and> isPriceAlert a"
  by (auto simp: priceAlerts_def Let_def isPriceAlert_def split: if_splits)

lemma stockAlerts_ebay_source:
  "a \<in> set (stockAlerts st src sev EbayOutOfStock EbayBackInStock old new) \<Longrightarrow>
     alertSource (message a) = Ebay \<and> isStockAlert a"
  by (auto simp: stockAlerts_def isStockAlert_def split: if_splits)

lemma stockAlerts_supplier_source:
  "a \<in> set (stockAlerts st src sev SupplierOutOfStock SupplierBackInStock old new) \<Longrightarrow>
     alertSource (message a) = Supplier \<and> isStockAlert a"
  by (auto simp: stockAlerts_def isStockAlert_def split: if_splits)

lemma price_not_stock: "isPriceAlert a \<Longrightarrow> \<not> isStockAlert a"
  by (auto simp: isPriceAlert_def isStockAlert_def)

lemma filter_kinds:
  "filter isPriceAlert (priceAlerts st t mk old new) = priceAlerts st t mk old new"
  "filter isStockAlert (priceAlerts st t mk old new) = []"
  "filter isStockAlert (stockAlerts st src sev m1 m2 so sn) = stockAlerts st src sev m1 m2 so sn"
  "filter isPriceAlert (stockAlerts st src sev m1 m2 so sn) = []"
  by (simp_all add: priceAlerts_def stockAlerts_def Let_def isPriceAlert_def isStockAlert_def)

lemma ebayStep_source:
  "a \<in> set (step_alerts (ebayStep st t w p)) \<Longrightarrow> alertSource (message a) = Ebay"
  by (auto simp: ebayStep_def split: sum.splits option.splits
      dest: priceAlerts_ebay_source stockAlerts_ebay_source)

lemma supplierStep_source:
  "a \<in> set (step_alerts (supplierStep st t w op os p)) \<Longrightarrow> alertSource (message a) = Supplier"
  by (auto simp: supplierStep_def split: sum.splits option.splits if_splits
      dest: priceAlerts_supplier_source stockAlerts_supplier_source)

lemma competitorStep_source:
  "a \<in> set (step_alerts (competitorStep st t w p)) \<Longrightarrow> alertSource (message a) = Competitor"
  by (auto simp: competitorStep_def Let_def split: sum.splits option.splits if_splits)

lemma filter_all: "(\<And>x. x \<in> set xs \<Longrightarrow> P x) \<Longrightarrow> filter P xs = xs"
  by (induction xs) auto

lemma filter_none: "(\<And>x. x \<in> set xs \<Longrightarrow> \<not> P x) \<Longrightarrow> filter P xs = []"
  by (induction xs) auto

lemma alerts_checkProduct:
  "alerts (checkProduct st env w p) =
     step_alerts (ebayStep st (effectiveThreshold st env) w p) @
     step_alerts (supplierStep st (effectiveThreshold st env) w (supplierPrice p)
        (supplierStockStatus p) (step_product (ebayStep st (effectiveThreshold st env) w p))) @
     step_alerts (competitorStep st (competitorAlertPercent env) w
        (step_product (supplierStep st (effectiveThreshold st env) w (supplierPrice p)
           (supplierStockStatus p) (step_product (ebayStep st (effectiveThreshold st env) w p)))))"
  by (simp add: checkProduct_def Let_def)

lemma alertsFrom_Ebay:
  "alertsFrom Ebay (checkProduct st env w p) =
     step_alerts (ebayStep st (effectiveThreshold st env) w p)"
  unfolding alertsFrom_def alerts_checkProduct filter_append
  by (simp add: filter_all filter_none ebayStep_source supplierStep_source competitorStep_source)

lemma ebayStep_supplier_fields:
  "supplierUrl (step_product (ebayStep st t w p)) = supplierUrl p"
  "hasSupplierUrl (step_product (ebayStep st t w p)) = hasSupplierUrl p"
  by (auto simp: ebayStep_def hasSupplierUrl_def split: sum.splits option.splits)

lemma alertsFrom_Supplier:
  "alertsFrom Supplier (checkProduct st env w p) =
     step_alerts (supplierStep st (effectiveThreshold st env) w (supplierPrice p)
        (supplierStockStatus p) (step_product (ebayStep st (effectiveThreshold st env) w p)))"
  unfolding alertsFrom_def alerts_checkProduct filter_append
  by (simp add: filter_all filter_none ebayStep_source supplierStep_source competitorStep_source)

lemma alertsFrom_Competitor:
  "alertsFrom Competitor (checkProduct st env w p) =
     step_alerts (competitorStep st (competitorAlertPercent env) w
        (step_product (supplierStep st (effectiveThreshold st env) w (supplierPrice p)
           (supplierStockStatus p) (step_product (ebayStep st (effectiveThreshold st env) w p)))))"
  unfolding alertsFrom_def alerts_checkProduct filter_append
  by (simp add: filter_all filter_none ebayStep_source supplierStep_source competitorStep_source)

lemma priceAlertsFrom_Ebay:
  assumes "ebayFetch w = Inr (Some d)"
  shows "priceAlertsFrom Ebay (checkProduct st env w p) =
     priceAlerts st (effectiveThreshold st env) EbayPriceChanged (ebayPrice p) (item_price d)"
  unfolding priceAlertsFrom_def alertsFrom_Ebay
  using assms
  by (simp add: ebayStep_def filter_kinds)

text \<open>
  The rule for a marketplace price alert. With a stored price above 0 and a fetched price
  different from it, the run emits exactly one price alert about the marketplace when the
  absolute percent change reaches the threshold in force and the alert type is enabled,
  and none otherwise; it is a \<open>price_increase\<close> when the price went up and a
  \<open>price_decrease\<close> when it went down, of severity \<open>high\<close> above 10 percent and
  \<open>medium\<close> otherwise. The threshold in force is \<^const>\<open>effectiveThreshold\<close>.
\<close>

lemma checkProduct_price_rule:
  assumes "ebayFetch w = Inr (Some d)" and "ebayPrice p > 0" and "item_price d \<noteq> ebayPrice p"
  shows "priceAlertsFrom Ebay (checkProduct st env w p) =
     (if \<bar>percentChange (ebayPrice p) (item_price d)\<bar> \<ge> effectiveThreshold st env \<and>
         shouldAlert st (if item_price d > ebayPrice p then priceIncrease else priceDecrease)
      then [\<lparr>alertType = (if item_price d > ebayPrice p then Price_increase else Price_decrease),
             oldValue = Num (ebayPrice p), newValue = Num (item_price d),
             message = EbayPriceChanged (ebayPrice p) (item_price d)
               (percentChange (ebayPrice p) (item_price d)),
             severity = (if \<bar>percentChange (ebayPrice p) (item_price d)\<bar> > 10 then high
                         else medium)\<rparr>]
      else [])"
  using assms by (simp add: priceAlertsFrom_Ebay priceAlerts_def Let_def)

lemma priceAlertsFrom_Supplier:
  assumes "hasSupplierUrl p" and "supplierFetch w = Inr (Some d)"
  shows "priceAlertsFrom Supplier (checkProduct st env w p) =
     priceAlerts st (effectiveThreshold st env) SupplierPriceChanged (supplierPrice p) (sup_price d)"
  unfolding priceAlertsFrom_def alertsFrom_Supplier
  using assms by (simp add: supplierStep_def ebayStep_supplier_fields filter_kinds)

text \<open>The same rule for the supplier, when the product has a supplier URL.\<close>

lemma checkProduct_price_rule_supplier:
  assumes "hasSupplierUrl p" and "supplierFetch w = Inr (Some d)"
    and "supplierPrice p > 0" and "sup_price d \<noteq> supplierPrice p"
  shows "priceAlertsFrom Supplier (checkProduct st env w p) =
     (if \<bar>percentChange (supplierPrice p) (sup_price d)\<bar> \<ge> effectiveThreshold st env \<and>
         shouldAlert st (if sup_price d > supplierPrice p then priceIncrease else priceDecrease)
      then [\<lparr>alertType = (if sup_price d > supplierPrice p then Price_increase else Price_decrease),
             oldValue = Num (supplierPrice p), newValue = Num (sup_price d),
             message = SupplierPriceChanged (supplierPrice p) (sup_price d)
               (percentChange (supplierPrice p) (sup_price d)),
             severity = (if \<bar>percentChange (supplierPrice p) (sup_price d)\<bar> > 10 then high
                         else medium)\<rparr>]
      else [])"
  using assms by (simp add: priceAlertsFrom_Supplier priceAlerts_def Let_def)

lemma world_ebay_simps:
  "ebayFetch (world_ebay pr s) = Inr (Some (ebay_snapshot pr s))"
  by (simp add: world_ebay_def)

text \<open>
  The examples of the spec with threshold 5 and a stored price of 100: a new price of 104
  gives no alert, 106 gives one \<open>price_increase\<close> of severity \<open>medium\<close>, 116 gives one
  of severity \<open>high\<close>.
\<close>

lemma checkProduct_price_examples:
  "priceAlertsFrom Ebay (checkProduct (settings_with 5) env_unset (world_ebay 104 in_stock) widget) = []"
  "priceAlertsFrom Ebay (checkProduct (settings_with 5) env_unset (world_ebay 106 in_stock) widget) =
     [\<lparr>alertType = Price_increase, oldValue = Num 100, newValue = Num 106,
       message = EbayPriceChanged 100 106 6, severity = medium\<rparr>]"
  "priceAlertsFrom Ebay (checkProduct (settings_with 5) env_unset (world_ebay 116 in_stock) widget) =
     [\<lparr>alertType = Price_increase, oldValue = Num 100, newValue = Num 116,
       message = EbayPriceChanged 100 116 16, severity = high\<rparr>]"
  by (simp_all add: priceAlertsFrom_Ebay [OF world_ebay_simps] priceAlerts_def Let_def
      percentChange_def effectiveThreshold_def settings_with_def env_unset_def widget_def
      ebay_snapshot_def shouldAlert_def all_enabled_def)

text \<open>
  Claim C1 says that the price alert is emitted if and only if the absolute percent
  change is at least the tenant's threshold. The settings accept a threshold of 0
  (the schema's minimum, and the lower bound checked by the settings controller), but
  \<open>checkProduct\<close> reads the threshold with \<open>||\<close>, so a tenant's 0 is taken as absent and
  the default 5 is used. With the tenant's threshold 0, price alerts enabled, a stored
  price of 100 and a fetched price of 101 (a change of 1 percent, which is at least 0),
  the run emits no alert at all.
\<close>

theorem checkProduct_zero_threshold_ignored:
  "priceChangeThreshold (settings_with 0) = 0 \<and>
   \<bar>percentChange (ebayPrice widget) 101\<bar> \<ge> priceChangeThreshold (settings_with 0) \<and>
   shouldAlert (settings_with 0) priceIncrease \<and>
   alerts (checkProduct (settings_with 0) env_unset (world_ebay 101 in_stock) widget) = []"
  by (simp add: checkProduct_def Let_def ebayStep_def supplierStep_def competitorStep_def
      priceAlerts_def stockAlerts_def percentChange_def effectiveThreshold_def settings_with_def
      env_unset_def widget_def ebay_snapshot_def supplier_snapshot_def world_ebay_def
      shouldAlert_def all_enabled_def hasSupplierUrl_def)


lemma stockAlertsFrom_Ebay:
  assumes "ebayFetch w = Inr (Some d)"
  shows "stockAlertsFrom Ebay (checkProduct st env w p) =
     stockAlerts st ''ebay'' high EbayOutOfStock EbayBackInStock (stockStatus p) (item_stock d)"
  unfolding stockAlertsFrom_def alertsFrom_Ebay
  using assms by (simp add: ebayStep_def filter_kinds)

lemma ebayStep_keeps_supplier:
  "supplierPrice (step_product (ebayStep st t w p)) = supplierPrice p"
  "supplierStockStatus (step_product (ebayStep st t w p)) = supplierStockStatus p"
  by (auto simp: ebayStep_def split: sum.splits option.splits)

lemma stockAlertsFrom_Supplier:
  assumes "hasSupplierUrl p" and "supplierFetch w = Inr (Some d)"
  shows "stockAlertsFrom Supplier (checkProduct st env w p) =
     stockAlerts st ''supplier'' critical SupplierOutOfStock SupplierBackInStock
       (supplierStockStatus p) (sup_stock d)"
  unfolding stockAlertsFrom_def alertsFrom_Supplier
  using assms by (simp add: supplierStep_def ebayStep_supplier_fields filter_kinds)

text \<open>
  Claim C4. With the \<open>outOfStock\<close> alert type enabled and a fetched stock state that
  differs from the stored one: when the new state is \<open>out_of_stock\<close> the run emits exactly
  one \<open>out_of_stock\<close> alert about that source, of severity \<open>high\<close> for the marketplace
  and \<open>critical\<close> for the supplier; when the old state was \<open>out_of_stock\<close> and the new one
  is not, exactly one \<open>back_in_stock\<close> alert of severity \<open>medium\<close>; any other change of the
  stock state emits no stock alert.
\<close>

theorem checkProduct_stock_transition:
  assumes "shouldAlert st outOfStock"
  shows
   "(\<forall>d. ebayFetch w = Inr (Some d) \<and> item_stock d \<noteq> stockStatus p \<longrightarrow>
       stockAlertsFrom Ebay (checkProduct st env w p) =
         (if item_stock d = out_of_stock then
            [\<lparr>alertType = Out_of_stock, oldValue = Str ''ebay'',
              newValue = StockStr (stockStatus p), message = EbayOutOfStock, severity = high\<rparr>]
          else if stockStatus p = out_of_stock then
            [\<lparr>alertType = Back_in_stock, oldValue = StockStr out_of_stock,
              newValue = Str ''ebay'', message = EbayBackInStock, severity = medium\<rparr>]
          else [])) \<and>
    (\<forall>d. hasSupplierUrl p \<and> supplierFetch w = Inr (Some d) \<and>
         sup_stock d \<noteq> supplierStockStatus p \<longrightarrow>
       stockAlertsFrom Supplier (checkProduct st env w p) =
         (if sup_stock d = out_of_stock then
            [\<lparr>alertType = Out_of_stock, oldValue = Str ''supplier'',
              newValue = StockStr (supplierStockStatus p), message = SupplierOutOfStock,
              severity = critical\<rparr>]
          else if supplierStockStatus p = out_of_stock then
            [\<lparr>alertType = Back_in_stock, oldValue = StockStr out_of_stock,
              newValue = Str ''supplier'', message = SupplierBackInStock, severity = medium\<rparr>]
          else []))"
  using assms
  by (auto simp: stockAlertsFrom_Ebay stockAlertsFrom_Supplier stockAlerts_def)

text \<open>
  C4 on concrete runs: the marketplace going from \<open>in_stock\<close> to \<open>out_of_stock\<close> (one
  alert, \<open>high\<close>), the supplier doing the same (one alert, \<open>critical\<close>), the marketplace
  coming back from \<open>out_of_stock\<close> (one \<open>back_in_stock\<close>, \<open>medium\<close>), and the marketplace
  going from \<open>in_stock\<close> to \<open>low_stock\<close> (no stock alert).
\<close>

theorem checkProduct_stock_transition_witness:
  "shouldAlert (settings_with 5) outOfStock \<and>
   stockAlertsFrom Ebay
     (checkProduct (settings_with 5) env_unset (world_ebay 100 out_of_stock) widget) =
     [\<lparr>alertType = Out_of_stock, oldValue = Str ''ebay'', newValue = StockStr in_stock,
       message = EbayOutOfStock, severity = high\<rparr>] \<and>
   stockAlertsFrom Supplier
     (checkProduct (settings_with 5) env_unset (world_supplier 60 out_of_stock) widget) =
     [\<lparr>alertType = Out_of_stock, oldValue = Str ''supplier'', newValue = StockStr in_stock,
       message = SupplierOutOfStock, severity = critical\<rparr>] \<and>
   stockAlertsFrom Ebay
     (checkProduct (settings_with 5) env_unset (world_ebay 100 low_stock)
        (widget\<lparr>stockStatus := out_of_stock\<rparr>)) =
     [\<lparr>alertType = Back_in_stock, oldValue = StockStr out_of_stock, newValue = Str ''ebay'',
       message = EbayBackInStock, severity = medium\<rparr>] \<and>
   stockAlertsFrom Ebay
     (checkProduct (settings_with 5) env_unset (world_ebay 100 low_stock) widget) = []"
proof -
  have en: "shouldAlert (settings_with 5) outOfStock"
    by (simp add: shouldAlert_def settings_with_def all_enabled_def)
  have a: "ebayFetch (world_ebay 100 out_of_stock) = Inr (Some (ebay_snapshot 100 out_of_stock)) \<and>
           item_stock (ebay_snapshot 100 out_of_stock) \<noteq> stockStatus widget"
    by (simp add: world_ebay_def ebay_snapshot_def widget_def)
  have b: "hasSupplierUrl widget \<and>
           supplierFetch (world_supplier 60 out_of_stock) = Inr (Some (supplier_snapshot 60 out_of_stock)) \<and>
           sup_stock (supplier_snapshot 60 out_of_stock) \<noteq> supplierStockStatus widget"
    by (simp add: world_supplier_def supplier_snapshot_def widget_def hasSupplierUrl_def)
  have c: "ebayFetch (world_ebay 100 low_stock) = Inr (Some (ebay_snapshot 100 low_stock)) \<and>
           item_stock (ebay_snapshot 100 low_stock) \<noteq> stockStatus (widget\<lparr>stockStatus := out_of_stock\<rparr>)"
    by (simp add: world_ebay_def ebay_snapshot_def widget_def)
  have d: "ebayFetch (world_ebay 100 low_stock) = Inr (Some (ebay_snapshot 100 low_stock)) \<and>
           item_stock (ebay_snapshot 100 low_stock) \<noteq> stockStatus widget"
    by (simp add: world_ebay_def ebay_snapshot_def widget_def)
  note t = checkProduct_stock_transition [OF en]
  from t [of "world_ebay 100 out_of_stock" widget env_unset, THEN conjunct1, rule_format, OF a]
       t [of "world_supplier 60 out_of_stock" widget env_unset, THEN conjunct2, rule_format, OF b]
       t [of "world_ebay 100 low_stock" "widget\<lparr>stockStatus := out_of_stock\<rparr>" env_unset,
          THEN conjunct1, rule_format, OF c]
       t [of "world_ebay 100 low_stock" widget env_unset, THEN conjunct1, rule_format, OF d]
       en
  show ?thesis
    by (simp add: ebay_snapshot_def supplier_snapshot_def widget_def)
qed


lemma competitorStep_keeps:
  "supplierStockStatus (step_product (competitorStep st t w p)) = supplierStockStatus p"
  "supplierPrice (step_product (competitorStep st t w p)) = supplierPrice p"
  "supplierUrl (step_product (competitorStep st t w p)) = supplierUrl p"
  "ebayPrice (step_product (competitorStep st t w p)) = ebayPrice p"
  "stockStatus (step_product (competitorStep st t w p)) = stockStatus p"
  "title (step_product (competitorStep st t w p)) = title p"
  "images (step_product (competitorStep st t w p)) = images p"
  by (auto simp: competitorStep_def Let_def split: sum.splits option.splits)

lemma supplierStep_keeps:
  "supplierUrl (step_product (supplierStep st t w op os p)) = supplierUrl p"
  "ebayPrice (step_product (supplierStep st t w op os p)) = ebayPrice p"
  "stockStatus (step_product (supplierStep st t w op os p)) = stockStatus p"
  "title (step_product (supplierStep st t w op os p)) = title p"
  "images (step_product (supplierStep st t w op os p)) = images p"
  by (auto simp: supplierStep_def split: sum.splits option.splits)

lemma calculateProfit_keeps:
  "supplierStockStatus (calculateProfit p) = supplierStockStatus p"
  "supplierPrice (calculateProfit p) = supplierPrice p"
  "supplierUrl (calculateProfit p) = supplierUrl p"
  "ebayPrice (calculateProfit p) = ebayPrice p"
  "stockStatus (calculateProfit p) = stockStatus p"
  "title (calculateProfit p) = title p"
  "images (calculateProfit p) = images p"
  by (simp_all add: calculateProfit_def)

lemma checked_fields:
  "supplierStockStatus (checked (checkProduct st env w p)) =
     supplierStockStatus (step_product (supplierStep st (effectiveThreshold st env) w
        (supplierPrice p) (supplierStockStatus p) (step_product (ebayStep st (effectiveThreshold st env) w p))))"
  "supplierPrice (checked (checkProduct st env w p)) =
     supplierPrice (step_product (supplierStep st (effectiveThreshold st env) w
        (supplierPrice p) (supplierStockStatus p) (step_product (ebayStep st (effectiveThreshold st env) w p))))"
  "supplierUrl (checked (checkProduct st env w p)) = supplierUrl p"
  "ebayPrice (checked (checkProduct st env w p)) =
     ebayPrice (step_product (ebayStep st (effectiveThreshold st env) w p))"
  "stockStatus (checked (checkProduct st env w p)) =
     stockStatus (step_product (ebayStep st (effectiveThreshold st env) w p))"
  "title (checked (checkProduct st env w p)) =
     title (step_product (ebayStep st (effectiveThreshold st env) w p))"
  "images (checked (checkProduct st env w p)) =
     images (step_product (ebayStep st (effectiveThreshold st env) w p))"
  by (simp_all add: checkProduct_def Let_def calculateProfit_keeps competitorStep_keeps
      supplierStep_keeps ebayStep_supplier_fields)

lemma checked_hasSupplierUrl:
  "hasSupplierUrl (checked (checkProduct st env w p)) = hasSupplierUrl p"
  by (simp add: hasSupplierUrl_def checked_fields)

lemma unavailable_only_supplier:
  "filter isUnavailableAlert (step_alerts (ebayStep st t w p)) = []"
  "filter isUnavailableAlert (step_alerts (competitorStep st t' w p)) = []"
  by (auto simp: ebayStep_def competitorStep_def Let_def priceAlerts_def stockAlerts_def
      isUnavailableAlert_def split: sum.splits option.splits)

lemma unavailable_alerts:
  "filter isUnavailableAlert (alerts (checkProduct st env w p)) =
   filter isUnavailableAlert (step_alerts (supplierStep st (effectiveThreshold st env) w
        (supplierPrice p) (supplierStockStatus p) (step_product (ebayStep st (effectiveThreshold st env) w p))))"
  unfolding alerts_checkProduct filter_append
  by (simp add: unavailable_only_supplier)

lemma supplierStep_failure:
  assumes "hasSupplierUrl p" and "supplierFetch w = Inl err"
  shows "step_alerts (supplierStep st t w op os p) =
           (if shouldAlert st supplierUnavailable \<and> os \<noteq> unknown then
              [\<lparr>alertType = Supplier_unavailable, oldValue = Str ''available'',
                newValue = Str ''unavailable'', message = SupplierFetchFailed, severity = high\<rparr>]
            else [])"
    and "supplierStockStatus (step_product (supplierStep st t w op os p)) = unknown"
  using assms by (simp_all add: supplierStep_def)

text \<open>
  Claim C5. When the product has a supplier URL and the supplier fetch throws, the run
  emits exactly one \<open>supplier_unavailable\<close> alert of severity \<open>high\<close> if the stored
  supplier stock state was not \<open>unknown\<close> and the alert type is enabled, and none
  otherwise; the supplier stock state is \<open>unknown\<close> afterwards; and a next run in which
  the supplier fetch throws again emits no \<open>supplier_unavailable\<close> alert, whatever the
  settings and the other collaborators do.
\<close>

theorem checkProduct_supplier_failure:
  assumes "hasSupplierUrl p" and "supplierFetch w = Inl err"
  shows
   "filter isUnavailableAlert (alerts (checkProduct st env w p)) =
      (if shouldAlert st supplierUnavailable \<and> supplierStockStatus p \<noteq> unknown then
         [\<lparr>alertType = Supplier_unavailable, oldValue = Str ''available'',
           newValue = Str ''unavailable'', message = SupplierFetchFailed, severity = high\<rparr>]
       else []) \<and>
    supplierStockStatus (checked (checkProduct st env w p)) = unknown \<and>
    (\<forall>st' env' w' err'. supplierFetch w' = Inl err' \<longrightarrow>
       filter isUnavailableAlert
         (alerts (checkProduct st' env' w' (checked (checkProduct st env w p)))) = [])"
proof (intro conjI allI impI)
  have u: "hasSupplierUrl (step_product (ebayStep st (effectiveThreshold st env) w p))"
    using assms(1) by (simp add: ebayStep_supplier_fields)
  show "filter isUnavailableAlert (alerts (checkProduct st env w p)) =
      (if shouldAlert st supplierUnavailable \<and> supplierStockStatus p \<noteq> unknown then
         [\<lparr>alertType = Supplier_unavailable, oldValue = Str ''available'',
           newValue = Str ''unavailable'', message = SupplierFetchFailed, severity = high\<rparr>]
       else [])"
    by (simp add: unavailable_alerts supplierStep_failure(1) [OF u assms(2)] isUnavailableAlert_def)
  show s: "supplierStockStatus (checked (checkProduct st env w p)) = unknown"
    by (simp add: checked_fields supplierStep_failure(2) [OF u assms(2)])
  fix st' :: settings and env' :: proc_env and w' :: world and err' :: string
  assume f: "supplierFetch w' = Inl err'"
  let ?q = "checked (checkProduct st env w p)"
  have q: "hasSupplierUrl ?q" using assms(1) by (simp add: checked_hasSupplierUrl)
  have u': "hasSupplierUrl (step_product (ebayStep st' (effectiveThreshold st' env') w' ?q))"
    using q by (simp add: ebayStep_supplier_fields)
  show "filter isUnavailableAlert (alerts (checkProduct st' env' w' ?q)) = []"
    by (simp add: unavailable_alerts supplierStep_failure(1) [OF u' f] s)
qed

text \<open>
  C5 on a concrete product whose supplier was \<open>in_stock\<close>: the first failing run emits
  the alert and stores \<open>unknown\<close>, the second failing run emits none.
\<close>

theorem checkProduct_supplier_failure_witness:
  "hasSupplierUrl widget \<and> supplierFetch world_supplier_down = Inl ''Failed to fetch supplier data: timeout'' \<and>
   filter isUnavailableAlert (alerts (checkProduct (settings_with 5) env_unset world_supplier_down widget)) =
     [\<lparr>alertType = Supplier_unavailable, oldValue = Str ''available'',
       newValue = Str ''unavailable'', message = SupplierFetchFailed, severity = high\<rparr>] \<and>
   supplierStockStatus (checked (checkProduct (settings_with 5) env_unset world_supplier_down widget)) = unknown \<and>
   filter isUnavailableAlert
     (alerts (checkProduct (settings_with 5) env_unset world_supplier_down
        (checked (checkProduct (settings_with 5) env_unset world_supplier_down widget)))) = []"
proof -
  have u: "hasSupplierUrl widget" by (simp add: hasSupplierUrl_def widget_def)
  have f: "supplierFetch world_supplier_down = Inl ''Failed to fetch supplier data: timeout''"
    by (simp add: world_supplier_down_def)
  have en: "shouldAlert (settings_with 5) supplierUnavailable \<and> supplierStockStatus widget \<noteq> unknown"
    by (simp add: shouldAlert_def settings_with_def all_enabled_def widget_def)
  note t = checkProduct_supplier_failure [OF u f, of "settings_with 5" env_unset]
  from t [THEN conjunct1] t [THEN conjunct2, THEN conjunct1]
    t [THEN conjunct2, THEN conjunct2, rule_format, OF f, of "settings_with 5" env_unset] u f en
  show ?thesis by simp
qed


lemma history_checkProduct:
  "history (checkProduct st env w p) =
     step_history (ebayStep st (effectiveThreshold st env) w p) @
     step_history (supplierStep st (effectiveThreshold st env) w (supplierPrice p)
        (supplierStockStatus p) (step_product (ebayStep st (effectiveThreshold st env) w p))) @
     step_history (competitorStep st (competitorAlertPercent env) w
        (step_product (supplierStep st (effectiveThreshold st env) w (supplierPrice p)
           (supplierStockStatus p) (step_product (ebayStep st (effectiveThreshold st env) w p)))))"
  by (simp add: checkProduct_def Let_def)

lemma fetch_cases [case_names Threw Null Data]:
  fixes r :: "string + 'a option"
  obtains (Threw) e where "r = Inl e" | (Null) "r = Inr None" | (Data) d where "r = Inr (Some d)"
proof (cases r)
  case (Inl e)
  then show ?thesis using that by simp
next
  case (Inr v)
  then show ?thesis using that by (cases v) simp_all
qed

lemma ebayStep_history:
  "step_history (ebayStep st t w p) =
     (if delivered (ebayFetch w) then
        [\<lparr>hist_source = Ebay,
          hist_price = ebayPrice (step_product (ebayStep st t w p)),
          hist_stock = stockStatus (step_product (ebayStep st t w p))\<rparr>]
      else [])"
  by (cases "ebayFetch w" rule: fetch_cases) (simp_all add: ebayStep_def delivered_def)

lemma supplierStep_history:
  "step_history (supplierStep st t w op os p) =
     (if hasSupplierUrl p \<and> delivered (supplierFetch w) then
        [\<lparr>hist_source = Supplier,
          hist_price = supplierPrice (step_product (supplierStep st t w op os p)),
          hist_stock = supplierStockStatus (step_product (supplierStep st t w op os p))\<rparr>]
      else [])"
  by (cases "supplierFetch w" rule: fetch_cases) (simp_all add: supplierStep_def delivered_def)

lemma competitorStep_history:
  "step_history (competitorStep st t w p) =
     (case competitorFetch w of
        Inr (Some ins) \<Rightarrow>
          (case summary ins of
             Some cheapest \<Rightarrow>
               if lowestPrice cheapest \<noteq> 0 \<and> ebayPrice p \<noteq> 0
               then [\<lparr>hist_source = Competitor, hist_price = lowestPrice cheapest,
                      hist_stock = in_stock\<rparr>]
               else []
           | None \<Rightarrow> [])
      | _ \<Rightarrow> [])"
proof (cases "competitorFetch w" rule: fetch_cases)
  case (Data ins)
  show ?thesis
  proof (cases "summary ins")
    case None
    with Data show ?thesis by (simp add: competitorStep_def Let_def)
  next
    case (Some c)
    with Data show ?thesis
      by (cases "listings ins = []") (simp_all add: competitorStep_def Let_def)
  qed
qed (simp_all add: competitorStep_def)

lemma competitorStep_history_source:
  "h \<in> set (step_history (competitorStep st t w p)) \<Longrightarrow> hist_source h = Competitor"
proof (cases "competitorFetch w" rule: fetch_cases)
  case (Data ins)
  assume h: "h \<in> set (step_history (competitorStep st t w p))"
  show ?thesis
  proof (cases "summary ins")
    case None
    with Data h show ?thesis by (simp add: competitorStep_history)
  next
    case (Some c)
    with Data h show ?thesis
      by (cases "lowestPrice c \<noteq> 0 \<and> ebayPrice p \<noteq> 0") (simp_all add: competitorStep_history)
  qed
qed (simp_all add: competitorStep_history)

lemma ebayStep_price:
  "ebayPrice (step_product (ebayStep st t w p)) =
     (case ebayFetch w of Inr (Some d) \<Rightarrow> item_price d | _ \<Rightarrow> ebayPrice p)"
  "stockStatus (step_product (ebayStep st t w p)) =
     (case ebayFetch w of Inr (Some d) \<Rightarrow> item_stock d | _ \<Rightarrow> stockStatus p)"
  by (cases "ebayFetch w" rule: fetch_cases; simp add: ebayStep_def)+

lemma historyFrom_Ebay:
  "historyFrom Ebay (checkProduct st env w p) =
     step_history (ebayStep st (effectiveThreshold st env) w p)"
  unfolding historyFrom_def history_checkProduct filter_append
  by (simp add: filter_all filter_none ebayStep_history supplierStep_history
      competitorStep_history_source)

lemma historyFrom_Supplier:
  "historyFrom Supplier (checkProduct st env w p) =
     step_history (supplierStep st (effectiveThreshold st env) w (supplierPrice p)
        (supplierStockStatus p) (step_product (ebayStep st (effectiveThreshold st env) w p)))"
  unfolding historyFrom_def history_checkProduct filter_append
  by (simp add: filter_all filter_none ebayStep_history supplierStep_history
      competitorStep_history_source)

lemma historyFrom_Competitor:
  "historyFrom Competitor (checkProduct st env w p) =
     step_history (competitorStep st (competitorAlertPercent env) w
        (step_product (supplierStep st (effectiveThreshold st env) w (supplierPrice p)
           (supplierStockStatus p) (step_product (ebayStep st (effectiveThreshold st env) w p)))))"
  unfolding historyFrom_def history_checkProduct filter_append
  by (simp add: filter_all filter_none ebayStep_history supplierStep_history
      competitorStep_history_source)

lemma history_count_ebay:
  "length (historyFrom Ebay (checkProduct st env w p)) = (if delivered (ebayFetch w) then 1 else 0)"
  unfolding historyFrom_Ebay by (simp add: ebayStep_history)

lemma history_count_supplier:
  "length (historyFrom Supplier (checkProduct st env w p)) =
     (if hasSupplierUrl p \<and> delivered (supplierFetch w) then 1 else 0)"
  unfolding historyFrom_Supplier by (simp add: supplierStep_history ebayStep_supplier_fields)

lemma history_count_competitor:
  "length (historyFrom Competitor (checkProduct st env w p)) =
     (if competitorRecorded w p then 1 else 0)"
proof (cases "competitorFetch w" rule: fetch_cases)
  case (Data ins)
  show ?thesis
  proof (cases "summary ins")
    case None
    with Data show ?thesis
      by (simp add: historyFrom_Competitor competitorStep_history competitorRecorded_def)
  next
    case (Some c)
    with Data show ?thesis
      by (simp add: historyFrom_Competitor competitorStep_history competitorRecorded_def
          supplierStep_keeps ebayStep_price)
  qed
qed (simp_all add: historyFrom_Competitor competitorStep_history competitorRecorded_def)

lemma priceAlerts_same: "priceAlerts st t mk x x = []"
  by (simp add: priceAlerts_def)

lemma stockAlerts_same: "stockAlerts st src sev m1 m2 x x = []"
  by (simp add: stockAlerts_def)

lemma ebayStep_second:
  "step_alerts (ebayStep st t w (checked (checkProduct st env w p))) = []"
  by (cases "ebayFetch w" rule: fetch_cases)
     (simp_all add: ebayStep_def checked_fields ebayStep_price priceAlerts_same stockAlerts_same)

lemma supplierStep_values:
  "supplierPrice (step_product (supplierStep st t w op os p)) =
     (if hasSupplierUrl p then
        (case supplierFetch w of Inr (Some d) \<Rightarrow> sup_price d | _ \<Rightarrow> supplierPrice p)
      else supplierPrice p)"
  "supplierStockStatus (step_product (supplierStep st t w op os p)) =
     (if hasSupplierUrl p then
        (case supplierFetch w of Inr (Some d) \<Rightarrow> sup_stock d | Inr None \<Rightarrow> supplierStockStatus p
         | Inl e \<Rightarrow> unknown)
      else supplierStockStatus p)"
  by (cases "supplierFetch w" rule: fetch_cases; simp add: supplierStep_def)+

lemma supplierStep_second:
  "step_alerts (supplierStep st t w
      (supplierPrice (checked (checkProduct st env w p)))
      (supplierStockStatus (checked (checkProduct st env w p))) q) = []"
  if "hasSupplierUrl q = hasSupplierUrl p"
  using that
  by (cases "supplierFetch w" rule: fetch_cases)
     (simp_all add: supplierStep_def checked_fields supplierStep_values ebayStep_supplier_fields
      priceAlerts_same stockAlerts_same)

lemma competitorStep_type:
  "a \<in> set (step_alerts (competitorStep st t w p)) \<Longrightarrow> alertType a = Competitor_price"
  using competitorStep_source [of a st t w p]
  by (cases "message a") (auto simp: competitorStep_def Let_def split: sum.splits option.splits if_splits)


lemma competitorStep_alerts_price:
  assumes "ebayPrice p = ebayPrice q"
  shows "step_alerts (competitorStep st t w p) = step_alerts (competitorStep st t w q)"
proof (cases "competitorFetch w" rule: fetch_cases)
  case (Data ins)
  show ?thesis
  proof (cases "summary ins")
    case None
    with Data show ?thesis by (simp add: competitorStep_def Let_def)
  next
    case (Some c)
    with Data assms show ?thesis
      by (cases "listings ins = []") (simp_all add: competitorStep_def Let_def)
  qed
qed (simp_all add: competitorStep_def)

lemma second_run_price:
  "ebayPrice (step_product (ebayStep st t w (checked (checkProduct st env w p)))) =
   ebayPrice (step_product (ebayStep st (effectiveThreshold st env) w p))"
  by (cases "ebayFetch w" rule: fetch_cases) (simp_all add: ebayStep_price checked_fields)

lemma second_run_alerts:
  "alerts (checkProduct st env w (checked (checkProduct st env w p))) =
   alertsFrom Competitor (checkProduct st env w p)"
proof -
  let ?q = "checked (checkProduct st env w p)"
  let ?t = "effectiveThreshold st env"
  have u: "hasSupplierUrl (step_product (ebayStep st ?t w ?q)) = hasSupplierUrl p"
    by (simp add: ebayStep_supplier_fields checked_hasSupplierUrl)
  have "alerts (checkProduct st env w ?q) =
      step_alerts (competitorStep st (competitorAlertPercent env) w
        (step_product (supplierStep st ?t w (supplierPrice ?q) (supplierStockStatus ?q)
           (step_product (ebayStep st ?t w ?q)))))"
    using u by (simp add: alerts_checkProduct ebayStep_second supplierStep_second)
  also have "\<dots> = step_alerts (competitorStep st (competitorAlertPercent env) w
        (step_product (supplierStep st ?t w (supplierPrice p) (supplierStockStatus p)
           (step_product (ebayStep st ?t w p)))))"
    by (rule competitorStep_alerts_price) (simp add: supplierStep_keeps second_run_price)
  finally show ?thesis by (simp add: alertsFrom_Competitor)
qed

text \<open>
  Claim C6, as the code has it. Run \<open>checkProduct\<close> twice against the same answers of
  the collaborators, the second time on the product as the first run left it. The
  alerts of the second run are exactly the alerts about the competitor that the first
  run emitted, and each of them is a \<open>competitor_price\<close> alert: no price, stock or
  supplier-availability alert is emitted again, and the competitor alert, which
  depends on the level of the prices and not on a change, is emitted again whenever the
  first run emitted it. Each run, on whatever product, records exactly one history entry
  for the marketplace when its fetch delivered data, exactly one for the supplier when
  the product has a supplier URL and the fetch delivered data, and exactly one for the
  competitor when the summary names a lowest price other than 0 and the marketplace
  price is not 0; and none otherwise.
\<close>

theorem checkProduct_second_run:
  "alerts (checkProduct st env w (checked (checkProduct st env w p))) =
     alertsFrom Competitor (checkProduct st env w p) \<and>
   (\<forall>a \<in> set (alerts (checkProduct st env w (checked (checkProduct st env w p)))).
      alertType a = Competitor_price) \<and>
   (\<forall>q. length (historyFrom Ebay (checkProduct st env w q)) =
           (if delivered (ebayFetch w) then 1 else 0) \<and>
        length (historyFrom Supplier (checkProduct st env w q)) =
           (if hasSupplierUrl q \<and> delivered (supplierFetch w) then 1 else 0) \<and>
        length (historyFrom Competitor (checkProduct st env w q)) =
           (if competitorRecorded w q then 1 else 0))"
proof (intro conjI ballI allI)
  show "alerts (checkProduct st env w (checked (checkProduct st env w p))) =
     alertsFrom Competitor (checkProduct st env w p)"
    by (rule second_run_alerts)
next
  fix a
  assume "a \<in> set (alerts (checkProduct st env w (checked (checkProduct st env w p))))"
  then have "a \<in> set (step_alerts (competitorStep st (competitorAlertPercent env) w
        (step_product (supplierStep st (effectiveThreshold st env) w (supplierPrice p)
           (supplierStockStatus p) (step_product (ebayStep st (effectiveThreshold st env) w p))))))"
    by (simp add: second_run_alerts alertsFrom_Competitor)
  then show "alertType a = Competitor_price" by (rule competitorStep_type)
qed (simp_all add: history_count_ebay history_count_supplier history_count_competitor)

lemma steady_first_run:
  "checked (checkProduct (settings_with 5) env_unset world_steady widget) =
     widget\<lparr>competitorListings := [\<lparr>listing_sellerName = ''rival'', listing_price = 80,
               listing_id = ''999''\<rparr>],
            competitorStats := Some \<lparr>lowestPrice = 80, sellerName = ''rival''\<rparr>,
            lastCheckedAt := 1000\<rparr>"
  by (simp add: checkProduct_def Let_def ebayStep_def supplierStep_def competitorStep_def
      calculateProfit_def world_steady_def widget_def ebay_snapshot_def supplier_snapshot_def
      hasSupplierUrl_def)

lemma steady_second_run:
  "alerts (checkProduct (settings_with 5) env_unset world_steady
      (checked (checkProduct (settings_with 5) env_unset world_steady widget))) =
     [\<lparr>alertType = Competitor_price, oldValue = Num 100, newValue = Num 80,
       message = CompetitorCheaper ''rival'' 20 20, severity = high\<rparr>]"
  unfolding steady_first_run
  by (simp add: checkProduct_def Let_def ebayStep_def supplierStep_def competitorStep_def
      priceAlerts_def stockAlerts_def shouldAlert_def settings_with_def all_enabled_def
      env_unset_def competitorAlertPercent_def effectiveThreshold_def
      world_steady_def widget_def ebay_snapshot_def supplier_snapshot_def hasSupplierUrl_def)

lemma steady_first_alerts:
  "alerts (checkProduct (settings_with 5) env_unset world_steady widget) =
     [\<lparr>alertType = Competitor_price, oldValue = Num 100, newValue = Num 80,
       message = CompetitorCheaper ''rival'' 20 20, severity = high\<rparr>]"
  by (simp add: checkProduct_def Let_def ebayStep_def supplierStep_def competitorStep_def
      priceAlerts_def stockAlerts_def shouldAlert_def settings_with_def all_enabled_def
      env_unset_def competitorAlertPercent_def effectiveThreshold_def
      world_steady_def widget_def ebay_snapshot_def supplier_snapshot_def hasSupplierUrl_def)

lemma unpriced_run:
  "delivered (competitorFetch world_rival_unpriced)"
  "history (checkProduct (settings_with 5) env_unset world_rival_unpriced widget) =
     [\<lparr>hist_source = Ebay, hist_price = 100, hist_stock = in_stock\<rparr>,
      \<lparr>hist_source = Supplier, hist_price = 60, hist_stock = in_stock\<rparr>]"
  by (simp_all add: delivered_def checkProduct_def Let_def ebayStep_def supplierStep_def
      competitorStep_def world_rival_unpriced_def widget_def ebay_snapshot_def
      supplier_snapshot_def hasSupplierUrl_def)

text \<open>
  Claim C6 as stated fails in two places. With every fetched value equal to the stored
  one and the cheapest competitor at 80 against a marketplace price of 100, the second
  run still emits an alert. And when the competitor service delivers a summary whose
  lowest price is 0 (a listing without a price), the run records no history entry for
  the competitor although that source was fetched successfully.
\<close>

theorem checkProduct_second_run_competitor_alert:
  "ebayFetch world_steady =
     Inr (Some (ebay_snapshot (ebayPrice widget) (stockStatus widget))) \<and>
   supplierFetch world_steady =
     Inr (Some (supplier_snapshot (supplierPrice widget) (supplierStockStatus widget))) \<and>
   alerts (checkProduct (settings_with 5) env_unset world_steady
      (checked (checkProduct (settings_with 5) env_unset world_steady widget))) \<noteq> [] \<and>
   delivered (competitorFetch world_rival_unpriced) \<and>
   historyFrom Competitor
     (checkProduct (settings_with 5) env_unset world_rival_unpriced widget) = []"
proof -
  have "ebayFetch world_steady =
     Inr (Some (ebay_snapshot (ebayPrice widget) (stockStatus widget)))"
    and "supplierFetch world_steady =
     Inr (Some (supplier_snapshot (supplierPrice widget) (supplierStockStatus widget)))"
    by (simp_all add: world_steady_def widget_def)
  moreover have "historyFrom Competitor
     (checkProduct (settings_with 5) env_unset world_rival_unpriced widget) = []"
    by (simp add: historyFrom_def unpriced_run)
  ultimately show ?thesis by (simp add: steady_second_run unpriced_run)
qed

text \<open>
  The two runs on the concrete product: with a cheaper competitor, the second run emits
  the competitor alert of the first run and nothing else; after a run that saw the
  marketplace price rise to 106 and the stock run out, the second run against the same
  answers emits nothing; and each run records one history entry per source.
\<close>

theorem checkProduct_second_run_witness:
  "alerts (checkProduct (settings_with 5) env_unset world_steady
      (checked (checkProduct (settings_with 5) env_unset world_steady widget))) =
     [\<lparr>alertType = Competitor_price, oldValue = Num 100, newValue = Num 80,
       message = CompetitorCheaper ''rival'' 20 20, severity = high\<rparr>] \<and>
   alertsFrom Competitor (checkProduct (settings_with 5) env_unset world_steady widget) =
     [\<lparr>alertType = Competitor_price, oldValue = Num 100, newValue = Num 80,
       message = CompetitorCheaper ''rival'' 20 20, severity = high\<rparr>] \<and>
   list_all (\<lambda>a. alertType a = Competitor_price)
     (alerts (checkProduct (settings_with 5) env_unset world_steady
        (checked (checkProduct (settings_with 5) env_unset world_steady widget)))) \<and>
   alerts (checkProduct (settings_with 5) env_unset (world_ebay 106 out_of_stock)
      (checked (checkProduct (settings_with 5) env_unset (world_ebay 106 out_of_stock) widget))) = [] \<and>
   length (historyFrom Ebay (checkProduct (settings_with 5) env_unset world_steady widget)) = 1 \<and>
   length (historyFrom Supplier (checkProduct (settings_with 5) env_unset world_steady widget)) = 1 \<and>
   length (historyFrom Competitor (checkProduct (settings_with 5) env_unset world_steady widget)) = 1 \<and>
   length (historyFrom Ebay (checkProduct (settings_with 5) env_unset world_steady
      (checked (checkProduct (settings_with 5) env_unset world_steady widget)))) = 1 \<and>
   length (historyFrom Supplier (checkProduct (settings_with 5) env_unset world_steady
      (checked (checkProduct (settings_with 5) env_unset world_steady widget)))) = 1 \<and>
   length (historyFrom Competitor (checkProduct (settings_with 5) env_unset world_steady
      (checked (checkProduct (settings_with 5) env_unset world_steady widget)))) = 1"
proof -
  note t = checkProduct_second_run [of "settings_with 5" env_unset world_steady widget]
  note c = checkProduct_second_run [of "settings_with 5" env_unset "world_ebay 106 out_of_stock" widget]
  have d: "delivered (ebayFetch world_steady)" "delivered (supplierFetch world_steady)"
    "competitorRecorded world_steady widget" "hasSupplierUrl widget"
    "competitorRecorded world_steady (checked (checkProduct (settings_with 5) env_unset world_steady widget))"
    by (simp_all add: delivered_def competitorRecorded_def world_steady_def widget_def
        hasSupplierUrl_def ebay_snapshot_def)
  have u: "hasSupplierUrl (checked (checkProduct (settings_with 5) env_unset world_steady widget))"
    by (simp add: checked_hasSupplierUrl d)
  have a1: "alertsFrom Competitor (checkProduct (settings_with 5) env_unset world_steady widget) =
     [\<lparr>alertType = Competitor_price, oldValue = Num 100, newValue = Num 80,
       message = CompetitorCheaper ''rival'' 20 20, severity = high\<rparr>]"
    by (simp add: alertsFrom_def steady_first_alerts)
  have a2: "alertsFrom Competitor
      (checkProduct (settings_with 5) env_unset (world_ebay 106 out_of_stock) widget) = []"
    by (simp add: alertsFrom_Competitor competitorStep_def world_ebay_def)
  from t [THEN conjunct1] t [THEN conjunct2, THEN conjunct1]
    t [THEN conjunct2, THEN conjunct2, rule_format, of widget]
    t [THEN conjunct2, THEN conjunct2, rule_format,
       of "checked (checkProduct (settings_with 5) env_unset world_steady widget)"]
    c [THEN conjunct1] d u a1 a2
  show ?thesis
    by (simp add: list_all_iff)
qed


text \<open>
  Claim C10. When the marketplace fetch throws, the product's \<open>ebayPrice\<close>,
  \<open>stockStatus\<close>, \<open>title\<close> and \<open>images\<close> are at the end of the run what they were before;
  no alert about the marketplace is created and no history entry with source \<open>ebay\<close>
  is recorded; the supplier adapter (when the product has a supplier URL) and the
  competitor service are still called, and the alerts and history entries of the run
  are exactly those of the supplier step followed by those of the competitor step.
\<close>

theorem checkProduct_ebay_failure:
  assumes "ebayFetch w = Inl err"
  shows
   "ebayPrice (checked (checkProduct st env w p)) = ebayPrice p \<and>
    stockStatus (checked (checkProduct st env w p)) = stockStatus p \<and>
    title (checked (checkProduct st env w p)) = title p \<and>
    images (checked (checkProduct st env w p)) = images p \<and>
    alertsFrom Ebay (checkProduct st env w p) = [] \<and>
    historyFrom Ebay (checkProduct st env w p) = [] \<and>
    fetched (checkProduct st env w p) =
      [Ebay] @ (if hasSupplierUrl p then [Supplier] else []) @ [Competitor] \<and>
    alerts (checkProduct st env w p) =
      step_alerts (supplierStep st (effectiveThreshold st env) w (supplierPrice p)
         (supplierStockStatus p) p) @
      step_alerts (competitorStep st (competitorAlertPercent env) w
         (step_product (supplierStep st (effectiveThreshold st env) w (supplierPrice p)
            (supplierStockStatus p) p))) \<and>
    history (checkProduct st env w p) =
      step_history (supplierStep st (effectiveThreshold st env) w (supplierPrice p)
         (supplierStockStatus p) p) @
      step_history (competitorStep st (competitorAlertPercent env) w
         (step_product (supplierStep st (effectiveThreshold st env) w (supplierPrice p)
            (supplierStockStatus p) p)))"
proof -
  have e: "ebayStep st (effectiveThreshold st env) w p =
      \<lparr>step_product = p, step_alerts = [], step_history = [], step_changed = False\<rparr>"
    using assms by (simp add: ebayStep_def)
  show ?thesis
    by (simp add: checked_fields alertsFrom_Ebay historyFrom_Ebay alerts_checkProduct
        history_checkProduct e) (simp add: checkProduct_def Let_def)
qed

text \<open>
  C10 on a concrete run: the marketplace fetch throws, the supplier price went from 60
  to 70 (a \<open>price_increase\<close> alert and a supplier history entry) and a competitor sells
  at 80 (a \<open>competitor_price\<close> alert and a competitor history entry).
\<close>

theorem checkProduct_ebay_failure_witness:
  "ebayFetch world_ebay_down = Inl ''Failed to fetch eBay product data'' \<and>
   ebayPrice (checked (checkProduct (settings_with 5) env_unset world_ebay_down widget)) = 100 \<and>
   stockStatus (checked (checkProduct (settings_with 5) env_unset world_ebay_down widget)) = in_stock \<and>
   title (checked (checkProduct (settings_with 5) env_unset world_ebay_down widget)) = ''Widget'' \<and>
   images (checked (checkProduct (settings_with 5) env_unset world_ebay_down widget)) = [] \<and>
   alertsFrom Ebay (checkProduct (settings_with 5) env_unset world_ebay_down widget) = [] \<and>
   historyFrom Ebay (checkProduct (settings_with 5) env_unset world_ebay_down widget) = [] \<and>
   fetched (checkProduct (settings_with 5) env_unset world_ebay_down widget) =
     [Ebay, Supplier, Competitor] \<and>
   map alertType (alerts (checkProduct (settings_with 5) env_unset world_ebay_down widget)) =
     [Price_increase, Competitor_price] \<and>
   map hist_source (history (checkProduct (settings_with 5) env_unset world_ebay_down widget)) =
     [Supplier, Competitor] \<and>
   supplierPrice (checked (checkProduct (settings_with 5) env_unset world_ebay_down widget)) = 70"
proof -
  have f: "ebayFetch world_ebay_down = Inl ''Failed to fetch eBay product data''"
    by (simp add: world_ebay_down_def)
  have r: "supplierPrice (checked (checkProduct (settings_with 5) env_unset world_ebay_down widget)) = 70"
    by (simp add: checked_fields supplierStep_values ebayStep_supplier_fields)
       (simp add: world_ebay_down_def widget_def hasSupplierUrl_def supplier_snapshot_def)
  from checkProduct_ebay_failure [OF f, of "settings_with 5" env_unset widget] f r
  show ?thesis
    by (simp add: supplierStep_def competitorStep_def Let_def priceAlerts_def stockAlerts_def
        percentChange_def shouldAlert_def settings_with_def all_enabled_def env_unset_def
        competitorAlertPercent_def effectiveThreshold_def world_ebay_down_def widget_def
        supplier_snapshot_def hasSupplierUrl_def)
qed


section \<open>Theorems: the marketplace item adapter\<close>

lemma retryWithBackoff_outcome:
  assumes "1 \<le> m"
  shows "(\<exists>k v. k < nat m \<and> (\<forall>i<k. isl (fn i)) \<and> fn k = Inr v \<and>
            retryWithBackoff fn m d =
              \<lparr>result = Returned v, invocations = k + 1,
               delays = map (\<lambda>i. d * 2 ^ i) [0..<k]\<rparr>) \<or>
         ((\<forall>i<nat m. isl (fn i)) \<and>
            retryWithBackoff fn m d =
              \<lparr>result = Threw (projl (fn (nat m - 1))), invocations = nat m,
               delays = map (\<lambda>i. d * 2 ^ i) [0..<nat m - 1]\<rparr>)"
proof (cases "\<forall>i<nat m. isl (fn i)")
  case True
  then show ?thesis
    using assms retry_loop_failure [of 0 m fn d "[]"] by (simp add: retryWithBackoff_def)
next
  case False
  then have ex: "\<exists>i. i < nat m \<and> \<not> isl (fn i)" by auto
  define k where "k = (LEAST i. i < nat m \<and> \<not> isl (fn i))"
  have k: "k < nat m \<and> \<not> isl (fn k)"
    unfolding k_def using ex by (rule LeastI_ex)
  have least: "\<forall>i<k. isl (fn i)"
  proof (intro allI impI)
    fix i assume "i < k"
    then have "\<not> (i < nat m \<and> \<not> isl (fn i))"
      unfolding k_def by (rule not_less_Least)
    with \<open>i < k\<close> k show "isl (fn i)" by auto
  qed
  from k obtain v where v: "fn k = Inr v" by (cases "fn k") auto
  with k least have "retryWithBackoff fn m d =
      \<lparr>result = Returned v, invocations = k + 1, delays = map (\<lambda>i. d * 2 ^ i) [0..<k]\<rparr>"
    using retry_loop_success [of 0 k m fn v d "[]"] by (simp add: retryWithBackoff_def)
  with k least v show ?thesis by blast
qed

lemma digits_here_Some:
  assumes "digits_here pre s = Some ds"
  shows "ds \<noteq> [] \<and> (\<forall>c\<in>set ds. is_digit c) \<and> (\<exists>b. s = pre @ ds @ b)"
proof -
  from assms have sw: "take (length pre) s = pre"
    and ds: "ds = takeWhile is_digit (drop (length pre) s)" and ne: "ds \<noteq> []"
    by (auto simp: digits_here_def starts_with_def split: if_splits)
  have "s = take (length pre) s @ drop (length pre) s" by simp
  also have "drop (length pre) s = ds @ dropWhile is_digit (drop (length pre) s)"
    unfolding ds by simp
  finally have "s = pre @ ds @ dropWhile is_digit (drop (length pre) s)"
    using sw by simp
  moreover have "\<forall>c\<in>set ds. is_digit c"
    unfolding ds by (auto dest: set_takeWhileD)
  ultimately show ?thesis using ne by blast
qed

lemma first_here_Some:
  "first_here pres s = Some ds \<Longrightarrow>
     ds \<noteq> [] \<and> (\<forall>c\<in>set ds. is_digit c) \<and> (\<exists>pre b. pre \<in> set pres \<and> s = pre @ ds @ b)"
proof (induction pres)
  case Nil
  then show ?case by simp
next
  case (Cons pre pres)
  show ?case
  proof (cases "digits_here pre s")
    case None
    with Cons show ?thesis by auto
  next
    case (Some x)
    with Cons.prems have "digits_here pre s = Some ds" by simp
    from digits_here_Some [OF this] show ?thesis by auto
  qed
qed

lemma search_digits_Some:
  "search_digits pres s = Some ds \<Longrightarrow>
     ds \<noteq> [] \<and> (\<forall>c\<in>set ds. is_digit c) \<and>
     (\<exists>a pre b. pre \<in> set pres \<and> s = a @ pre @ ds @ b)"
proof (induction s)
  case Nil
  then show ?case by simp
next
  case (Cons c cs)
  show ?case
  proof (cases "first_here pres (c # cs)")
    case None
    with Cons.prems have "search_digits pres cs = Some ds" by simp
    from Cons.IH [OF this] obtain a pre b where
      "ds \<noteq> []" "\<forall>c\<in>set ds. is_digit c" "pre \<in> set pres" "cs = a @ pre @ ds @ b"
      by blast
    then have "c # cs = (c # a) @ pre @ ds @ b" by simp
    with \<open>ds \<noteq> []\<close> \<open>\<forall>c\<in>set ds. is_digit c\<close> \<open>pre \<in> set pres\<close> show ?thesis by blast
  next
    case (Some x)
    with Cons.prems have "first_here pres (c # cs) = Some ds" by simp
    from first_here_Some [OF this] obtain pre b where
      "ds \<noteq> []" "\<forall>c\<in>set ds. is_digit c" "pre \<in> set pres" "c # cs = [] @ pre @ ds @ b"
      by auto
    then show ?thesis by blast
  qed
qed

lemma extractItemId_Some:
  assumes "extractItemId url = Some i"
  shows "i \<noteq> [] \<and> (\<forall>c\<in>set i. is_digit c) \<and>
     (\<exists>a pre b. pre \<in> {''/itm/'', ''?item='', ''&item='', ''/p/''} \<and> url = a @ pre @ i @ b)"
proof -
  from assms consider "search_digits [''/itm/''] url = Some i"
    | "search_digits [''?item='', ''&item=''] url = Some i"
    | "search_digits [''/p/''] url = Some i"
    by (auto simp: extractItemId_def split: option.splits)
  then obtain pres where s: "search_digits pres url = Some i"
    and sub: "set pres \<subseteq> {''/itm/'', ''?item='', ''&item='', ''/p/''}"
    by (cases; fastforce)
  from search_digits_Some [OF s] obtain a pre b where
    "i \<noteq> []" "\<forall>c\<in>set i. is_digit c" "pre \<in> set pres" "url = a @ pre @ i @ b"
    by blast
  with sub show ?thesis by blast
qed

lemma apiAttempt_Some:
  assumes "apiAttempt i r = Inr (Some d)"
  shows "\<exists>item rest. r = Inr (item # rest) \<and> \<not> isZero (apiPrice item) \<and>
           d = \<lparr>data_title = (case api_title item of
                                 Some t \<Rightarrow> if t \<noteq> [] then t else ''Unknown Product''
                               | None \<Rightarrow> ''Unknown Product''),
                data_images = apiImages item, data_price = apiPrice item,
                data_itemId = apiItemId item i, data_variations = [],
                data_stock = in_stock, data_description = []\<rparr>"
proof (cases r)
  case (Inl e)
  with assms show ?thesis by (simp add: apiAttempt_def)
next
  case (Inr items)
  show ?thesis
  proof (cases items)
    case Nil
    with Inr assms show ?thesis by (simp add: apiAttempt_def)
  next
    case (Cons item rest)
    with Inr assms show ?thesis
      by (auto simp: apiAttempt_def Let_def apiImages_def apiPrice_def apiItemId_def
          split: if_splits)
  qed
qed

lemma fetchWithAPI_facts:
  "snd (fetchWithAPI w i) \<le> 3"
  "fst (fetchWithAPI w i) = Some d \<Longrightarrow>
     \<exists>k<3. apiAttempt i (apiGet w i k) = Inr (Some d)"
proof -
  let ?fn = "\<lambda>k. apiAttempt i (apiGet w i k)"
  have m: "(1::int) \<le> 3" by simp
  note o = retryWithBackoff_outcome [OF m, of ?fn 1000]
  show "snd (fetchWithAPI w i) \<le> 3"
  proof (cases "EBAY_APP_ID w")
    case None
    then show ?thesis by (simp add: fetchWithAPI_def)
  next
    case (Some appId)
    with o show ?thesis
      by (auto simp: fetchWithAPI_def Let_def)
  qed
  assume d: "fst (fetchWithAPI w i) = Some d"
  show "\<exists>k<3. apiAttempt i (apiGet w i k) = Inr (Some d)"
  proof (cases "EBAY_APP_ID w")
    case None
    with d show ?thesis by (simp add: fetchWithAPI_def)
  next
    case (Some appId)
    from o show ?thesis
    proof
      assume "\<exists>k v. k < nat 3 \<and> (\<forall>i<k. isl (?fn i)) \<and> ?fn k = Inr v \<and>
            retryWithBackoff ?fn 3 1000 =
              \<lparr>result = Returned v, invocations = k + 1,
               delays = map (\<lambda>i. 1000 * 2 ^ i) [0..<k]\<rparr>"
      then obtain k v where k: "k < 3" "?fn k = Inr v"
        and r: "retryWithBackoff ?fn 3 1000 =
              \<lparr>result = Returned v, invocations = k + 1,
               delays = map (\<lambda>i. 1000 * 2 ^ i) [0..<k]\<rparr>"
        by auto
      from d Some r have "v = Some d"
        by (auto simp: fetchWithAPI_def Let_def split: if_splits)
      with k show ?thesis by auto
    next
      assume "(\<forall>i<nat 3. isl (?fn i)) \<and>
            retryWithBackoff ?fn 3 1000 =
              \<lparr>result = Threw (projl (?fn (nat 3 - 1))), invocations = nat 3,
               delays = map (\<lambda>i. 1000 * 2 ^ i) [0..<nat 3 - 1]\<rparr>"
      with d Some show ?thesis
        by (auto simp: fetchWithAPI_def Let_def split: if_splits)
    qed
  qed
qed

lemma fetchWithAPI_first:
  assumes "EBAY_APP_ID w = Some appId" "appId \<noteq> []" "appId \<noteq> ''your_ebay_app_id''"
    and "apiAttempt i (apiGet w i 0) = Inr v"
  shows "fetchWithAPI w i = (v, 1)"
  using assms retry_loop_success [of 0 0 3 "\<lambda>k. apiAttempt i (apiGet w i k)" v 1000 "[]"]
  by (simp add: fetchWithAPI_def retryWithBackoff_def Let_def)

lemma fetchWithScraping_isl:
  "isl (fetchWithScraping w url) \<longleftrightarrow>
     \<not> (\<exists>pd. scrapeProductDetails w url = Inr (Some pd) \<and> pd_title pd \<noteq> [] \<and>
            isPositive (pd_price pd))"
  by (cases "scrapeProductDetails w url" rule: fetch_cases)
     (auto simp: fetchWithScraping_def)

lemma fetchWithScraping_Inr:
  assumes "fetchWithScraping w url = Inr d"
  shows "\<exists>pd. scrapeProductDetails w url = Inr (Some pd) \<and> d = pageData url pd \<and>
           pd_title pd \<noteq> [] \<and> isPositive (pd_price pd)"
proof (cases "scrapeProductDetails w url" rule: fetch_cases)
  case (Data pd)
  with assms show ?thesis
    by (auto simp: fetchWithScraping_def split: if_splits)
qed (use assms in \<open>simp_all add: fetchWithScraping_def\<close>)

lemma isPositive_not_isZero: "isPositive n \<Longrightarrow> \<not> isZero n"
  by (cases n) (auto simp: isPositive_def isZero_def)

lemma pageData_itemId: "data_itemId (pageData url pd) \<noteq> []"
proof (cases "extractItemId url")
  case None
  then show ?thesis by (simp add: pageData_def)
next
  case (Some i)
  from extractItemId_Some [OF this] have "i \<noteq> []" by blast
  with Some show ?thesis by (simp add: pageData_def)
qed

lemma finishFetch_page:
  assumes "pd_title pd \<noteq> []" "isPositive (pd_price pd)"
  shows "finishFetch itemId (Some (pageData url pd)) = Inr (pageData url pd)"
proof -
  have "\<not> isZero (data_price (pageData url pd))"
    using assms(2) by (simp add: pageData_def isPositive_not_isZero)
  moreover have "data_title (pageData url pd) \<noteq> []"
    using assms(1) by (simp add: pageData_def)
  ultimately show ?thesis
    using pageData_itemId [of url pd] by (simp add: finishFetch_def)
qed

lemma finishFetch_Inr:
  assumes "finishFetch itemId data = Inr d"
  shows "\<exists>d0. data = Some d0 \<and> data_title d0 \<noteq> [] \<and> \<not> isZero (data_price d0) \<and>
           d = d0\<lparr>data_itemId :=
                      (if data_itemId d0 \<noteq> [] then data_itemId d0
                       else case itemId of Some i \<Rightarrow> i | None \<Rightarrow> ''unknown'')\<rparr>"
proof (cases data)
  case None
  with assms show ?thesis by (simp add: finishFetch_def)
next
  case (Some d0)
  with assms show ?thesis by (auto simp: finishFetch_def split: if_splits)
qed

lemma apiItemId_nonempty: "i \<noteq> [] \<Longrightarrow> apiItemId item i \<noteq> []"
  by (simp add: apiItemId_def split: option.splits)


text \<open>
  Claim C7, as the code has it. \<open>fetchEbayItem\<close> starts with the page extraction and makes
  at most three requests to the item-search API after it; it makes such a request only
  when the page extraction failed and an item id was parsed from the URL. The page
  extraction fails exactly when the page source throws, returns nothing, or returns data
  whose title is empty or whose price is not greater than 0. A parsed item id is a
  non-empty run of digits that follows \<open>/itm/\<close>, \<open>?item=\<close>, \<open>&item=\<close> or \<open>/p/\<close> in the URL.

  When the page extraction succeeds, the function returns the page's data, where an item
  id that the page does not give is the one parsed from the URL, else \<open>'unknown'\<close>, and a
  stock state that the page does not give is \<open>'in_stock'\<close>. When it fails, an item id was
  parsed, an application id is configured and the first API answer has an item with a
  title and a price other than 0, the function returns that item's title, price and
  gallery picture (or no picture), the item's id or else the parsed one, the stock state
  \<open>'in_stock'\<close>, an empty description and no variations, after one request.

  Whenever the function returns data (otherwise it throws), the title is not empty and
  the price is not 0, and the data are either the page's, as above, or the page extraction
  failed and they are made as above of the first item of one of the three API answers,
  the title being that item's when it has one.
\<close>

theorem fetchEbayItem_contract:
  "(\<exists>n\<le>3. events (fetchEbayItem w url) = PageExtraction # replicate n ApiRequest) \<and>
   (ApiRequest \<in> set (events (fetchEbayItem w url)) \<longrightarrow>
      isl (fetchWithScraping w url) \<and> extractItemId url \<noteq> None) \<and>
   (isl (fetchWithScraping w url) \<longleftrightarrow>
      \<not> (\<exists>pd. scrapeProductDetails w url = Inr (Some pd) \<and> pd_title pd \<noteq> [] \<and>
             isPositive (pd_price pd))) \<and>
   (\<forall>i. extractItemId url = Some i \<longrightarrow>
      i \<noteq> [] \<and> (\<forall>c\<in>set i. is_digit c) \<and>
      (\<exists>a pre b. pre \<in> {''/itm/'', ''?item='', ''&item='', ''/p/''} \<and> url = a @ pre @ i @ b)) \<and>
   (\<forall>pd. scrapeProductDetails w url = Inr (Some pd) \<and> pd_title pd \<noteq> [] \<and>
         isPositive (pd_price pd) \<longrightarrow>
      fetchEbayItem w url = \<lparr>outcome = Inr (pageData url pd), events = [PageExtraction]\<rparr>) \<and>
   (\<forall>i appId item rest t.
      isl (fetchWithScraping w url) \<and> extractItemId url = Some i \<and>
      EBAY_APP_ID w = Some appId \<and> appId \<noteq> [] \<and> appId \<noteq> ''your_ebay_app_id'' \<and>
      apiGet w i 0 = Inr (item # rest) \<and> api_title item = Some t \<and> t \<noteq> [] \<and>
      \<not> isZero (apiPrice item) \<longrightarrow>
      fetchEbayItem w url =
        \<lparr>outcome = Inr \<lparr>data_title = t, data_images = apiImages item,
                         data_price = apiPrice item, data_itemId = apiItemId item i,
                         data_variations = [], data_stock = in_stock,
                         data_description = []\<rparr>,
         events = [PageExtraction, ApiRequest]\<rparr>) \<and>
   (\<forall>d. outcome (fetchEbayItem w url) = Inr d \<longrightarrow>
      data_title d \<noteq> [] \<and> \<not> isZero (data_price d) \<and>
      ((\<exists>pd. scrapeProductDetails w url = Inr (Some pd) \<and> d = pageData url pd) \<or>
       (isl (fetchWithScraping w url) \<and>
        (\<exists>i k item rest. extractItemId url = Some i \<and> k < 3 \<and>
             apiGet w i k = Inr (item # rest) \<and>
             data_price d = apiPrice item \<and> data_images d = apiImages item \<and>
             data_itemId d = apiItemId item i \<and> data_stock d = in_stock \<and>
             data_description d = [] \<and> data_variations d = [] \<and>
             (\<forall>t. api_title item = Some t \<and> t \<noteq> [] \<longrightarrow> data_title d = t)))))"
proof -
  have ev: "\<exists>n\<le>3. events (fetchEbayItem w url) = PageExtraction # replicate n ApiRequest"
  proof (cases "fetchWithScraping w url")
    case (Inr d)
    then show ?thesis by (simp add: fetchEbayItem_def)
  next
    case (Inl e)
    show ?thesis
    proof (cases "extractItemId url")
      case None
      with Inl show ?thesis by (simp add: fetchEbayItem_def)
    next
      case (Some i)
      with Inl fetchWithAPI_facts(1) [of w i] show ?thesis
        by (simp add: fetchEbayItem_def Let_def)
    qed
  qed
  have only: "ApiRequest \<in> set (events (fetchEbayItem w url)) \<longrightarrow>
      isl (fetchWithScraping w url) \<and> extractItemId url \<noteq> None"
    by (cases "fetchWithScraping w url"; cases "extractItemId url")
       (simp_all add: fetchEbayItem_def)
  have shape: "\<forall>i. extractItemId url = Some i \<longrightarrow>
      i \<noteq> [] \<and> (\<forall>c\<in>set i. is_digit c) \<and>
      (\<exists>a pre b. pre \<in> {''/itm/'', ''?item='', ''&item='', ''/p/''} \<and> url = a @ pre @ i @ b)"
    using extractItemId_Some [of url] by blast
  have page: "\<forall>pd. scrapeProductDetails w url = Inr (Some pd) \<and> pd_title pd \<noteq> [] \<and>
         isPositive (pd_price pd) \<longrightarrow>
      fetchEbayItem w url = \<lparr>outcome = Inr (pageData url pd), events = [PageExtraction]\<rparr>"
  proof (intro allI impI)
    fix pd
    assume a: "scrapeProductDetails w url = Inr (Some pd) \<and> pd_title pd \<noteq> [] \<and>
         isPositive (pd_price pd)"
    then have "fetchWithScraping w url = Inr (pageData url pd)"
      by (simp add: fetchWithScraping_def)
    with a finishFetch_page [of pd "extractItemId url" url]
    show "fetchEbayItem w url = \<lparr>outcome = Inr (pageData url pd), events = [PageExtraction]\<rparr>"
      by (simp add: fetchEbayItem_def)
  qed
  have api: "\<forall>i appId item rest t.
      isl (fetchWithScraping w url) \<and> extractItemId url = Some i \<and>
      EBAY_APP_ID w = Some appId \<and> appId \<noteq> [] \<and> appId \<noteq> ''your_ebay_app_id'' \<and>
      apiGet w i 0 = Inr (item # rest) \<and> api_title item = Some t \<and> t \<noteq> [] \<and>
      \<not> isZero (apiPrice item) \<longrightarrow>
      fetchEbayItem w url =
        \<lparr>outcome = Inr \<lparr>data_title = t, data_images = apiImages item,
                         data_price = apiPrice item, data_itemId = apiItemId item i,
                         data_variations = [], data_stock = in_stock,
                         data_description = []\<rparr>,
         events = [PageExtraction, ApiRequest]\<rparr>"
  proof (intro allI impI)
    fix i appId item rest t
    assume a: "isl (fetchWithScraping w url) \<and> extractItemId url = Some i \<and>
      EBAY_APP_ID w = Some appId \<and> appId \<noteq> [] \<and> appId \<noteq> ''your_ebay_app_id'' \<and>
      apiGet w i 0 = Inr (item # rest) \<and> api_title item = Some t \<and> t \<noteq> [] \<and>
      \<not> isZero (apiPrice item)"
    let ?d = "\<lparr>data_title = t, data_images = apiImages item,
                         data_price = apiPrice item, data_itemId = apiItemId item i,
                         data_variations = [], data_stock = in_stock,
                         data_description = []\<rparr>"
    from a have att: "apiAttempt i (apiGet w i 0) = Inr (Some ?d)"
      by (simp add: apiAttempt_def Let_def apiImages_def apiPrice_def apiItemId_def)
    from a have "fetchWithAPI w i = (Some ?d, 1)"
      using fetchWithAPI_first [OF _ _ _ att] by blast
    moreover from a obtain e where "fetchWithScraping w url = Inl e"
      by (cases "fetchWithScraping w url") auto
    moreover from a extractItemId_Some [of url i] have "apiItemId item i \<noteq> []"
      using apiItemId_nonempty by blast
    ultimately show "fetchEbayItem w url = \<lparr>outcome = Inr ?d, events = [PageExtraction, ApiRequest]\<rparr>"
      using a by (simp add: fetchEbayItem_def Let_def finishFetch_def)
  qed
  have ret: "\<forall>d. outcome (fetchEbayItem w url) = Inr d \<longrightarrow>
      data_title d \<noteq> [] \<and> \<not> isZero (data_price d) \<and>
      ((\<exists>pd. scrapeProductDetails w url = Inr (Some pd) \<and> d = pageData url pd) \<or>
       (isl (fetchWithScraping w url) \<and>
        (\<exists>i k item rest. extractItemId url = Some i \<and> k < 3 \<and>
             apiGet w i k = Inr (item # rest) \<and>
             data_price d = apiPrice item \<and> data_images d = apiImages item \<and>
             data_itemId d = apiItemId item i \<and> data_stock d = in_stock \<and>
             data_description d = [] \<and> data_variations d = [] \<and>
             (\<forall>t. api_title item = Some t \<and> t \<noteq> [] \<longrightarrow> data_title d = t))))"
  proof (intro allI impI)
    fix d assume o: "outcome (fetchEbayItem w url) = Inr d"
    show "data_title d \<noteq> [] \<and> \<not> isZero (data_price d) \<and>
      ((\<exists>pd. scrapeProductDetails w url = Inr (Some pd) \<and> d = pageData url pd) \<or>
       (isl (fetchWithScraping w url) \<and>
        (\<exists>i k item rest. extractItemId url = Some i \<and> k < 3 \<and>
             apiGet w i k = Inr (item # rest) \<and>
             data_price d = apiPrice item \<and> data_images d = apiImages item \<and>
             data_itemId d = apiItemId item i \<and> data_stock d = in_stock \<and>
             data_description d = [] \<and> data_variations d = [] \<and>
             (\<forall>t. api_title item = Some t \<and> t \<noteq> [] \<longrightarrow> data_title d = t))))"
    proof (cases "fetchWithScraping w url")
      case (Inr d0)
      from fetchWithScraping_Inr [OF Inr] obtain pd where
        pd: "scrapeProductDetails w url = Inr (Some pd)" "d0 = pageData url pd"
          "pd_title pd \<noteq> []" "isPositive (pd_price pd)" by blast
      from page pd have "fetchEbayItem w url =
          \<lparr>outcome = Inr (pageData url pd), events = [PageExtraction]\<rparr>" by blast
      with o have d: "d = pageData url pd" by simp
      with pd isPositive_not_isZero [OF pd(4)] show ?thesis
        by (auto simp: pageData_def)
    next
      case (Inl e)
      show ?thesis
      proof (cases "extractItemId url")
        case None
        with Inl o show ?thesis by (simp add: fetchEbayItem_def finishFetch_def)
      next
        case (Some i)
        from extractItemId_Some [OF Some] have ine: "i \<noteq> []" by blast
        from Some Inl o have "finishFetch (Some i) (fst (fetchWithAPI w i)) = Inr d"
          by (simp add: fetchEbayItem_def Let_def)
        from finishFetch_Inr [OF this] obtain d0 where d0: "fst (fetchWithAPI w i) = Some d0"
          "data_title d0 \<noteq> []" "\<not> isZero (data_price d0)"
          "d = d0\<lparr>data_itemId :=
                      (if data_itemId d0 \<noteq> [] then data_itemId d0
                       else case Some i of Some i \<Rightarrow> i | None \<Rightarrow> ''unknown'')\<rparr>"
          by blast
        from fetchWithAPI_facts(2) [OF d0(1)] obtain k where
          k: "k < 3" "apiAttempt i (apiGet w i k) = Inr (Some d0)" by blast
        from apiAttempt_Some [OF k(2)] obtain item rest where
          it: "apiGet w i k = Inr (item # rest)"
          "d0 = \<lparr>data_title = (case api_title item of
                                 Some t \<Rightarrow> if t \<noteq> [] then t else ''Unknown Product''
                               | None \<Rightarrow> ''Unknown Product''),
                data_images = apiImages item, data_price = apiPrice item,
                data_itemId = apiItemId item i, data_variations = [],
                data_stock = in_stock, data_description = []\<rparr>" by blast
        have "apiItemId item i \<noteq> []" using ine by (rule apiItemId_nonempty)
        with d0(4) it(2) have d: "d = d0" by simp
        have "\<exists>i k item rest. extractItemId url = Some i \<and> k < 3 \<and>
             apiGet w i k = Inr (item # rest) \<and>
             data_price d = apiPrice item \<and> data_images d = apiImages item \<and>
             data_itemId d = apiItemId item i \<and> data_stock d = in_stock \<and>
             data_description d = [] \<and> data_variations d = [] \<and>
             (\<forall>t. api_title item = Some t \<and> t \<noteq> [] \<longrightarrow> data_title d = t)"
          apply (rule exI [of _ i], rule exI [of _ k], rule exI [of _ item],
              rule exI [of _ rest])
          using Some k(1) it(1) by (simp add: d it(2))
        with d d0(2,3) Inl show ?thesis by simp
      qed
    qed
  qed
  from ev only fetchWithScraping_isl [of w url] shape page api ret show ?thesis
    by (intro conjI)
qed


lemma item_url_id: "extractItemId item_url = Some ''123456''"
  by (simp add: item_url_def extractItemId_def digits_here_def starts_with_def
      is_digit_def)

lemma query_url_id:
  "search_digits [''/itm/''] query_url = None"
  "search_digits [''?item=''] query_url = None"
  "search_digits [''/p/''] query_url = None"
  "extractItemId query_url = Some ''987''"
  by (simp_all add: query_url_def extractItemId_def digits_here_def starts_with_def
      is_digit_def)

lemma title_url_id: "extractItemId title_url = None"
  by (simp add: title_url_def extractItemId_def digits_here_def starts_with_def
      is_digit_def)

lemma api_only_scraping:
  "fetchWithScraping world_api_only url = Inl ''Navigation timeout''"
  "fetchWithScraping world_api_nan url = Inl ''Navigation timeout''"
  by (simp_all add: fetchWithScraping_def world_api_only_def world_api_nan_def)

lemma api_only_api:
  "fetchWithAPI world_api_only i =
     (Some \<lparr>data_title = ''Widget'', data_images = [], data_price = Finite 10,
         data_itemId = i, data_variations = [], data_stock = in_stock,
         data_description = ''''\<rparr>, 1)"
proof (rule fetchWithAPI_first)
  show "EBAY_APP_ID world_api_only = Some ''MyApp-1234''" by (simp add: world_api_only_def)
  show "''MyApp-1234'' \<noteq> []" by simp
  show "''MyApp-1234'' \<noteq> ''your_ebay_app_id''" by simp
  show "apiAttempt i (apiGet world_api_only i 0) =
     Inr (Some \<lparr>data_title = ''Widget'', data_images = [], data_price = Finite 10,
         data_itemId = i, data_variations = [], data_stock = in_stock,
         data_description = ''''\<rparr>)"
    by (simp add: world_api_only_def apiAttempt_def isZero_def)
qed

lemma api_only_run:
  "fetchEbayItem world_api_only item_url =
     \<lparr>outcome = Inr \<lparr>data_title = ''Widget'', data_images = [], data_price = Finite 10,
         data_itemId = ''123456'', data_variations = [], data_stock = in_stock,
         data_description = ''''\<rparr>,
      events = [PageExtraction, ApiRequest]\<rparr>"
  by (simp add: fetchEbayItem_def item_url_id Let_def api_only_scraping api_only_api
      finishFetch_def isZero_def)

lemma api_only_query_run:
  "events (fetchEbayItem world_api_only query_url) = [PageExtraction, ApiRequest]"
  by (simp add: fetchEbayItem_def query_url_id Let_def api_only_scraping api_only_api)

lemma page_bare_run:
  "outcome (fetchEbayItem world_page_bare title_url) =
     Inr \<lparr>data_title = ''Widget'', data_images = [], data_price = Finite 12,
         data_itemId = ''unknown'', data_variations = [], data_stock = in_stock,
         data_description = ''''\<rparr>"
  by (simp add: fetchEbayItem_def title_url_id Let_def fetchWithScraping_def finishFetch_def
      world_page_bare_def pageData_def isPositive_def isZero_def)

text \<open>
  Claim C7 as stated fails. Not every returned field is taken from a fetched source: when
  the page extraction throws and the API item carries a title and a price only, the
  returned stock state is the constant \<open>in_stock\<close> that \<open>fetchWithAPI\<close> writes for every
  item and the item id is the one parsed from the URL; when the page shows no item id and
  the URL has none, the returned item id is \<open>'unknown'\<close>. And the API is asked for a URL
  that has none of the three shapes \<open>/itm/<digits>\<close>, \<open>?item=<digits>\<close>, \<open>/p/<digits>\<close>: the
  second pattern also accepts \<open>&item=<digits>\<close>.
\<close>

theorem fetchEbayItem_default_stock:
  "scrapeProductDetails world_api_only item_url = Inl ''Navigation timeout'' \<and>
   apiGet world_api_only ''123456'' 0 =
     Inr [\<lparr>api_title = Some ''Widget'', api_price = Some (Finite 10), api_galleryURL = None,
           api_itemId = None\<rparr>] \<and>
   outcome (fetchEbayItem world_api_only item_url) =
     Inr \<lparr>data_title = ''Widget'', data_images = [], data_price = Finite 10,
         data_itemId = ''123456'', data_variations = [], data_stock = in_stock,
         data_description = ''''\<rparr> \<and>
   search_digits [''/itm/''] query_url = None \<and>
   search_digits [''?item=''] query_url = None \<and>
   search_digits [''/p/''] query_url = None \<and>
   events (fetchEbayItem world_api_only query_url) = [PageExtraction, ApiRequest] \<and>
   scrapeProductDetails world_page_bare title_url =
     Inr (Some \<lparr>pd_title = ''Widget'', pd_price = Finite 12, pd_images = [],
                pd_stock = Some in_stock, pd_itemId = '''', pd_description = '''',
                pd_variations = []\<rparr>) \<and>
   extractItemId title_url = None \<and>
   outcome (fetchEbayItem world_page_bare title_url) =
     Inr \<lparr>data_title = ''Widget'', data_images = [], data_price = Finite 12,
         data_itemId = ''unknown'', data_variations = [], data_stock = in_stock,
         data_description = ''''\<rparr>"
  by (simp add: api_only_run api_only_query_run page_bare_run query_url_id title_url_id)
     (simp add: world_api_only_def world_page_bare_def)

lemma page_ok_scrape:
  "scrapeProductDetails world_page_ok item_url = Inr (Some
        \<lparr>pd_title = ''Widget'', pd_price = Finite 12,
         pd_images = [''https://i.ebayimg.com/w.jpg''],
         pd_stock = Some low_stock, pd_itemId = ''123456'', pd_description = ''A widget'',
         pd_variations = [(''Size'', [(''1'', ''Small'')])]\<rparr>)"
  by (simp add: world_page_ok_def)

lemma api_nan_facts:
  "EBAY_APP_ID world_api_nan = Some ''MyApp-1234''"
  "apiGet world_api_nan ''123456'' 0 =
     Inr [\<lparr>api_title = Some ''Widget'', api_price = Some NaN,
           api_galleryURL = Some ''https://i.ebayimg.com/g.jpg'',
           api_itemId = Some ''654321''\<rparr>]"
  by (simp_all add: world_api_nan_def)

text \<open>
  C7 on three concrete worlds: one in which the page extraction succeeds (no API
  request), one in which it throws and the API answers with a price that \<open>parseFloat\<close>
  cannot read (the item is returned with the price \<open>NaN\<close>, which is not 0, after one
  request), and one in which it throws and the API answers with a title and a price.
\<close>

theorem fetchEbayItem_contract_witness:
  "fetchEbayItem world_page_ok item_url =
     \<lparr>outcome = Inr \<lparr>data_title = ''Widget'', data_images = [''https://i.ebayimg.com/w.jpg''],
         data_price = Finite 12, data_itemId = ''123456'',
         data_variations = [(''Size'', [(''1'', ''Small'')])],
         data_stock = low_stock, data_description = ''A widget''\<rparr>,
      events = [PageExtraction]\<rparr> \<and>
   fetchEbayItem world_api_nan item_url =
     \<lparr>outcome = Inr \<lparr>data_title = ''Widget'', data_images = [''https://i.ebayimg.com/g.jpg''],
         data_price = NaN, data_itemId = ''654321'', data_variations = [],
         data_stock = in_stock, data_description = ''''\<rparr>,
      events = [PageExtraction, ApiRequest]\<rparr> \<and>
   ApiRequest \<in> set (events (fetchEbayItem world_api_only item_url)) \<and>
   isl (fetchWithScraping world_api_only item_url) \<and>
   extractItemId item_url = Some ''123456'' \<and>
   list_all is_digit ''123456'' \<and>
   outcome (fetchEbayItem world_api_only item_url) =
     Inr \<lparr>data_title = ''Widget'', data_images = [], data_price = Finite 10,
         data_itemId = ''123456'', data_variations = [], data_stock = in_stock,
         data_description = ''''\<rparr> \<and>
   \<not> isZero (Finite 10)"
proof -
  note a = fetchEbayItem_contract [of world_api_only item_url]
  note b = fetchEbayItem_contract [of world_page_ok item_url]
  note c = fetchEbayItem_contract [of world_api_nan item_url]
  have ev: "ApiRequest \<in> set (events (fetchEbayItem world_api_only item_url))"
    by (simp add: api_only_run)
  from a [THEN conjunct2, THEN conjunct1, rule_format, OF ev]
  have s: "isl (fetchWithScraping world_api_only item_url)" by simp
  from a [THEN conjunct2, THEN conjunct2, THEN conjunct2, THEN conjunct1, rule_format,
      OF item_url_id]
  have i: "list_all is_digit ''123456''" by (simp add: list_all_iff)
  from b [THEN conjunct2, THEN conjunct2, THEN conjunct2, THEN conjunct2, THEN conjunct1,
      rule_format, where pd = "\<lparr>pd_title = ''Widget'', pd_price = Finite 12,
         pd_images = [''https://i.ebayimg.com/w.jpg''],
         pd_stock = Some low_stock, pd_itemId = ''123456'', pd_description = ''A widget'',
         pd_variations = [(''Size'', [(''1'', ''Small'')])]\<rparr>"]
  have p: "fetchEbayItem world_page_ok item_url =
     \<lparr>outcome = Inr \<lparr>data_title = ''Widget'', data_images = [''https://i.ebayimg.com/w.jpg''],
         data_price = Finite 12, data_itemId = ''123456'',
         data_variations = [(''Size'', [(''1'', ''Small'')])],
         data_stock = low_stock, data_description = ''A widget''\<rparr>,
      events = [PageExtraction]\<rparr>"
    by (simp add: page_ok_scrape isPositive_def pageData_def)
  from c [THEN conjunct2, THEN conjunct2, THEN conjunct2, THEN conjunct2, THEN conjunct2,
      THEN conjunct1, rule_format, where i = "''123456''" and appId = "''MyApp-1234''"
      and item = "\<lparr>api_title = Some ''Widget'', api_price = Some NaN,
           api_galleryURL = Some ''https://i.ebayimg.com/g.jpg'',
           api_itemId = Some ''654321''\<rparr>" and rest = "[]" and t = "''Widget''"]
  have n: "fetchEbayItem world_api_nan item_url =
     \<lparr>outcome = Inr \<lparr>data_title = ''Widget'', data_images = [''https://i.ebayimg.com/g.jpg''],
         data_price = NaN, data_itemId = ''654321'', data_variations = [],
         data_stock = in_stock, data_description = ''''\<rparr>,
      events = [PageExtraction, ApiRequest]\<rparr>"
    by (simp add: api_only_scraping item_url_id api_nan_facts apiPrice_def apiImages_def
        apiItemId_def isZero_def)
  from a [THEN conjunct2, THEN conjunct2, THEN conjunct2, THEN conjunct2, THEN conjunct2,
      THEN conjunct2, rule_format,
      where d = "\<lparr>data_title = ''Widget'', data_images = [], data_price = Finite 10,
         data_itemId = ''123456'', data_variations = [], data_stock = in_stock,
         data_description = ''''\<rparr>"]
  have z: "\<not> isZero (Finite 10)" by (simp add: api_only_run)
  from ev s i p n z show ?thesis
    by (simp add: item_url_id api_only_run)
qed


section \<open>Theorems: the listing set\<close>

lemma li_itemId_anchor_item: "li_itemId (anchor_item link itemId) = itemId"
  by (simp add: anchor_item_def Let_def)

lemma page_items_ids:
  "set (map li_itemId (page_items links seen)) = linkedIds links - set seen \<and>
   distinct (map li_itemId (page_items links seen))"
proof (induction links arbitrary: seen)
  case Nil
  then show ?case by (simp add: linkedIds_def)
next
  case (Cons link links)
  show ?case
  proof (cases "linkedId link")
    case None
    then have "page_items (link # links) seen = page_items links seen"
      by (auto simp: linkedId_def split: if_splits)
    moreover from None have "linkedIds (link # links) = linkedIds links"
      by (simp add: linkedIds_def)
    ultimately show ?thesis using Cons.IH [of seen] by simp
  next
    case (Some itemId)
    then have h: "a_href link \<noteq> []" "search_digits [''/itm/''] (fullUrl (a_href link)) = Some itemId"
      by (auto simp: linkedId_def split: if_splits)
    from Some have l: "linkedIds (link # links) = insert itemId (linkedIds links)"
      by (simp add: linkedIds_def)
    show ?thesis
    proof (cases "itemId \<in> set seen")
      case True
      with h have "page_items (link # links) seen = page_items links seen" by simp
      with l True Cons.IH [of seen] show ?thesis by auto
    next
      case False
      with h have "page_items (link # links) seen =
          anchor_item link itemId # page_items links (itemId # seen)" by simp
      with l False Cons.IH [of "itemId # seen"] show ?thesis
        by (auto simp: li_itemId_anchor_item)
    qed
  qed
qed

lemma scrape_loop_run:
  "\<exists>e. p \<le> e \<and> (e \<le> maxPages + 1 \<or> e = p) \<and>
       scrape_loop w storeUrl maxPages p allItems vis =
         (allItems @ concat (map (itemsOfPage w storeUrl) [p..<e]), vis @ [p..<e]) \<and>
       (\<forall>n. p \<le> n \<and> n + 1 < e \<longrightarrow> \<not> stopsAt w storeUrl n) \<and>
       (e \<le> maxPages \<longrightarrow> p < e \<and> stopsAt w storeUrl (e - 1))"
proof (induction w storeUrl maxPages p allItems vis rule: scrape_loop.induct)
  case (1 w storeUrl maxPages pageNum allItems visited)
  show ?case
  proof (cases "pageNum \<le> maxPages")
    case False
    then have "scrape_loop w storeUrl maxPages pageNum allItems visited = (allItems, visited)"
      by (subst scrape_loop.simps) simp
    with False show ?thesis by (intro exI [of _ pageNum]) auto
  next
    case le: True
    show ?thesis
    proof (cases "stopsAt w storeUrl pageNum")
      case True
      then have "scrape_loop w storeUrl maxPages pageNum allItems visited =
          (allItems, visited @ [pageNum])"
        using le by (subst scrape_loop.simps) (auto simp: stopsAt_def Let_def split: sum.splits)
      moreover from True have "itemsOfPage w storeUrl pageNum = []"
        by (auto simp: stopsAt_def itemsOfPage_def split: sum.splits)
      ultimately show ?thesis using le True
        by (intro exI [of _ "pageNum + 1"]) auto
    next
      case False
      let ?items = "itemsOfPage w storeUrl pageNum"
      have step: "scrape_loop w storeUrl maxPages pageNum allItems visited =
          scrape_loop w storeUrl maxPages (pageNum + 1) (allItems @ ?items) (visited @ [pageNum])"
        using le False
        by (subst scrape_loop.simps)
           (auto simp: stopsAt_def itemsOfPage_def Let_def split: sum.splits)
      have "\<exists>e. pageNum + 1 \<le> e \<and> (e \<le> maxPages + 1 \<or> e = pageNum + 1) \<and>
         scrape_loop w storeUrl maxPages (pageNum + 1) (allItems @ ?items) (visited @ [pageNum]) =
           ((allItems @ ?items) @ concat (map (itemsOfPage w storeUrl) [pageNum + 1..<e]),
            (visited @ [pageNum]) @ [pageNum + 1..<e]) \<and>
         (\<forall>n. pageNum + 1 \<le> n \<and> n + 1 < e \<longrightarrow> \<not> stopsAt w storeUrl n) \<and>
         (e \<le> maxPages \<longrightarrow> pageNum + 1 < e \<and> stopsAt w storeUrl (e - 1))"
      proof (cases "render w (page_url storeUrl pageNum)")
        case (Inl err)
        with False have ne: "pageNum \<noteq> 1" by (simp add: stopsAt_def)
        from Inl have "?items = []" by (simp add: itemsOfPage_def)
        with "1.IH"(1) [OF le Inl ne] show ?thesis by simp
      next
        case (Inr anchors)
        with False have ne: "page_items anchors [] \<noteq> []" by (simp add: stopsAt_def)
        from Inr have "?items = page_items anchors []" by (simp add: itemsOfPage_def)
        with "1.IH"(2) [OF le Inr refl ne] show ?thesis by simp
      qed
      then obtain e where e: "pageNum + 1 \<le> e" "e \<le> maxPages + 1 \<or> e = pageNum + 1"
        "scrape_loop w storeUrl maxPages (pageNum + 1) (allItems @ ?items) (visited @ [pageNum]) =
           ((allItems @ ?items) @ concat (map (itemsOfPage w storeUrl) [pageNum + 1..<e]),
            (visited @ [pageNum]) @ [pageNum + 1..<e])"
        "\<forall>n. pageNum + 1 \<le> n \<and> n + 1 < e \<longrightarrow> \<not> stopsAt w storeUrl n"
        "e \<le> maxPages \<longrightarrow> pageNum + 1 < e \<and> stopsAt w storeUrl (e - 1)"
        by blast
      have u: "[pageNum..<e] = pageNum # [pageNum + 1..<e]"
        using e(1) by (simp add: upt_conv_Cons)
      have all: "\<forall>n. pageNum \<le> n \<and> n + 1 < e \<longrightarrow> \<not> stopsAt w storeUrl n"
      proof (intro allI impI)
        fix n assume n: "pageNum \<le> n \<and> n + 1 < e"
        show "\<not> stopsAt w storeUrl n"
        proof (cases "n = pageNum")
          case True
          with False show ?thesis by simp
        next
          case False
          with n e(4) show ?thesis by simp
        qed
      qed
      have r: "scrape_loop w storeUrl maxPages pageNum allItems visited =
          (allItems @ concat (map (itemsOfPage w storeUrl) [pageNum..<e]),
           visited @ [pageNum..<e])"
        unfolding step e(3) u by simp
      show ?thesis
        using e(1,2,5) le all r
        by (intro exI [of _ e]) auto
    qed
  qed
qed

text \<open>
  Claim C9, as the code has it. With a browser session, \<open>scrapeStoreListings\<close> visits
  the pages \<open>1, ..., k\<close> in order, for some \<open>k\<close> up to the page cap, and returns the items
  of these pages one page after the other (\<open>null\<close> when there is none). No page before
  page \<open>k\<close> ends the loop, and when \<open>k\<close> is below the cap, page \<open>k\<close> does: a page ends the
  loop when it yields no item at all, or when it is page 1 and fails (a later page that
  fails is skipped). The items of one page have pairwise different item ids, which are
  exactly the ids that the page's item links point to: the list is free of duplicates
  within each page, not across pages.
\<close>

theorem scrapeStoreListings_pages:
  assumes "sessionOk w"
  shows
   "(\<exists>k\<le>maxPages.
       visited (scrapeStoreListings w storeUrl maxPages) = [1..<Suc k] \<and>
       listing (scrapeStoreListings w storeUrl maxPages) =
         (if concat (map (itemsOfPage w storeUrl) [1..<Suc k]) \<noteq> []
          then Some (concat (map (itemsOfPage w storeUrl) [1..<Suc k])) else None) \<and>
       (\<forall>n. 1 \<le> n \<and> n < k \<longrightarrow> \<not> stopsAt w storeUrl n) \<and>
       (k < maxPages \<longrightarrow> 1 \<le> k \<and> stopsAt w storeUrl k)) \<and>
    (\<forall>n. distinct (map li_itemId (itemsOfPage w storeUrl n)) \<and>
         (\<forall>anchors. render w (page_url storeUrl n) = Inr anchors \<longrightarrow>
            set (map li_itemId (itemsOfPage w storeUrl n)) = linkedIds anchors))"
proof (intro conjI allI impI)
  from scrape_loop_run [of 1 maxPages w storeUrl "[]" "[]"]
  obtain e where e: "1 \<le> e" "e \<le> maxPages + 1 \<or> e = 1"
    "scrape_loop w storeUrl maxPages 1 [] [] =
       ([] @ concat (map (itemsOfPage w storeUrl) [1..<e]), [] @ [1..<e])"
    "\<forall>n. 1 \<le> n \<and> n + 1 < e \<longrightarrow> \<not> stopsAt w storeUrl n"
    "e \<le> maxPages \<longrightarrow> 1 < e \<and> stopsAt w storeUrl (e - 1)"
    by blast
  define k where "k = e - 1"
  with e(1) have ek: "e = Suc k" by simp
  show "\<exists>k\<le>maxPages.
       visited (scrapeStoreListings w storeUrl maxPages) = [1..<Suc k] \<and>
       listing (scrapeStoreListings w storeUrl maxPages) =
         (if concat (map (itemsOfPage w storeUrl) [1..<Suc k]) \<noteq> []
          then Some (concat (map (itemsOfPage w storeUrl) [1..<Suc k])) else None) \<and>
       (\<forall>n. 1 \<le> n \<and> n < k \<longrightarrow> \<not> stopsAt w storeUrl n) \<and>
       (k < maxPages \<longrightarrow> 1 \<le> k \<and> stopsAt w storeUrl k)"
  proof (intro exI [of _ k] conjI)
    show "k \<le> maxPages" using e(2) ek by auto
    show "visited (scrapeStoreListings w storeUrl maxPages) = [1..<Suc k]"
      using assms e(3) ek by (simp add: scrapeStoreListings_def Let_def)
    show "listing (scrapeStoreListings w storeUrl maxPages) =
         (if concat (map (itemsOfPage w storeUrl) [1..<Suc k]) \<noteq> []
          then Some (concat (map (itemsOfPage w storeUrl) [1..<Suc k])) else None)"
      using assms e(3) ek by (simp add: scrapeStoreListings_def Let_def)
    show "\<forall>n. 1 \<le> n \<and> n < k \<longrightarrow> \<not> stopsAt w storeUrl n"
      using e(4) ek by simp
    show "k < maxPages \<longrightarrow> 1 \<le> k \<and> stopsAt w storeUrl k"
      using e(5) ek by auto
  qed
next
  fix n
  show "distinct (map li_itemId (itemsOfPage w storeUrl n))"
    using page_items_ids [of _ "[]"]
    by (cases "render w (page_url storeUrl n)") (simp_all add: itemsOfPage_def)
next
  fix n anchors
  assume "render w (page_url storeUrl n) = Inr anchors"
  then show "set (map li_itemId (itemsOfPage w storeUrl n)) = linkedIds anchors"
    using page_items_ids [of anchors "[]"] by (simp add: itemsOfPage_def)
qed

lemma same_page_items:
  "itemsOfPage world_same_page shop_url n =
     [\<lparr>li_itemId = ''111'', li_url = ''https://www.ebay.co.uk/itm/111'',
       li_title = ''Blue mug'', li_price = 0, li_images = []\<rparr>]"
  by (simp add: itemsOfPage_def world_same_page_def anchor_item_def Let_def fullUrl_def
      starts_with_def digits_here_def is_digit_def js_trim_def is_space_def)

lemma same_page_run:
  "scrapeStoreListings world_same_page shop_url 3 =
     \<lparr>listing = Some
        [\<lparr>li_itemId = ''111'', li_url = ''https://www.ebay.co.uk/itm/111'',
          li_title = ''Blue mug'', li_price = 0, li_images = []\<rparr>,
         \<lparr>li_itemId = ''111'', li_url = ''https://www.ebay.co.uk/itm/111'',
          li_title = ''Blue mug'', li_price = 0, li_images = []\<rparr>,
         \<lparr>li_itemId = ''111'', li_url = ''https://www.ebay.co.uk/itm/111'',
          li_title = ''Blue mug'', li_price = 0, li_images = []\<rparr>],
      visited = [1, 2, 3]\<rparr>"
proof -
  have r: "render world_same_page u = Inr [\<lparr>a_href = ''/itm/111?hash=abc'',
      a_text = '' Blue mug '', a_card = None\<rparr>]" for u
    by (simp add: world_same_page_def)
  have p: "page_items [\<lparr>a_href = ''/itm/111?hash=abc'', a_text = '' Blue mug '', a_card = None\<rparr>] [] =
     [\<lparr>li_itemId = ''111'', li_url = ''https://www.ebay.co.uk/itm/111'',
       li_title = ''Blue mug'', li_price = 0, li_images = []\<rparr>]"
    using same_page_items [of 1] by (simp add: itemsOfPage_def r)
  have s: "sessionOk world_same_page" by (simp add: world_same_page_def)
  show ?thesis
    by (simp add: scrapeStoreListings_def s Let_def scrape_loop.simps r p
        del: page_items.simps)
qed

text \<open>
  Claim C9 as stated fails: when the pages 1, 2 and 3 of a store all show the same
  listing, the returned list holds the item id \<open>111\<close> three times, and page 3 is visited
  although page 2 brought no new item.
\<close>

theorem scrapeStoreListings_repeats_item:
  "scrapeStoreListings world_same_page shop_url 3 =
     \<lparr>listing = Some
        [\<lparr>li_itemId = ''111'', li_url = ''https://www.ebay.co.uk/itm/111'',
          li_title = ''Blue mug'', li_price = 0, li_images = []\<rparr>,
         \<lparr>li_itemId = ''111'', li_url = ''https://www.ebay.co.uk/itm/111'',
          li_title = ''Blue mug'', li_price = 0, li_images = []\<rparr>,
         \<lparr>li_itemId = ''111'', li_url = ''https://www.ebay.co.uk/itm/111'',
          li_title = ''Blue mug'', li_price = 0, li_images = []\<rparr>],
      visited = [1, 2, 3]\<rparr>"
  by (rule same_page_run)

lemma two_pages_items:
  "itemsOfPage world_two_pages shop_url 1 =
     [\<lparr>li_itemId = ''111'', li_url = ''https://www.ebay.co.uk/itm/111'',
       li_title = ''Blue mug'', li_price = 0, li_images = []\<rparr>,
      \<lparr>li_itemId = ''222'', li_url = ''https://www.ebay.co.uk/itm/222'',
       li_title = ''Red mug'', li_price = 5, li_images = [''https://i.ebayimg.com/r.jpg'']\<rparr>]"
  "itemsOfPage world_two_pages shop_url 2 = []"
  by (simp_all add: itemsOfPage_def world_two_pages_def shop_url_def page_url_def
      string_of_nat.simps digit_char_def anchor_item_def Let_def fullUrl_def
      starts_with_def digits_here_def is_digit_def js_trim_def is_space_def)

lemma two_pages_stops:
  "\<not> stopsAt world_two_pages shop_url 1" "stopsAt world_two_pages shop_url 2"
  using two_pages_items
  by (simp_all add: stopsAt_def itemsOfPage_def world_two_pages_def shop_url_def page_url_def
      string_of_nat.simps digit_char_def)

text \<open>
  C9 on a store with two listings on page 1, one of them linked twice, and an empty
  page 2, with the default cap of 5: pages 1 and 2 are visited and two items returned.
\<close>

theorem scrapeStoreListings_pages_witness:
  "sessionOk world_two_pages \<and>
   visited (scrapeStoreListings world_two_pages shop_url 5) = [1, 2] \<and>
   listing (scrapeStoreListings world_two_pages shop_url 5) = Some
     [\<lparr>li_itemId = ''111'', li_url = ''https://www.ebay.co.uk/itm/111'',
       li_title = ''Blue mug'', li_price = 0, li_images = []\<rparr>,
      \<lparr>li_itemId = ''222'', li_url = ''https://www.ebay.co.uk/itm/222'',
       li_title = ''Red mug'', li_price = 5, li_images = [''https://i.ebayimg.com/r.jpg'']\<rparr>]"
proof -
  have s: "sessionOk world_two_pages" by (simp add: world_two_pages_def)
  from scrapeStoreListings_pages [OF s, of 5 shop_url, THEN conjunct1]
  obtain k where k: "k \<le> 5"
    "visited (scrapeStoreListings world_two_pages shop_url 5) = [1..<Suc k]"
    "listing (scrapeStoreListings world_two_pages shop_url 5) =
         (if concat (map (itemsOfPage world_two_pages shop_url) [1..<Suc k]) \<noteq> []
          then Some (concat (map (itemsOfPage world_two_pages shop_url) [1..<Suc k])) else None)"
    "\<forall>n. 1 \<le> n \<and> n < k \<longrightarrow> \<not> stopsAt world_two_pages shop_url n"
    "k < 5 \<longrightarrow> 1 \<le> k \<and> stopsAt world_two_pages shop_url k"
    by blast
  have "k = 2"
  proof (rule ccontr)
    assume ne: "k \<noteq> 2"
    show False
    proof (cases "k < 2")
      case True
      with k(5) have "1 \<le> k \<and> stopsAt world_two_pages shop_url k" by simp
      moreover from this True have "k = 1" by simp
      ultimately show False using two_pages_stops(1) by simp
    next
      case False
      with ne have "2 < k" by simp
      with k(4) two_pages_stops(2) show False by auto
    qed
  qed
  have u: "[1..<Suc 2] = [1, 2]" by (simp add: upt_conv_Cons)
  from k(2,3) s show ?thesis
    unfolding \<open>k = 2\<close> u by (simp add: two_pages_items(2) two_pages_items(1) [unfolded One_nat_def])
qed


section \<open>Theorems: seller identity\<close>

lemma notBrand_Some: "notBrand x = Some s \<Longrightarrow> x = Some s \<and> s \<noteq> [] \<and> s \<noteq> ''eBay UK'' \<and> s \<noteq> ''eBay''"
  by (cases x) (auto simp: notBrand_def split: if_splits)

lemma orElse_simps [simp]: "orElse None b = b" "orElse (Some x) b = Some x"
  by (simp_all add: orElse_def)

lemma orElse_Some: "orElse a b = Some s \<Longrightarrow> a = Some s \<or> (a = None \<and> b = Some s)"
  by (cases a) auto

lemma metaCandidate_plausible: "metaCandidate c = Some s \<Longrightarrow> plausible s"
  by (auto simp: metaCandidate_def split: option.splits if_splits)

lemma markerCandidate_plausible: "markerCandidate t = Some s \<Longrightarrow> plausible s"
  by (auto simp: markerCandidate_def split: option.splits if_splits)

lemma markersStorefront_plausible: "markersStorefront page = Some s \<Longrightarrow> plausible s"
  unfolding markersStorefront_def
  by (auto dest!: orElse_Some dest: markerCandidate_plausible)

lemma markersProductPage_plausible: "markersProductPage page = Some s \<Longrightarrow> plausible s"
  unfolding markersProductPage_def
  by (auto dest!: orElse_Some dest: markerCandidate_plausible)

lemma patternCandidate_plausible: "patternCandidate sc p = Some s \<Longrightarrow> plausibleScript s"
  by (auto simp: patternCandidate_def split: option.splits if_splits)

lemma first_of_Some: "first_of f xs = Some y \<Longrightarrow> \<exists>x\<in>set xs. f x = Some y"
  by (induction xs) (auto split: option.splits)

lemma scriptsCandidate_plausible: "scriptsCandidate ps ss = Some s \<Longrightarrow> plausibleScript s"
  unfolding scriptsCandidate_def
  by (auto dest!: first_of_Some dest: patternCandidate_plausible)

lemma linkStep_plausible: "linkStep decode h = Name s \<Longrightarrow> plausible s"
  by (auto simp: linkStep_def split: option.splits if_splits)

lemma linksStorefront_plausible: "linksStorefront decode hs = Some s \<Longrightarrow> plausible s"
  by (induction hs) (auto split: link_step.splits dest: linkStep_plausible)

lemma linkProductPage_plausible: "linkProductPage decode hs = Some s \<Longrightarrow> plausible s"
  by (auto simp: linkProductPage_def split: list.splits link_step.splits dest: linkStep_plausible)

lemma plausibleScript_plausible: "plausibleScript s \<Longrightarrow> plausible s"
  by (simp add: plausibleScript_def)

lemma firstSome_append: "firstSome (xs @ ys) = orElse (firstSome xs) (firstSome ys)"
  by (induction xs) (auto split: option.splits)

lemma firstSome_map: "firstSome (map f xs) = first_of f xs"
  by (induction xs) (auto split: option.splits)

lemma firstSome_scripts:
  "firstSome (concat (map (\<lambda>script. map (patternCandidate script) ps) ss)) =
     scriptsCandidate ps ss"
  by (induction ss)
     (auto simp: scriptsCandidate_def firstSome_append firstSome_map orElse_def
       split: option.splits)

lemma notBrand_plausible: "plausible s \<Longrightarrow> notBrand (Some s) = Some s"
  by (simp add: notBrand_def plausible_def)

lemma notBrand_chain:
  assumes "\<And>s. x = Some s \<Longrightarrow> plausible s"
  shows "notBrand x = x"
  using assms by (cases x) (simp_all add: notBrand_def plausible_def)

lemma storefront_chain:
  assumes "first_of jsonLdStorefront (jsonLd page) = None"
  shows "extractSellerIdFromStorefront decode (Inr page) =
     firstSome
       ([metaCandidate (twitterCreator page)] @
        [markerCandidate (mbgIdSpan page), markerCandidate (mbgIdLink page),
         markerCandidate (mbgNw page), markerCandidate (sellerInfoName page),
         markerCandidate (strSellerInfo page)] @
        concat (map (\<lambda>script. map (patternCandidate script)
          [P_sellerName, P_sellerId, P_username, P_sellerUsername, P_seller_username,
           P_seller_name_loose, P_seller_id_loose, P_seller_name, P_seller_id,
           P_sellerName_quoted, P_sellerId_quoted]) (scripts page)) @
        [linksStorefront decode (sellerLinks page)])"
proof -
  let ?chain = "orElse (metaCandidate (twitterCreator page))
            (orElse (markersStorefront page)
            (orElse (scriptsCandidate patternsStorefront (scripts page))
                    (linksStorefront decode (sellerLinks page))))"
  have "plausible s" if "?chain = Some s" for s
    using that
    by (auto dest!: orElse_Some dest: metaCandidate_plausible markersStorefront_plausible
          scriptsCandidate_plausible plausibleScript_plausible linksStorefront_plausible)
  then have "notBrand ?chain = ?chain" by (rule notBrand_chain)
  with assms have l: "extractSellerIdFromStorefront decode (Inr page) = ?chain"
    by (simp add: extractSellerIdFromStorefront_def)
  have r: "firstSome
       ([metaCandidate (twitterCreator page)] @
        [markerCandidate (mbgIdSpan page), markerCandidate (mbgIdLink page),
         markerCandidate (mbgNw page), markerCandidate (sellerInfoName page),
         markerCandidate (strSellerInfo page)] @
        concat (map (\<lambda>script. map (patternCandidate script) patternsStorefront)
          (scripts page)) @
        [linksStorefront decode (sellerLinks page)]) = ?chain"
    unfolding firstSome_append firstSome_scripts
    by (simp add: markersStorefront_def orElse_def split: option.splits)
  show ?thesis unfolding l using r by (simp only: patternsStorefront_def)
qed

lemma productPage_chain:
  assumes "first_of jsonLdProductPage (jsonLd page) = None"
  shows "extractSellerIdFromProductPage decode (Inr page) =
     firstSome
       ([metaCandidate (twitterCreator page)] @
        concat (map (\<lambda>script. map (patternCandidate script)
          [P_seller_username, P_seller_name, P_seller_id, P_sellerName, P_sellerId,
           P_username, P_sellerUsername, P_sellerName_quoted, P_sellerId_quoted])
          (scripts page)) @
        [markerCandidate (mbgIdSpan page), markerCandidate (mbgIdLink page),
         markerCandidate (sellerInfoName page)] @
        [linkProductPage decode (sellerLinks page)])"
proof -
  let ?chain = "orElse (metaCandidate (twitterCreator page))
            (orElse (scriptsCandidate patternsProductPage (scripts page))
            (orElse (markersProductPage page)
                    (linkProductPage decode (sellerLinks page))))"
  have "plausible s" if "?chain = Some s" for s
    using that
    by (auto dest!: orElse_Some dest: metaCandidate_plausible markersProductPage_plausible
          scriptsCandidate_plausible plausibleScript_plausible linkProductPage_plausible)
  then have "notBrand ?chain = ?chain" by (rule notBrand_chain)
  with assms have l: "extractSellerIdFromProductPage decode (Inr page) = ?chain"
    by (simp add: extractSellerIdFromProductPage_def)
  have r: "firstSome
       ([metaCandidate (twitterCreator page)] @
        concat (map (\<lambda>script. map (patternCandidate script) patternsProductPage)
          (scripts page)) @
        [markerCandidate (mbgIdSpan page), markerCandidate (mbgIdLink page),
         markerCandidate (sellerInfoName page)] @
        [linkProductPage decode (sellerLinks page)]) = ?chain"
    unfolding firstSome_append firstSome_scripts
    by (simp add: markersProductPage_def orElse_def split: option.splits)
  show ?thesis unfolding l using r by (simp only: patternsProductPage_def)
qed

lemma jsonLd_result:
  assumes "c \<noteq> ''eBay''" "c \<noteq> ''eBay UK''"
  shows "first_of jsonLdStorefront (jsonLd page) = Some c \<Longrightarrow>
           extractSellerIdFromStorefront decode (Inr page) = Some c"
    and "first_of jsonLdProductPage (jsonLd page) = Some c \<Longrightarrow>
           extractSellerIdFromProductPage decode (Inr page) = Some c"
proof -
  have t: "truthy v \<noteq> Some []" for v
    by (auto simp: truthy_def split: option.splits)
  have s: "jsonLdStorefront j \<noteq> Some []" for j
    by (cases j) (auto simp: jsonLdStorefront_def t dest!: orElse_Some)
  have p: "jsonLdProductPage j \<noteq> Some []" for j
    by (cases j) (auto simp: jsonLdProductPage_def t dest!: orElse_Some)
  show "first_of jsonLdStorefront (jsonLd page) = Some c \<Longrightarrow>
           extractSellerIdFromStorefront decode (Inr page) = Some c"
    using assms by (auto simp: extractSellerIdFromStorefront_def notBrand_def
        s dest!: first_of_Some)
  show "first_of jsonLdProductPage (jsonLd page) = Some c \<Longrightarrow>
           extractSellerIdFromProductPage decode (Inr page) = Some c"
    using assms by (auto simp: extractSellerIdFromProductPage_def notBrand_def
        p dest!: first_of_Some)
qed

lemma never_brand:
  assumes "extractSellerIdFromStorefront decode opened = Some s \<or>
           extractSellerIdFromProductPage decode opened = Some s"
  shows "s \<noteq> [] \<and> s \<noteq> ''eBay'' \<and> s \<noteq> ''eBay UK''"
proof (cases opened)
  case (Inl e)
  with assms show ?thesis
    by (simp add: extractSellerIdFromStorefront_def extractSellerIdFromProductPage_def)
next
  case (Inr page)
  with assms show ?thesis
    by (auto simp: extractSellerIdFromStorefront_def extractSellerIdFromProductPage_def
        dest!: notBrand_Some)
qed

lemma metaCandidate_iff:
  "metaCandidate content = Some s \<longleftrightarrow>
     (\<exists>c m. content = Some c \<and> twitterCapture c = Some m \<and> s = js_trim m \<and>
        s \<noteq> [] \<and> s \<noteq> ''eBay UK'' \<and> s \<noteq> ''eBay'' \<and> length s < 50)"
proof (cases content)
  case None
  then show ?thesis by (simp add: metaCandidate_def)
next
  case (Some c)
  have e: "twitterCapture [] = None" by (simp add: twitterCapture_def)
  show ?thesis
  proof (cases "c = []")
    case True
    with Some e show ?thesis by (simp add: metaCandidate_def)
  next
    case False
    with Some show ?thesis
      by (cases "twitterCapture c") (auto simp: metaCandidate_def plausible_def)
  qed
qed

lemma markerCandidate_iff:
  "markerCandidate textContent = Some s \<longleftrightarrow>
     (\<exists>t. textContent = Some t \<and> s = js_trim t \<and>
        s \<noteq> [] \<and> s \<noteq> ''eBay UK'' \<and> s \<noteq> ''eBay'' \<and> length s < 50)"
  by (cases textContent) (auto simp: markerCandidate_def plausible_def)

lemma cleanCapture_Nil: "cleanCapture [] = []"
  by (simp add: cleanCapture_def js_trim_def)

lemma patternCandidate_iff:
  "patternCandidate script pattern = Some s \<longleftrightarrow>
     (\<exists>m. script pattern = Some m \<and> s = cleanCapture m \<and>
        s \<noteq> [] \<and> s \<noteq> ''eBay UK'' \<and> s \<noteq> ''eBay'' \<and> length s < 50 \<and>
        \<not> js_includes s ''http'')"
proof (cases "script pattern")
  case None
  then show ?thesis by (simp add: patternCandidate_def)
next
  case (Some m)
  show ?thesis
  proof (cases "m = []")
    case True
    with Some cleanCapture_Nil show ?thesis by (simp add: patternCandidate_def)
  next
    case False
    with Some show ?thesis
      by (auto simp: patternCandidate_def plausibleScript_def plausible_def)
  qed
qed

lemma linkStep_Name_iff:
  "linkStep decode href = Name s \<longleftrightarrow>
     (\<exists>h seg u. href = Some h \<and> search_segment h = Some seg \<and> decode seg = Some u \<and>
        s = js_trim u \<and> s \<noteq> [] \<and> s \<noteq> ''eBay UK'' \<and> s \<noteq> ''eBay'' \<and> length s < 50)"
proof (cases href)
  case None
  then show ?thesis by (simp add: linkStep_def)
next
  case (Some h)
  show ?thesis
  proof (cases "search_segment h")
    case None
    with Some show ?thesis by (simp add: linkStep_def)
  next
    case seg: (Some seg)
    then have "h \<noteq> []" by auto
    with Some seg show ?thesis
      by (cases "decode seg") (auto simp: linkStep_def plausible_def)
  qed
qed

lemma linkStep_Pass_iff:
  "linkStep decode href = Pass \<longleftrightarrow>
     (href = None \<or>
      (\<exists>h. href = Some h \<and>
         (search_segment h = None \<or>
          (\<exists>seg u. search_segment h = Some seg \<and> decode seg = Some u \<and>
             \<not> (js_trim u \<noteq> [] \<and> js_trim u \<noteq> ''eBay UK'' \<and> js_trim u \<noteq> ''eBay'' \<and>
                length (js_trim u) < 50)))))"
proof (cases href)
  case None
  then show ?thesis by (simp add: linkStep_def)
next
  case (Some h)
  show ?thesis
  proof (cases "search_segment h")
    case None
    with Some show ?thesis by (simp add: linkStep_def)
  next
    case seg: (Some seg)
    then have "h \<noteq> []" by auto
    with Some seg show ?thesis
      by (cases "decode seg") (auto simp: linkStep_def plausible_def)
  qed
qed

lemma linksStorefront_iff:
  "linksStorefront decode hrefs = Some s \<longleftrightarrow>
     (\<exists>pre href post. hrefs = pre @ href # post \<and>
        (\<forall>h\<in>set pre. linkStep decode h = Pass) \<and> linkStep decode href = Name s)"
proof (induction hrefs)
  case Nil
  then show ?case by simp
next
  case (Cons a hrefs)
  show ?case
  proof (cases "linkStep decode a")
    case (Name u)
    have "(\<exists>pre href post. a # hrefs = pre @ href # post \<and>
        (\<forall>h\<in>set pre. linkStep decode h = Pass) \<and> linkStep decode href = Name s) \<longleftrightarrow> u = s"
    proof
      assume "\<exists>pre href post. a # hrefs = pre @ href # post \<and>
        (\<forall>h\<in>set pre. linkStep decode h = Pass) \<and> linkStep decode href = Name s"
      then obtain pre href post where e: "a # hrefs = pre @ href # post"
        "\<forall>h\<in>set pre. linkStep decode h = Pass" "linkStep decode href = Name s" by blast
      show "u = s"
      proof (cases pre)
        case Nil
        with e Name show ?thesis by simp
      next
        case (Cons b pre')
        with e Name show ?thesis by simp
      qed
    next
      assume "u = s"
      with Name have "a # hrefs = [] @ a # hrefs \<and>
        (\<forall>h\<in>set []. linkStep decode h = Pass) \<and> linkStep decode a = Name s" by simp
      then show "\<exists>pre href post. a # hrefs = pre @ href # post \<and>
        (\<forall>h\<in>set pre. linkStep decode h = Pass) \<and> linkStep decode href = Name s" by blast
    qed
    with Name show ?thesis by simp
  next
    case Pass
    have "(\<exists>pre href post. a # hrefs = pre @ href # post \<and>
        (\<forall>h\<in>set pre. linkStep decode h = Pass) \<and> linkStep decode href = Name s) \<longleftrightarrow>
      (\<exists>pre href post. hrefs = pre @ href # post \<and>
        (\<forall>h\<in>set pre. linkStep decode h = Pass) \<and> linkStep decode href = Name s)"
    proof
      assume "\<exists>pre href post. a # hrefs = pre @ href # post \<and>
        (\<forall>h\<in>set pre. linkStep decode h = Pass) \<and> linkStep decode href = Name s"
      then obtain pre href post where e: "a # hrefs = pre @ href # post"
        "\<forall>h\<in>set pre. linkStep decode h = Pass" "linkStep decode href = Name s" by blast
      show "\<exists>pre href post. hrefs = pre @ href # post \<and>
        (\<forall>h\<in>set pre. linkStep decode h = Pass) \<and> linkStep decode href = Name s"
      proof (cases pre)
        case Nil
        with e Pass show ?thesis by simp
      next
        case (Cons b pre')
        with e have "hrefs = pre' @ href # post" "\<forall>h\<in>set pre'. linkStep decode h = Pass"
          by simp_all
        with e(3) show ?thesis by blast
      qed
    next
      assume "\<exists>pre href post. hrefs = pre @ href # post \<and>
        (\<forall>h\<in>set pre. linkStep decode h = Pass) \<and> linkStep decode href = Name s"
      then obtain pre href post where e: "hrefs = pre @ href # post"
        "\<forall>h\<in>set pre. linkStep decode h = Pass" "linkStep decode href = Name s" by blast
      with Pass have "a # hrefs = (a # pre) @ href # post \<and>
        (\<forall>h\<in>set (a # pre). linkStep decode h = Pass) \<and> linkStep decode href = Name s" by simp
      then show "\<exists>pre href post. a # hrefs = pre @ href # post \<and>
        (\<forall>h\<in>set pre. linkStep decode h = Pass) \<and> linkStep decode href = Name s" by blast
    qed
    with Pass Cons.IH show ?thesis by simp
  next
    case Abort
    have "\<not> (\<exists>pre href post. a # hrefs = pre @ href # post \<and>
        (\<forall>h\<in>set pre. linkStep decode h = Pass) \<and> linkStep decode href = Name s)"
    proof
      assume "\<exists>pre href post. a # hrefs = pre @ href # post \<and>
        (\<forall>h\<in>set pre. linkStep decode h = Pass) \<and> linkStep decode href = Name s"
      then obtain pre href post where e: "a # hrefs = pre @ href # post"
        "\<forall>h\<in>set pre. linkStep decode h = Pass" "linkStep decode href = Name s" by blast
      show False
      proof (cases pre)
        case Nil
        with e Abort show ?thesis by simp
      next
        case (Cons b pre')
        with e Abort show ?thesis by simp
      qed
    qed
    with Abort show ?thesis by simp
  qed
qed

lemma linkProductPage_iff:
  "linkProductPage decode hrefs = Some s \<longleftrightarrow>
     (\<exists>href rest. hrefs = href # rest \<and> linkStep decode href = Name s)"
  by (cases hrefs) (auto simp: linkProductPage_def split: link_step.splits)


text \<open>
  Claim C8, as the code has it, for both functions. A result is never empty and never the
  platform's own name (\<open>eBay\<close> or \<open>eBay UK\<close>). A candidate of the structured data that
  is not the platform's name is the result. When the structured data yield no candidate,
  the result is the first candidate that is there in the chain, a rejected candidate
  being absent. The chain of the storefront is: the meta tag, the five DOM markers,
  every script with the eleven patterns in order, the seller links. The chain of the
  product page is: the meta tag, every script with the nine patterns in order, the three
  DOM markers, the seller link.

  A candidate of the meta tag, of a DOM marker or of a seller link is there exactly when
  the trimmed text is not empty, is not the platform's name and is shorter than 50
  characters; a candidate of a script pattern is there exactly when the cleaned capture
  meets these conditions and does not contain \<open>http\<close>. A link without such a name is
  passed over. The storefront takes the name of the first link that has one, the links
  before it being passed over; the product page looks at the first link only.
\<close>

theorem sellerId_rules:
  "(\<forall>s. extractSellerIdFromStorefront decode opened = Some s \<or>
        extractSellerIdFromProductPage decode opened = Some s \<longrightarrow>
        s \<noteq> [] \<and> s \<noteq> ''eBay'' \<and> s \<noteq> ''eBay UK'') \<and>
   (\<forall>c. first_of jsonLdStorefront (jsonLd page) = Some c \<and> c \<noteq> ''eBay'' \<and> c \<noteq> ''eBay UK'' \<longrightarrow>
        extractSellerIdFromStorefront decode (Inr page) = Some c) \<and>
   (\<forall>c. first_of jsonLdProductPage (jsonLd page) = Some c \<and> c \<noteq> ''eBay'' \<and> c \<noteq> ''eBay UK'' \<longrightarrow>
        extractSellerIdFromProductPage decode (Inr page) = Some c) \<and>
   (first_of jsonLdStorefront (jsonLd page) = None \<longrightarrow>
      extractSellerIdFromStorefront decode (Inr page) =
        firstSome
          ([metaCandidate (twitterCreator page)] @
           [markerCandidate (mbgIdSpan page), markerCandidate (mbgIdLink page),
            markerCandidate (mbgNw page), markerCandidate (sellerInfoName page),
            markerCandidate (strSellerInfo page)] @
           concat (map (\<lambda>script. map (patternCandidate script)
             [P_sellerName, P_sellerId, P_username, P_sellerUsername, P_seller_username,
              P_seller_name_loose, P_seller_id_loose, P_seller_name, P_seller_id,
              P_sellerName_quoted, P_sellerId_quoted]) (scripts page)) @
           [linksStorefront decode (sellerLinks page)])) \<and>
   (first_of jsonLdProductPage (jsonLd page) = None \<longrightarrow>
      extractSellerIdFromProductPage decode (Inr page) =
        firstSome
          ([metaCandidate (twitterCreator page)] @
           concat (map (\<lambda>script. map (patternCandidate script)
             [P_seller_username, P_seller_name, P_seller_id, P_sellerName, P_sellerId,
              P_username, P_sellerUsername, P_sellerName_quoted, P_sellerId_quoted])
             (scripts page)) @
           [markerCandidate (mbgIdSpan page), markerCandidate (mbgIdLink page),
            markerCandidate (sellerInfoName page)] @
           [linkProductPage decode (sellerLinks page)])) \<and>
   (\<forall>content s. metaCandidate content = Some s \<longleftrightarrow>
      (\<exists>c m. content = Some c \<and> twitterCapture c = Some m \<and> s = js_trim m \<and>
         s \<noteq> [] \<and> s \<noteq> ''eBay UK'' \<and> s \<noteq> ''eBay'' \<and> length s < 50)) \<and>
   (\<forall>textContent s. markerCandidate textContent = Some s \<longleftrightarrow>
      (\<exists>t. textContent = Some t \<and> s = js_trim t \<and>
         s \<noteq> [] \<and> s \<noteq> ''eBay UK'' \<and> s \<noteq> ''eBay'' \<and> length s < 50)) \<and>
   (\<forall>script pattern s. patternCandidate script pattern = Some s \<longleftrightarrow>
      (\<exists>m. script pattern = Some m \<and> s = cleanCapture m \<and>
         s \<noteq> [] \<and> s \<noteq> ''eBay UK'' \<and> s \<noteq> ''eBay'' \<and> length s < 50 \<and>
         \<not> js_includes s ''http'')) \<and>
   (\<forall>href s. linkStep decode href = Name s \<longleftrightarrow>
      (\<exists>h seg u. href = Some h \<and> search_segment h = Some seg \<and> decode seg = Some u \<and>
         s = js_trim u \<and> s \<noteq> [] \<and> s \<noteq> ''eBay UK'' \<and> s \<noteq> ''eBay'' \<and> length s < 50)) \<and>
   (\<forall>href. linkStep decode href = Pass \<longleftrightarrow>
      (href = None \<or>
       (\<exists>h. href = Some h \<and>
          (search_segment h = None \<or>
           (\<exists>seg u. search_segment h = Some seg \<and> decode seg = Some u \<and>
              \<not> (js_trim u \<noteq> [] \<and> js_trim u \<noteq> ''eBay UK'' \<and> js_trim u \<noteq> ''eBay'' \<and>
                 length (js_trim u) < 50)))))) \<and>
   (\<forall>hrefs s. linksStorefront decode hrefs = Some s \<longleftrightarrow>
      (\<exists>pre href post. hrefs = pre @ href # post \<and>
         (\<forall>h\<in>set pre. linkStep decode h = Pass) \<and> linkStep decode href = Name s)) \<and>
   (\<forall>hrefs s. linkProductPage decode hrefs = Some s \<longleftrightarrow>
      (\<exists>href rest. hrefs = href # rest \<and> linkStep decode href = Name s))"
proof (intro conjI)
  show "\<forall>s. extractSellerIdFromStorefront decode opened = Some s \<or>
        extractSellerIdFromProductPage decode opened = Some s \<longrightarrow>
        s \<noteq> [] \<and> s \<noteq> ''eBay'' \<and> s \<noteq> ''eBay UK''"
    by (intro allI impI) (rule never_brand)
  show "\<forall>c. first_of jsonLdStorefront (jsonLd page) = Some c \<and> c \<noteq> ''eBay'' \<and> c \<noteq> ''eBay UK'' \<longrightarrow>
        extractSellerIdFromStorefront decode (Inr page) = Some c"
    using jsonLd_result(1) by blast
  show "\<forall>c. first_of jsonLdProductPage (jsonLd page) = Some c \<and> c \<noteq> ''eBay'' \<and> c \<noteq> ''eBay UK'' \<longrightarrow>
        extractSellerIdFromProductPage decode (Inr page) = Some c"
    using jsonLd_result(2) by blast
qed (intro allI impI storefront_chain productPage_chain metaCandidate_iff markerCandidate_iff
      patternCandidate_iff linkStep_Name_iff linkStep_Pass_iff linksStorefront_iff
      linkProductPage_iff; assumption?)+


lemmas seller_eval =
  extractSellerIdFromStorefront_def extractSellerIdFromProductPage_def notBrand_def
  jsonLdStorefront_def jsonLdProductPage_def truthy_def metaCandidate_def twitterCapture_def
  handle_char_def markerCandidate_def markersStorefront_def markersProductPage_def
  scriptsCandidate_def patternCandidate_def plausibleScript_def cleanCapture_def
  patternsStorefront_def patternsProductPage_def linkStep_def linkProductPage_def
  segment_here_def segment_char_def starts_with_def plausible_def js_trim_def is_space_def
  empty_page_def no_fields_def plain_decode_def

lemma http_meta_eval:
  "extractSellerIdFromStorefront plain_decode (Inr page_http_meta) = Some ''https://twitter.com/shop''"
  "extractSellerIdFromProductPage plain_decode (Inr page_http_meta) = Some ''https://twitter.com/shop''"
  "js_includes ''https://twitter.com/shop'' ''http''"
  by (simp_all add: seller_eval page_http_meta_def)

lemma long_jsonld_eval:
  "extractSellerIdFromStorefront plain_decode (Inr page_long_jsonld) = Some long_name"
  "extractSellerIdFromProductPage plain_decode (Inr page_long_jsonld) = Some long_name"
  "length long_name = 60"
  by (simp_all add: seller_eval page_long_jsonld_def long_name_def)

lemma brand_jsonld_eval:
  "extractSellerIdFromStorefront plain_decode (Inr page_brand_jsonld) = None"
  "metaCandidate (twitterCreator page_brand_jsonld) = Some ''top_seller''"
  by (simp_all add: seller_eval page_brand_jsonld_def)

lemma fifty_eval:
  "length fifty_name = 50"
  "extractSellerIdFromStorefront plain_decode (Inr page_fifty) = Some ''top_seller''"
  "extractSellerIdFromProductPage plain_decode (Inr page_fifty) = Some ''top_seller''"
  by (simp_all add: seller_eval page_fifty_def fifty_name_def)

text \<open>
  Claim C8 as stated fails. Only the script scan rejects a candidate that contains
  \<open>http\<close>: an address in the meta tag is returned. The structured data are not checked
  for length: a name of 60 characters is returned. A platform name in the structured
  data ends the search with no result, although the meta tag names a seller. And a
  candidate of 50 characters, which does not exceed 50, is rejected: the next marker
  supplies the name.
\<close>

theorem sellerId_unfiltered:
  "extractSellerIdFromStorefront plain_decode (Inr page_http_meta) =
     Some ''https://twitter.com/shop'' \<and>
   extractSellerIdFromProductPage plain_decode (Inr page_http_meta) =
     Some ''https://twitter.com/shop'' \<and>
   js_includes ''https://twitter.com/shop'' ''http'' \<and>
   extractSellerIdFromStorefront plain_decode (Inr page_long_jsonld) = Some long_name \<and>
   extractSellerIdFromProductPage plain_decode (Inr page_long_jsonld) = Some long_name \<and>
   length long_name = 60 \<and>
   extractSellerIdFromStorefront plain_decode (Inr page_brand_jsonld) = None \<and>
   metaCandidate (twitterCreator page_brand_jsonld) = Some ''top_seller'' \<and>
   mbgIdSpan page_fifty = Some fifty_name \<and> length fifty_name = 50 \<and>
   extractSellerIdFromStorefront plain_decode (Inr page_fifty) = Some ''top_seller'' \<and>
   extractSellerIdFromProductPage plain_decode (Inr page_fifty) = Some ''top_seller''"
  using http_meta_eval long_jsonld_eval brand_jsonld_eval fifty_eval
  by (simp add: page_fifty_def empty_page_def)

lemma no_jsonld:
  "first_of jsonLdStorefront (jsonLd page_brand_meta) = None"
  "first_of jsonLdProductPage (jsonLd page_brand_meta) = None"
  "first_of jsonLdStorefront (jsonLd page_both) = None"
  "first_of jsonLdProductPage (jsonLd page_both) = None"
  "first_of jsonLdStorefront (jsonLd page_script) = None"
  "first_of jsonLdProductPage (jsonLd page_script) = None"
  "first_of jsonLdStorefront (jsonLd page_links) = None"
  "first_of jsonLdProductPage (jsonLd page_links) = None"
  "first_of jsonLdStorefront (jsonLd page_nbsp) = None"
  "first_of jsonLdProductPage (jsonLd page_nbsp) = None"
  by (simp_all add: page_brand_meta_def page_both_def page_script_def page_links_def
      page_nbsp_def empty_page_def)

lemma long_jsonld_candidate:
  "first_of jsonLdStorefront (jsonLd page_long_jsonld) = Some long_name"
  "first_of jsonLdProductPage (jsonLd page_long_jsonld) = Some long_name"
  "long_name \<noteq> ''eBay''" "long_name \<noteq> ''eBay UK''"
  by (simp_all add: page_long_jsonld_def empty_page_def no_fields_def jsonLdStorefront_def
      jsonLdProductPage_def truthy_def long_name_def)

text \<open>
  C8 on concrete pages, for the storefront and the product page: a meta tag naming the
  platform is rejected and the first DOM marker supplies the seller; with a name in a
  marker and another in a script, the storefront returns the marker's and the product
  page the script's; a script capture holding an address is rejected and the next
  pattern supplies the seller; a link to the platform's own profile is passed over and
  the next link supplies the seller on the storefront, nothing on the product page; a
  marker of 49 characters and a no-break space is trimmed and accepted; a name of 60
  characters in the structured data is returned.
\<close>

theorem sellerId_rules_witness:
  "extractSellerIdFromStorefront plain_decode (Inr page_brand_meta) = Some ''top_seller'' \<and>
   extractSellerIdFromProductPage plain_decode (Inr page_brand_meta) = Some ''top_seller'' \<and>
   extractSellerIdFromStorefront plain_decode (Inr page_both) = Some ''marker_name'' \<and>
   extractSellerIdFromProductPage plain_decode (Inr page_both) = Some ''script_name'' \<and>
   extractSellerIdFromStorefront plain_decode (Inr page_script) = Some ''top_seller'' \<and>
   extractSellerIdFromProductPage plain_decode (Inr page_script) = Some ''top_seller'' \<and>
   extractSellerIdFromStorefront plain_decode (Inr page_links) = Some ''top_seller'' \<and>
   extractSellerIdFromProductPage plain_decode (Inr page_links) = None \<and>
   extractSellerIdFromStorefront plain_decode (Inr page_nbsp) = Some forty_nine_name \<and>
   extractSellerIdFromProductPage plain_decode (Inr page_nbsp) = Some forty_nine_name \<and>
   extractSellerIdFromStorefront plain_decode (Inr page_long_jsonld) = Some long_name \<and>
   extractSellerIdFromProductPage plain_decode (Inr page_long_jsonld) = Some long_name \<and>
   long_name \<noteq> [] \<and>
   metaCandidate (Some ''@top_seller'') = Some ''top_seller'' \<and>
   metaCandidate (Some ''@eBay'') \<noteq> Some ''eBay'' \<and>
   markerCandidate (Some (forty_nine_name @ [CHR 0xA0])) = Some forty_nine_name \<and>
   markerCandidate (Some fifty_name) \<noteq> Some fifty_name \<and>
   patternCandidate ((\<lambda>p. None)(P_sellerId := Some ''top_seller'')) P_sellerId =
     Some ''top_seller'' \<and>
   patternCandidate ((\<lambda>p. None)(P_sellerName := Some ''https://www.ebay.co.uk/usr/x''))
     P_sellerName \<noteq> Some ''https://www.ebay.co.uk/usr/x'' \<and>
   linkStep plain_decode (Some ''/str/top_seller?_tab=1'') = Name ''top_seller'' \<and>
   linkStep plain_decode (Some ''https://www.ebay.co.uk/usr/eBay'') = Pass \<and>
   linksStorefront plain_decode
     [Some ''https://www.ebay.co.uk/usr/eBay'', Some ''/str/top_seller?_tab=1''] =
     Some ''top_seller'' \<and>
   linkProductPage plain_decode [Some ''/str/top_seller?_tab=1''] = Some ''top_seller''"
proof -
  note r = sellerId_rules [where decode = plain_decode]
  note sf = r [THEN conjunct2, THEN conjunct2, THEN conjunct2, THEN conjunct1, rule_format]
  note pp = r [THEN conjunct2, THEN conjunct2, THEN conjunct2, THEN conjunct2, THEN conjunct1,
      rule_format]
  note ev = seller_eval forty_nine_name_def fifty_name_def
  have a1: "extractSellerIdFromStorefront plain_decode (Inr page_brand_meta) = Some ''top_seller''"
    using sf [where page = page_brand_meta, OF no_jsonld(1)]
    by (simp add: page_brand_meta_def ev)
  have a2: "extractSellerIdFromProductPage plain_decode (Inr page_brand_meta) = Some ''top_seller''"
    using pp [where page = page_brand_meta, OF no_jsonld(2)]
    by (simp add: page_brand_meta_def ev)
  have b1: "extractSellerIdFromStorefront plain_decode (Inr page_both) = Some ''marker_name''"
    using sf [where page = page_both, OF no_jsonld(3)]
    by (simp add: page_both_def ev)
  have b2: "extractSellerIdFromProductPage plain_decode (Inr page_both) = Some ''script_name''"
    using pp [where page = page_both, OF no_jsonld(4)]
    by (simp add: page_both_def ev)
  have c1: "extractSellerIdFromStorefront plain_decode (Inr page_script) = Some ''top_seller''"
    using sf [where page = page_script, OF no_jsonld(5)]
    by (simp add: page_script_def ev)
  have c2: "extractSellerIdFromProductPage plain_decode (Inr page_script) = Some ''top_seller''"
    using pp [where page = page_script, OF no_jsonld(6)]
    by (simp add: page_script_def ev)
  have d1: "extractSellerIdFromStorefront plain_decode (Inr page_links) = Some ''top_seller''"
    using sf [where page = page_links, OF no_jsonld(7)]
    by (simp add: page_links_def ev)
  have d2: "extractSellerIdFromProductPage plain_decode (Inr page_links) = None"
    using pp [where page = page_links, OF no_jsonld(8)]
    by (simp add: page_links_def ev)
  have e1: "extractSellerIdFromStorefront plain_decode (Inr page_nbsp) = Some forty_nine_name"
    using sf [where page = page_nbsp, OF no_jsonld(9)]
    by (simp add: page_nbsp_def ev)
  have e2: "extractSellerIdFromProductPage plain_decode (Inr page_nbsp) = Some forty_nine_name"
    using pp [where page = page_nbsp, OF no_jsonld(10)]
    by (simp add: page_nbsp_def ev)
  have f1: "extractSellerIdFromStorefront plain_decode (Inr page_long_jsonld) = Some long_name"
    using r [THEN conjunct2, THEN conjunct1, rule_format, where page = page_long_jsonld
        and c = long_name] long_jsonld_candidate by blast
  have f2: "extractSellerIdFromProductPage plain_decode (Inr page_long_jsonld) = Some long_name"
    using r [THEN conjunct2, THEN conjunct2, THEN conjunct1, rule_format,
        where page = page_long_jsonld and c = long_name] long_jsonld_candidate by blast
  have f3: "long_name \<noteq> []"
    using r [THEN conjunct1, rule_format, where opened = "Inr page_long_jsonld"
        and s = long_name] f1 by blast
  have g1: "metaCandidate (Some ''@top_seller'') = Some ''top_seller''"
    using r [THEN conjunct2, THEN conjunct2, THEN conjunct2, THEN conjunct2, THEN conjunct2,
        THEN conjunct1, rule_format, where content = "Some ''@top_seller''"
        and s = "''top_seller''"]
    by (simp add: ev)
  have g2: "metaCandidate (Some ''@eBay'') \<noteq> Some ''eBay''"
    using r [THEN conjunct2, THEN conjunct2, THEN conjunct2, THEN conjunct2, THEN conjunct2,
        THEN conjunct1, rule_format, where content = "Some ''@eBay''" and s = "''eBay''"]
    by (simp add: ev)
  have h1: "markerCandidate (Some (forty_nine_name @ [CHR 0xA0])) = Some forty_nine_name"
    using r [THEN conjunct2, THEN conjunct2, THEN conjunct2, THEN conjunct2, THEN conjunct2,
        THEN conjunct2, THEN conjunct1, rule_format,
        where textContent = "Some (forty_nine_name @ [CHR 0xA0])" and s = forty_nine_name]
    by (simp add: ev)
  have h2: "markerCandidate (Some fifty_name) \<noteq> Some fifty_name"
    using r [THEN conjunct2, THEN conjunct2, THEN conjunct2, THEN conjunct2, THEN conjunct2,
        THEN conjunct2, THEN conjunct1, rule_format,
        where textContent = "Some fifty_name" and s = fifty_name] fifty_eval(1)
    by (simp add: ev)
  have i1: "patternCandidate ((\<lambda>p. None)(P_sellerId := Some ''top_seller'')) P_sellerId =
     Some ''top_seller''"
    using r [THEN conjunct2, THEN conjunct2, THEN conjunct2, THEN conjunct2, THEN conjunct2,
        THEN conjunct2, THEN conjunct2, THEN conjunct1, rule_format,
        where script = "(\<lambda>p. None)(P_sellerId := Some ''top_seller'')"
        and pattern = P_sellerId and s = "''top_seller''"]
    by (simp add: ev)
  have i2: "patternCandidate ((\<lambda>p. None)(P_sellerName := Some ''https://www.ebay.co.uk/usr/x''))
     P_sellerName \<noteq> Some ''https://www.ebay.co.uk/usr/x''"
    using r [THEN conjunct2, THEN conjunct2, THEN conjunct2, THEN conjunct2, THEN conjunct2,
        THEN conjunct2, THEN conjunct2, THEN conjunct1, rule_format,
        where script = "(\<lambda>p. None)(P_sellerName := Some ''https://www.ebay.co.uk/usr/x'')"
        and pattern = P_sellerName and s = "''https://www.ebay.co.uk/usr/x''"]
    by (simp add: ev)
  have j1: "linkStep plain_decode (Some ''/str/top_seller?_tab=1'') = Name ''top_seller''"
    using r [THEN conjunct2, THEN conjunct2, THEN conjunct2, THEN conjunct2, THEN conjunct2,
        THEN conjunct2, THEN conjunct2, THEN conjunct2, THEN conjunct1, rule_format,
        where href = "Some ''/str/top_seller?_tab=1''" and s = "''top_seller''"]
    by (simp add: ev)
  have j2: "linkStep plain_decode (Some ''https://www.ebay.co.uk/usr/eBay'') = Pass"
    using r [THEN conjunct2, THEN conjunct2, THEN conjunct2, THEN conjunct2, THEN conjunct2,
        THEN conjunct2, THEN conjunct2, THEN conjunct2, THEN conjunct2, THEN conjunct1,
        rule_format, where href = "Some ''https://www.ebay.co.uk/usr/eBay''"]
    by (simp add: ev)
  have k1: "linksStorefront plain_decode
     [Some ''https://www.ebay.co.uk/usr/eBay'', Some ''/str/top_seller?_tab=1''] =
     Some ''top_seller''"
  proof -
    have "[Some ''https://www.ebay.co.uk/usr/eBay'', Some ''/str/top_seller?_tab=1''] =
        [Some ''https://www.ebay.co.uk/usr/eBay''] @ Some ''/str/top_seller?_tab=1'' # [] \<and>
        (\<forall>h\<in>set [Some ''https://www.ebay.co.uk/usr/eBay'']. linkStep plain_decode h = Pass) \<and>
        linkStep plain_decode (Some ''/str/top_seller?_tab=1'') = Name ''top_seller''"
      using j1 j2 by simp
    then show ?thesis
      using r [THEN conjunct2, THEN conjunct2, THEN conjunct2, THEN conjunct2, THEN conjunct2,
        THEN conjunct2, THEN conjunct2, THEN conjunct2, THEN conjunct2, THEN conjunct2,
        THEN conjunct1, rule_format,
        where hrefs = "[Some ''https://www.ebay.co.uk/usr/eBay'', Some ''/str/top_seller?_tab=1'']"
        and s = "''top_seller''"]
      by blast
  qed
  have k2: "linkProductPage plain_decode [Some ''/str/top_seller?_tab=1''] = Some ''top_seller''"
    using r [THEN conjunct2, THEN conjunct2, THEN conjunct2, THEN conjunct2, THEN conjunct2,
        THEN conjunct2, THEN conjunct2, THEN conjunct2, THEN conjunct2, THEN conjunct2,
        THEN conjunct2, rule_format, where hrefs = "[Some ''/str/top_seller?_tab=1'']"
        and s = "''top_seller''"] j1
    by simp
  from a1 a2 b1 b2 c1 c2 d1 d2 e1 e2 f1 f2 f3 g1 g2 h1 h2 i1 i2 j1 j2 k1 k2
  show ?thesis by (intro conjI)
qed

end
